theory Spec2Isabelle
  imports Complex_Main
begin

section \<open>JavaScript values\<close>

text \<open>
  A JavaScript number is modelled as a real: rounding, NaN and the infinities are not
  part of the model, except where the code itself can produce one of them or does not
  check for them (those places carry a datatype of their own below). The clock
  (\<^verbatim>\<open>performance.now()\<close>) and the random source (\<^verbatim>\<open>Math.random()\<close>) are
  arguments of the functions that read them.

  A landmark array is a list whose entries may be missing: the entry is \<open>None\<close> where
  the JavaScript array holds \<^verbatim>\<open>undefined\<close> or \<^verbatim>\<open>null\<close>. The coordinates of a
  landmark that is there are finite numbers, so \<^verbatim>\<open>Number.isFinite\<close> holds of them.
  Reading past the end of an array gives \<^verbatim>\<open>undefined\<close>.
\<close>

record landmark =
  lm_x :: real
  lm_y :: real
  lm_z :: real
  presence :: "real option"

definition js_index :: "'a option list \<Rightarrow> nat \<Rightarrow> 'a option" where
  "js_index xs i = (if i < length xs then xs ! i else None)"

text \<open>\<^verbatim>\<open>Math.hypot(a, b)\<close>.\<close>

definition hypot :: "real \<Rightarrow> real \<Rightarrow> real" where
  "hypot a b = sqrt (a * a + b * b)"

subsection \<open>Numbers with the special values\<close>

text \<open>
  The camera calibrator checks none of its numbers with \<^verbatim>\<open>Number.isFinite\<close>, so its
  numbers are the finite ones together with \<^verbatim>\<open>Infinity\<close>, \<^verbatim>\<open>-Infinity\<close> and \<^verbatim>\<open>NaN\<close>. The
  arithmetic on finite numbers is that of the reals (no rounding); a zero is the
  positive zero.
\<close>

datatype double = Dbl real | PosInfinity | NegInfinity | NotANumber

text \<open>The result of multiplying an infinity by a number of the sign of \<open>s\<close>.\<close>

definition inf_of_sign :: "real \<Rightarrow> double" where
  "inf_of_sign s = (if s = 0 then NotANumber else if s > 0 then PosInfinity else NegInfinity)"

fun d_neg :: "double \<Rightarrow> double" where
  "d_neg (Dbl a) = Dbl (- a)"
| "d_neg PosInfinity = NegInfinity"
| "d_neg NegInfinity = PosInfinity"
| "d_neg NotANumber = NotANumber"

fun d_add :: "double \<Rightarrow> double \<Rightarrow> double" where
  "d_add (Dbl a) (Dbl b) = Dbl (a + b)"
| "d_add NotANumber y = NotANumber"
| "d_add x NotANumber = NotANumber"
| "d_add PosInfinity NegInfinity = NotANumber"
| "d_add NegInfinity PosInfinity = NotANumber"
| "d_add PosInfinity y = PosInfinity"
| "d_add NegInfinity y = NegInfinity"
| "d_add x PosInfinity = PosInfinity"
| "d_add x NegInfinity = NegInfinity"

definition d_sub :: "double \<Rightarrow> double \<Rightarrow> double" where
  "d_sub x y = d_add x (d_neg y)"

fun d_mul :: "double \<Rightarrow> double \<Rightarrow> double" where
  "d_mul (Dbl a) (Dbl b) = Dbl (a * b)"
| "d_mul NotANumber y = NotANumber"
| "d_mul x NotANumber = NotANumber"
| "d_mul (Dbl a) PosInfinity = inf_of_sign a"
| "d_mul (Dbl a) NegInfinity = inf_of_sign (- a)"
| "d_mul PosInfinity (Dbl b) = inf_of_sign b"
| "d_mul NegInfinity (Dbl b) = inf_of_sign (- b)"
| "d_mul PosInfinity PosInfinity = PosInfinity"
| "d_mul PosInfinity NegInfinity = NegInfinity"
| "d_mul NegInfinity PosInfinity = NegInfinity"
| "d_mul NegInfinity NegInfinity = PosInfinity"

text \<open>Division; a divisor that is zero is the positive zero.\<close>

fun d_div :: "double \<Rightarrow> double \<Rightarrow> double" where
  "d_div (Dbl a) (Dbl b) = (if b = 0 then inf_of_sign a else Dbl (a / b))"
| "d_div NotANumber y = NotANumber"
| "d_div x NotANumber = NotANumber"
| "d_div (Dbl a) y = Dbl 0"
| "d_div PosInfinity (Dbl b) = (if b < 0 then NegInfinity else PosInfinity)"
| "d_div NegInfinity (Dbl b) = (if b < 0 then PosInfinity else NegInfinity)"
| "d_div x y = NotANumber"

text \<open>The comparisons \<^verbatim>\<open>x < t\<close> and \<^verbatim>\<open>x > t\<close> with a finite \<open>t\<close>: false of \<^verbatim>\<open>NaN\<close>.\<close>

fun d_less :: "double \<Rightarrow> real \<Rightarrow> bool" where
  "d_less (Dbl a) t = (a < t)"
| "d_less NegInfinity t = True"
| "d_less x t = False"

fun d_greater :: "double \<Rightarrow> real \<Rightarrow> bool" where
  "d_greater (Dbl a) t = (a > t)"
| "d_greater PosInfinity t = True"
| "d_greater x t = False"

text \<open>A number is falsy when it is zero or \<^verbatim>\<open>NaN\<close>.\<close>

fun truthy :: "double \<Rightarrow> bool" where
  "truthy (Dbl a) = (a \<noteq> 0)"
| "truthy NotANumber = False"
| "truthy x = True"

text \<open>
  \<^verbatim>\<open>Math.hypot(a, b)\<close>: \<^verbatim>\<open>Infinity\<close> when an argument is infinite, even if the other
  is \<^verbatim>\<open>NaN\<close>; otherwise \<^verbatim>\<open>NaN\<close> when an argument is.
\<close>

fun js_hypot :: "double \<Rightarrow> double \<Rightarrow> double" where
  "js_hypot PosInfinity y = PosInfinity"
| "js_hypot NegInfinity y = PosInfinity"
| "js_hypot x PosInfinity = PosInfinity"
| "js_hypot x NegInfinity = PosInfinity"
| "js_hypot (Dbl a) (Dbl b) = Dbl (hypot a b)"
| "js_hypot x y = NotANumber"

text \<open>
  \<^verbatim>\<open>Math.exp(x)\<close> at the two ends of the range of the doubles, as a correctly rounded
  exponential: the result is \<open>0\<close> when the exact value is at most \<open>1 / 2 ^ 1075\<close> (half
  of the smallest positive double), that is for \<open>x\<close> below about \<open>-745.13\<close>, and
  \<^verbatim>\<open>Infinity\<close> when it is at least \<open>2 ^ 1024 - 2 ^ 970\<close>. Between the two the result is
  the exact value.
\<close>

definition Math_exp :: "real \<Rightarrow> double" where
  "Math_exp x =
     (if exp x \<le> 1 / 2 ^ 1075 then Dbl 0
      else if exp x \<ge> 2 ^ 1024 - 2 ^ 970 then PosInfinity
      else Dbl (exp x))"


section \<open>CameraCalibrator.js\<close>

text \<open>
  The calibrator reads the \<^verbatim>\<open>x\<close> and \<^verbatim>\<open>y\<close> of two landmarks and checks neither for
  being a finite number; a coordinate that is \<^verbatim>\<open>undefined\<close> gives \<^verbatim>\<open>NaN\<close> in the
  arithmetic.
\<close>

record raw_landmark =
  raw_x :: double
  raw_y :: double

record sample =
  sample_value :: double
  timestamp :: real

record CameraCalibrator =
  samples :: "sample list"
  calibratedFocal :: "double option"
  lastCalibrationTime :: real

text \<open>The constants the constructor assigns and no method changes.\<close>

definition maxSamples :: nat where
  "maxSamples = 15"

definition minSamples :: nat where
  "minSamples = 8"

definition REAL_IPD_MM :: real where
  "REAL_IPD_MM = 63"

definition EYE_left :: nat where
  "EYE_left = 33"

definition EYE_right :: nat where
  "EYE_right = 263"

definition new_CameraCalibrator :: CameraCalibrator where
  "new_CameraCalibrator =
     \<lparr>samples = [], calibratedFocal = None, lastCalibrationTime = 0\<rparr>"

text \<open>
  The pixel distance between the two eye landmarks (lines 31-34). The image width is
  \<^verbatim>\<open>NaN\<close> in the arithmetic when the caller passes \<^verbatim>\<open>undefined\<close>.
\<close>

definition eyePixelDistance :: "raw_landmark \<Rightarrow> raw_landmark \<Rightarrow> double \<Rightarrow> double" where
  "eyePixelDistance leftEye rightEye imageWidth =
     js_hypot (d_mul (d_sub (raw_x rightEye) (raw_x leftEye)) imageWidth)
              (d_mul (d_sub (raw_y rightEye) (raw_y leftEye)) imageWidth)"

text \<open>
  \<^verbatim>\<open>estimateFocalLength(landmarks, imageWidth)\<close>. The argument is \<open>None\<close> for a
  \<^verbatim>\<open>landmarks\<close> that is \<^verbatim>\<open>null\<close> or \<^verbatim>\<open>undefined\<close>: indexing it throws, and the
  \<^verbatim>\<open>catch\<close> returns \<^verbatim>\<open>null\<close>.
\<close>

definition estimateFocalLength :: "raw_landmark option list option \<Rightarrow> double \<Rightarrow> double option" where
  "estimateFocalLength landmarks imageWidth =
     (case landmarks of
        None \<Rightarrow> None
      | Some lms \<Rightarrow>
          (case js_index lms EYE_left of
             None \<Rightarrow> None
           | Some leftEye \<Rightarrow>
               (case js_index lms EYE_right of
                  None \<Rightarrow> None
                | Some rightEye \<Rightarrow>
                    (let pixelDistance = eyePixelDistance leftEye rightEye imageWidth in
                     if d_less pixelDistance 20 \<or> d_greater pixelDistance 200 then None
                     else
                       (let focalLength = d_div (d_mul pixelDistance (Dbl REAL_IPD_MM)) (Dbl 30) in
                        if d_less focalLength 500 \<or> d_greater focalLength 3000 then None
                        else Some focalLength)))))"

text \<open>
  \<^verbatim>\<open>addSample(focalLength)\<close>: the argument is \<open>None\<close> for \<^verbatim>\<open>null\<close>; \<open>0\<close> and \<^verbatim>\<open>NaN\<close>
  are falsy as well. \<open>now\<close> is the clock reading.
\<close>

definition addSample :: "CameraCalibrator \<Rightarrow> double option \<Rightarrow> real \<Rightarrow> bool \<times> CameraCalibrator" where
  "addSample c focalLength now =
     (case focalLength of
        None \<Rightarrow> (False, c)
      | Some f \<Rightarrow>
          if \<not> truthy f then (False, c)
          else
            (let pushed = samples c @ [\<lparr>sample_value = f, timestamp = now\<rparr>];
                 kept = (if length pushed > maxSamples then tl pushed else pushed)
             in (True, c\<lparr>samples := kept\<rparr>)))"

text \<open>\<^verbatim>\<open>_calculateVariance()\<close>; \<^verbatim>\<open>Math.pow(v, 2)\<close> is the product of \<open>v\<close> with itself.\<close>

definition calculateVariance :: "CameraCalibrator \<Rightarrow> double" where
  "calculateVariance c =
     (if length (samples c) < 2 then Dbl 0
      else
        (let mean = d_div (foldl (\<lambda>sum s. d_add sum (sample_value s)) (Dbl 0) (samples c))
                      (Dbl (real (length (samples c))))
         in d_div (foldl (\<lambda>sum s. d_add sum (d_mul (d_sub (sample_value s) mean)
                                                     (d_sub (sample_value s) mean)))
                     (Dbl 0) (samples c))
              (Dbl (real (length (samples c))))))"

text \<open>The loop of lines 91-96: the pair is \<open>(weightedSum, totalWeight)\<close>.\<close>

definition weightedSums :: "real \<Rightarrow> sample list \<Rightarrow> double \<times> double" where
  "weightedSums now xs =
     foldl (\<lambda>(weightedSum, totalWeight) s.
              (let age = now - timestamp s;
                   weight = Math_exp (- age / 5000)
               in (d_add weightedSum (d_mul (sample_value s) weight), d_add totalWeight weight)))
           (Dbl 0, Dbl 0) xs"

definition getCalibratedFocalLength :: "CameraCalibrator \<Rightarrow> real \<Rightarrow> double option \<times> CameraCalibrator" where
  "getCalibratedFocalLength c now =
     (if length (samples c) < minSamples then (None, c)
      else
        (let (weightedSum, totalWeight) = weightedSums now (samples c);
             focal = d_div weightedSum totalWeight
         in if d_less focal 500 \<or> d_greater focal 3000 then (None, c)
            else
              (let variance = calculateVariance c
               in if d_greater variance 10000 then (None, c)
                  else (Some focal,
                        c\<lparr>calibratedFocal := Some focal, lastCalibrationTime := now\<rparr>))))"

text \<open>\<^verbatim>\<open>isStable()\<close>: a stored focal length that is \<open>0\<close> or \<^verbatim>\<open>NaN\<close> is falsy.\<close>

definition isStable :: "CameraCalibrator \<Rightarrow> real \<Rightarrow> bool" where
  "isStable c now =
     (case calibratedFocal c of
        None \<Rightarrow> False
      | Some f \<Rightarrow>
          if \<not> truthy f then False
          else d_less (calculateVariance c) 5000 \<and> now - lastCalibrationTime c < 10000)"

definition reset_calibrator :: "CameraCalibrator \<Rightarrow> CameraCalibrator" where
  "reset_calibrator c = c\<lparr>samples := [], calibratedFocal := None, lastCalibrationTime := 0\<rparr>"

text \<open>The calls that change a calibrator, and a run of them from left to right.\<close>

datatype calibrator_call =
    AddSample "double option" real
  | GetCalibratedFocalLength real
  | ResetCalibrator

fun calibrator_step :: "CameraCalibrator \<Rightarrow> calibrator_call \<Rightarrow> CameraCalibrator" where
  "calibrator_step c (AddSample f now) = snd (addSample c f now)"
| "calibrator_step c (GetCalibratedFocalLength now) = snd (getCalibratedFocalLength c now)"
| "calibrator_step c ResetCalibrator = reset_calibrator c"

definition calibrator_run :: "CameraCalibrator \<Rightarrow> calibrator_call list \<Rightarrow> CameraCalibrator" where
  "calibrator_run c calls = foldl calibrator_step c calls"

text \<open>A number within the device-plausible range.\<close>

fun in_range :: "double \<Rightarrow> bool" where
  "in_range (Dbl f) = (500 \<le> f \<and> f \<le> 3000)"
| "in_range x = False"

text \<open>The stored focal length is absent or within the device-plausible range.\<close>

definition focal_in_range :: "CameraCalibrator \<Rightarrow> bool" where
  "focal_in_range c = (case calibratedFocal c of None \<Rightarrow> True | Some f \<Rightarrow> in_range f)"

subsection \<open>Concrete inputs\<close>

text \<open>A landmark array with the two eye landmarks only, at finite coordinates.\<close>

definition raw_point :: "real \<Rightarrow> real \<Rightarrow> raw_landmark" where
  "raw_point a b = \<lparr>raw_x = Dbl a, raw_y = Dbl b\<rparr>"

definition raw_eyes :: "raw_landmark \<Rightarrow> raw_landmark \<Rightarrow> raw_landmark option list" where
  "raw_eyes leftEye rightEye =
     (replicate 264 None)[EYE_left := Some leftEye, EYE_right := Some rightEye]"

text \<open>Samples that all carry the clock reading \<open>t\<close>.\<close>

definition samples_at :: "real \<Rightarrow> real list \<Rightarrow> sample list" where
  "samples_at t vs = map (\<lambda>v. \<lparr>sample_value = Dbl v, timestamp = t\<rparr>) vs"

definition stored_900 :: "real list \<Rightarrow> CameraCalibrator" where
  "stored_900 vs =
     \<lparr>samples = samples_at 7 vs, calibratedFocal = Some (Dbl 900), lastCalibrationTime = 3\<rparr>"

text \<open>
  Eight samples of 1000 taken at time 0, and a calibration 5000 seconds later (each
  weight is \<^verbatim>\<open>Math.exp(-1000)\<close>).
\<close>

definition stale_calls :: "calibrator_call list" where
  "stale_calls =
     replicate 8 (AddSample (Some (Dbl 1000)) 0) @ [GetCalibratedFocalLength 5000000]"

definition eight_samples :: CameraCalibrator where
  "eight_samples =
     \<lparr>samples = samples_at 0 [1000, 1000, 1000, 1000, 1000, 1000, 1000, 1000],
      calibratedFocal = None, lastCalibrationTime = 0\<rparr>"

section \<open>AdvancedPoseEstimator.js\<close>

text \<open>
  Image points \<^verbatim>\<open>{x, y}\<close>, \<^verbatim>\<open>THREE.Vector3\<close>, \<^verbatim>\<open>THREE.Quaternion\<close>, \<^verbatim>\<open>THREE.Euler\<close>,
  and a JavaScript array of three numbers.
\<close>

record vec2 =
  x2 :: real
  y2 :: real

record Vector3 =
  x3 :: real
  y3 :: real
  z3 :: real

record Quaternion =
  qx :: real
  qy :: real
  qz :: real
  qw :: real

record Euler =
  ex :: real
  ey :: real
  ez :: real

type_synonym array3 = "real \<times> real \<times> real"

text \<open>A number that may be \<^verbatim>\<open>Infinity\<close>.\<close>

datatype ext = Fin real | PInf

text \<open>\<^verbatim>\<open>a < b\<close> for a number \<open>a\<close> and a \<open>b\<close> that may be \<^verbatim>\<open>Infinity\<close>.\<close>

definition less_ext :: "real \<Rightarrow> ext \<Rightarrow> bool" where
  "less_ext a b = (case b of Fin r \<Rightarrow> a < r | PInf \<Rightarrow> True)"

text \<open>\<^verbatim>\<open>a || b\<close> on an optional number: \<^verbatim>\<open>undefined\<close> and \<open>0\<close> are falsy.\<close>

definition js_or :: "real option \<Rightarrow> real \<Rightarrow> real" where
  "js_or a b = (case a of None \<Rightarrow> b | Some v \<Rightarrow> if v = 0 then b else v)"

definition js_or_nat :: "nat option \<Rightarrow> nat \<Rightarrow> nat" where
  "js_or_nat a b = (case a of None \<Rightarrow> b | Some v \<Rightarrow> if v = 0 then b else v)"

subsection \<open>The canonical face model\<close>

definition CANONICAL_vertices :: "real list" where
  "CANONICAL_vertices =
     [32.5, 8.5, 8.5,
      0, -5.2, 18.5,
      0, -55.0, 5.0,
      -32.5, 8.5, 8.5,
      24.0, -30.0, 10.0,
      -24.0, -30.0, 10.0,
      40.0, 20.0, 6.0,
      -40.0, 20.0, 6.0,
      0, 35.0, 8.0,
      0, 5.0, 10.0,
      75.0, -5.0, -5.0,
      -75.0, -5.0, -5.0,
      12.5, 8.5, 10.0,
      -12.5, 8.5, 10.0,
      12.0, -15.0, 15.0,
      -12.0, -15.0, 15.0,
      50.0, -10.0, 10.0,
      -50.0, -10.0, 10.0,
      45.0, -45.0, 0,
      -45.0, -45.0, 0,
      0, -25.0, 12.0,
      0, -35.0, 10.0]"

definition landmarkToModel :: "(nat \<times> nat) list" where
  "landmarkToModel =
     [(33, 0), (1, 1), (152, 2), (263, 3), (61, 4), (291, 5), (70, 6), (300, 7),
      (10, 8), (6, 9), (234, 10), (454, 11), (133, 12), (362, 13), (98, 14), (327, 15),
      (50, 16), (280, 17), (172, 18), (397, 19), (13, 20), (14, 21)]"

text \<open>
  \<^verbatim>\<open>Object.entries\<close> lists the integer keys of an object in ascending numeric order,
  whatever the order of the literal.
\<close>

definition object_entries :: "(nat \<times> nat) list \<Rightarrow> (nat \<times> nat) list" where
  "object_entries m = sort_key fst m"

record FaceModel3D =
  vertices :: "Vector3 list"
  landmarkIndices :: "nat list"

definition new_FaceModel3D :: FaceModel3D where
  "new_FaceModel3D =
     (let v = CANONICAL_vertices; entries = object_entries landmarkToModel
      in \<lparr>vertices = map (\<lambda>(landmarkIdx, modelIdx).
                           (let offset = modelIdx * 3
                            in \<lparr>x3 = v ! offset, y3 = v ! (offset + 1), z3 = v ! (offset + 2)\<rparr>))
                         entries,
          landmarkIndices = map fst entries\<rparr>)"

subsection \<open>CameraIntrinsics\<close>

text \<open>The field \<^verbatim>\<open>matrix\<close> repeats the other fields and is left out.\<close>

record CameraIntrinsics =
  cam_width :: real
  cam_height :: real
  focalLength :: real
  cx :: real
  cy :: real

definition new_CameraIntrinsics :: "real \<Rightarrow> real \<Rightarrow> real option \<Rightarrow> CameraIntrinsics" where
  "new_CameraIntrinsics w h f =
     \<lparr>cam_width = w, cam_height = h, focalLength = js_or f (max w h), cx = w / 2, cy = h / 2\<rparr>"

definition update_intrinsics :: "CameraIntrinsics \<Rightarrow> real \<Rightarrow> real \<Rightarrow> real option \<Rightarrow> CameraIntrinsics" where
  "update_intrinsics cam w h f =
     cam\<lparr>cam_width := w, cam_height := h, focalLength := js_or f (focalLength cam),
         cx := w / 2, cy := h / 2\<rparr>"

definition project :: "CameraIntrinsics \<Rightarrow> Vector3 \<Rightarrow> vec2 option" where
  "project cam point3D =
     (let z = z3 point3D
      in if z \<le> 0 then None
         else Some \<lparr>x2 = (focalLength cam * x3 point3D / z) + cx cam,
                     y2 = (focalLength cam * y3 point3D / z) + cy cam\<rparr>)"

subsection \<open>RANSAC\<close>

record correspondence =
  image_pt :: vec2
  model_pt :: Vector3
  landmarkIdx :: nat

record RANSAC =
  maxIterations :: nat
  inlierThreshold :: real
  minInliers :: nat

record RANSAC_options =
  opt_maxIterations :: "nat option"
  opt_inlierThreshold :: "real option"
  opt_minInliers :: "nat option"

definition new_RANSAC :: "RANSAC_options \<Rightarrow> RANSAC" where
  "new_RANSAC options =
     \<lparr>maxIterations = js_or_nat (opt_maxIterations options) 100,
      inlierThreshold = js_or (opt_inlierThreshold options) 10,
      minInliers = js_or_nat (opt_minInliers options) 6\<rparr>"

definition no_RANSAC_options :: RANSAC_options where
  "no_RANSAC_options =
     \<lparr>opt_maxIterations = None, opt_inlierThreshold = None, opt_minInliers = None\<rparr>"

text \<open>\<^verbatim>\<open>Array.from({ length: n }, (_, i) => i)\<close>.\<close>

definition all_indices :: "nat \<Rightarrow> nat list" where
  "all_indices n = [0..<n]"

text \<open>\<^verbatim>\<open>indices.splice(idx, 1)\<close>: the list without its element at \<open>idx\<close>.\<close>

definition splice1 :: "nat list \<Rightarrow> nat \<Rightarrow> nat list" where
  "splice1 indices idx = take idx indices @ drop (Suc idx) indices"

text \<open>
  \<^verbatim>\<open>_randomSample(n, k)\<close>. \<open>rnd j\<close> is the result of the \<open>j\<close>-th call of
  \<^verbatim>\<open>Math.random()\<close>, a number in \<open>[0, 1)\<close>, and \<open>pos\<close> counts the calls made so far;
  the function returns the sample and the new count. For a number in \<open>[0, 1)\<close> the
  index is within the list; the model stops the loop otherwise.
\<close>

fun randomSample_loop :: "(nat \<Rightarrow> real) \<Rightarrow> nat \<Rightarrow> nat list \<Rightarrow> nat \<Rightarrow> nat list \<times> nat" where
  "randomSample_loop rnd pos indices 0 = ([], pos)"
| "randomSample_loop rnd pos indices (Suc k) =
     (if indices = [] then ([], pos)
      else
        (let idx = nat \<lfloor>rnd pos * real (length indices)\<rfloor>
         in if idx < length indices
            then (let (rest, pos') = randomSample_loop rnd (Suc pos) (splice1 indices idx) k
                  in (indices ! idx # rest, pos'))
            else ([], Suc pos)))"

definition randomSample :: "(nat \<Rightarrow> real) \<Rightarrow> nat \<Rightarrow> nat \<Rightarrow> nat \<Rightarrow> nat list \<times> nat" where
  "randomSample rnd pos n k = randomSample_loop rnd pos (all_indices n) k"

text \<open>Twice the area of the triangle of three image points (lines 312-315).\<close>

definition triangle_area :: "vec2 \<Rightarrow> vec2 \<Rightarrow> vec2 \<Rightarrow> real" where
  "triangle_area p q r =
     \<bar>(x2 q - x2 p) * (y2 r - y2 p) - (x2 r - x2 p) * (y2 q - y2 p)\<bar>"

text \<open>\<^verbatim>\<open>_isValidSample\<close>: false as soon as three points of the sample are too collinear.\<close>

definition isValidSample :: "correspondence list \<Rightarrow> nat list \<Rightarrow> bool" where
  "isValidSample correspondences smp =
     (if length smp < 3 then True
      else
        (let points = map (\<lambda>i. image_pt (correspondences ! i)) smp;
             m = length points
         in list_all (\<lambda>i. list_all (\<lambda>j. list_all (\<lambda>k.
                \<not> triangle_area (points ! i) (points ! j) (points ! k) < 100)
              [Suc j..<m]) [Suc i..<m]) [0..<m]))"

text \<open>
  The loop of lines 261-276 over all correspondences: the indices within the threshold
  and the sum of their errors. A point that does not project is skipped.
\<close>

fun scoreInliers :: "real \<Rightarrow> (Vector3 \<Rightarrow> vec2 option) \<Rightarrow> correspondence list \<Rightarrow> nat
    \<Rightarrow> nat list \<times> real \<Rightarrow> nat list \<times> real" where
  "scoreInliers threshold projectFn [] i acc = acc"
| "scoreInliers threshold projectFn (c # cs) i (inliers, totalError) =
     (case projectFn (model_pt c) of
        None \<Rightarrow> scoreInliers threshold projectFn cs (Suc i) (inliers, totalError)
      | Some projected \<Rightarrow>
          (let error = hypot (x2 projected - x2 (image_pt c)) (y2 projected - y2 (image_pt c))
           in if error < threshold
              then scoreInliers threshold projectFn cs (Suc i) (inliers @ [i], totalError + error)
              else scoreInliers threshold projectFn cs (Suc i) (inliers, totalError)))"

text \<open>
  The iterations of \<^verbatim>\<open>findInliers\<close> that remain, with the best inliers and their error
  so far: an invalid sample skips the iteration (\<^verbatim>\<open>continue\<close>), and the loop ends early
  once the best set holds 80 percent of the points (\<^verbatim>\<open>break\<close>).
\<close>

fun findInliers_loop :: "RANSAC \<Rightarrow> (nat \<Rightarrow> real) \<Rightarrow> correspondence list \<Rightarrow> (Vector3 \<Rightarrow> vec2 option)
    \<Rightarrow> nat \<Rightarrow> nat \<Rightarrow> nat list \<times> ext \<Rightarrow> nat list \<times> ext" where
  "findInliers_loop R rnd correspondences projectFn 0 pos best = best"
| "findInliers_loop R rnd correspondences projectFn (Suc remaining) pos (bestInliers, bestError) =
     (let n = length correspondences;
          sampleSize = 4;
          (smp, pos') = randomSample rnd pos n sampleSize
      in if \<not> isValidSample correspondences smp
         then findInliers_loop R rnd correspondences projectFn remaining pos' (bestInliers, bestError)
         else
           (let (inliers, totalError) =
                  scoreInliers (inlierThreshold R) projectFn correspondences 0 ([], 0);
                best' = (if length inliers > length bestInliers \<or>
                            (length inliers = length bestInliers \<and> less_ext totalError bestError)
                         then (inliers, Fin totalError)
                         else (bestInliers, bestError))
            in if real (length (fst best')) \<ge> real n * 0.8 then best'
               else findInliers_loop R rnd correspondences projectFn remaining pos' best'))"

definition findInliers :: "RANSAC \<Rightarrow> (nat \<Rightarrow> real) \<Rightarrow> correspondence list \<Rightarrow> (Vector3 \<Rightarrow> vec2 option)
    \<Rightarrow> nat list" where
  "findInliers R rnd correspondences projectFn =
     (let n = length correspondences
      in if n < minInliers R then all_indices n
         else
           (let (bestInliers, bestError) =
                  findInliers_loop R rnd correspondences projectFn (maxIterations R) 0 ([], PInf)
            in if length bestInliers \<ge> minInliers R then bestInliers else all_indices n))"

subsection \<open>AdvancedPoseEstimator\<close>

text \<open>
  three.js is not part of the repository: the two functions of it that the modelled
  code calls are arguments (\<^verbatim>\<open>Vector3.applyQuaternion\<close> and
  \<^verbatim>\<open>Quaternion.setFromEuler\<close>).
\<close>

record three_lib =
  applyQuaternion :: "Vector3 \<Rightarrow> Quaternion \<Rightarrow> Vector3"
  setFromEuler :: "Euler \<Rightarrow> Quaternion"

text \<open>
  A pose object \<^verbatim>\<open>{rotation, translation, quaternion, euler}\<close>; the object that
  \<^verbatim>\<open>_perturbPose\<close> returns has no \<^verbatim>\<open>rotation\<close>.
\<close>

record rigid =
  quaternion :: Quaternion
  translation :: array3
  euler :: Euler

record pose = rigid +
  rotation :: array3

record pose_result =
  res_rotation :: array3
  res_translation :: array3
  res_quaternion :: Quaternion
  res_euler :: Euler
  reprojectionError :: ext
  confidence :: real
  inlierRatio :: real
  res_timestamp :: real

record AdvancedPoseEstimator =
  useRANSAC :: bool
  refinePose :: bool
  faceModel :: FaceModel3D
  camera :: CameraIntrinsics
  ransac :: RANSAC
  previousPose :: "pose_result option"
  poseHistory :: "pose_result list"

definition maxHistoryLength :: nat where
  "maxHistoryLength = 10"

record estimator_options =
  opt_useRANSAC :: "bool option"
  opt_refinePose :: "bool option"
  opt_ransac :: "RANSAC_options option"

definition new_AdvancedPoseEstimator :: "estimator_options \<Rightarrow> AdvancedPoseEstimator" where
  "new_AdvancedPoseEstimator options =
     \<lparr>useRANSAC = (opt_useRANSAC options \<noteq> Some False),
      refinePose = (opt_refinePose options \<noteq> Some False),
      faceModel = new_FaceModel3D,
      camera = new_CameraIntrinsics 640 480 None,
      ransac = new_RANSAC (case opt_ransac options of None \<Rightarrow> no_RANSAC_options | Some r \<Rightarrow> r),
      previousPose = None,
      poseHistory = []\<rparr>"

definition no_estimator_options :: estimator_options where
  "no_estimator_options = \<lparr>opt_useRANSAC = None, opt_refinePose = None, opt_ransac = None\<rparr>"

text \<open>\<^verbatim>\<open>_buildCorrespondences\<close>: the loop over the mapped landmark indices.\<close>

fun buildCorrespondences_loop :: "(nat \<times> Vector3) list \<Rightarrow> landmark option list \<Rightarrow> real \<Rightarrow> real
    \<Rightarrow> correspondence list" where
  "buildCorrespondences_loop [] landmarks w h = []"
| "buildCorrespondences_loop ((idx, vertex) # entries) landmarks w h =
     (case js_index landmarks idx of
        None \<Rightarrow> buildCorrespondences_loop entries landmarks w h
      | Some lm \<Rightarrow>
          \<lparr>image_pt = \<lparr>x2 = lm_x lm * w, y2 = lm_y lm * h\<rparr>, model_pt = vertex, landmarkIdx = idx\<rparr>
            # buildCorrespondences_loop entries landmarks w h)"

definition buildCorrespondences :: "FaceModel3D \<Rightarrow> landmark option list \<Rightarrow> real \<Rightarrow> real
    \<Rightarrow> correspondence list" where
  "buildCorrespondences fm landmarks w h =
     buildCorrespondences_loop (zip (landmarkIndices fm) (vertices fm)) landmarks w h"

text \<open>The model point under a pose (lines 689-693 and 849-853).\<close>

definition transformPoint :: "three_lib \<Rightarrow> 'a rigid_scheme \<Rightarrow> Vector3 \<Rightarrow> Vector3" where
  "transformPoint L p m =
     (let t = applyQuaternion L m (quaternion p);
          (t0, t1, t2) = translation p
      in \<lparr>x3 = x3 t + t0, y3 = y3 t + t1, z3 = z3 t + t2\<rparr>)"

definition perturbPose :: "three_lib \<Rightarrow> 'a rigid_scheme \<Rightarrow> nat \<Rightarrow> real \<Rightarrow> rigid" where
  "perturbPose L p paramIndex eps =
     (let e = euler p;
          (t0, t1, t2) = translation p
      in if paramIndex < 3
         then
           (let angles = [ex e, ey e, ez e];
                angles' = angles[paramIndex := angles ! paramIndex + eps];
                e' = \<lparr>ex = angles' ! 0, ey = angles' ! 1, ez = angles' ! 2\<rparr>
            in \<lparr>quaternion = setFromEuler L e', translation = (t0, t1, t2), euler = e'\<rparr>)
         else
           (let t = [t0, t1, t2];
                t' = t[paramIndex - 3 := t ! (paramIndex - 3) + eps]
            in \<lparr>quaternion = setFromEuler L e, translation = (t' ! 0, t' ! 1, t' ! 2), euler = e\<rparr>))"

text \<open>One row of the Jacobian (lines 705-725): two entries for each of the six parameters.\<close>

definition jacobianRow :: "three_lib \<Rightarrow> CameraIntrinsics \<Rightarrow> 'a rigid_scheme \<Rightarrow> Vector3 \<Rightarrow> vec2
    \<Rightarrow> real list" where
  "jacobianRow L cam p m projected =
     (let eps = 1 / 1000000
      in concat (map (\<lambda>k.
           (case project cam (transformPoint L (perturbPose L p k eps) m) of
              Some projectedPlus \<Rightarrow>
                [(x2 projectedPlus - x2 projected) / eps, (y2 projectedPlus - y2 projected) / eps]
            | None \<Rightarrow> [0, 0]))
         [0..<6]))"

text \<open>\<^verbatim>\<open>_computeJacobian\<close>: the pair is \<open>(J, r)\<close>. A point that does not project adds nothing.\<close>

fun computeJacobian :: "three_lib \<Rightarrow> CameraIntrinsics \<Rightarrow> 'a rigid_scheme \<Rightarrow> correspondence list
    \<Rightarrow> real list list \<times> real list" where
  "computeJacobian L cam p [] = ([], [])"
| "computeJacobian L cam p (c # cs) =
     (let (J, r) = computeJacobian L cam p cs
      in case project cam (transformPoint L p (model_pt c)) of
           None \<Rightarrow> (J, r)
         | Some projected \<Rightarrow>
             (jacobianRow L cam p (model_pt c) projected # J,
              (x2 (image_pt c) - x2 projected) # (y2 (image_pt c) - y2 projected) # r))"

text \<open>
  \<^verbatim>\<open>_solveNormalEquations\<close>: \<open>JTJ\<close> is the flat 6 by 6 array, and the solve is 50
  Gauss-Seidel sweeps that update \<open>delta\<close> in place.
\<close>

definition normal_JTJ :: "real list list \<Rightarrow> real list" where
  "normal_JTJ J =
     concat (map (\<lambda>j. map (\<lambda>k.
        foldl (\<lambda>s row. s + (row ! (j * 2) * row ! (k * 2) + row ! (j * 2 + 1) * row ! (k * 2 + 1))) 0 J)
       [0..<6]) [0..<6])"

definition normal_JTr :: "real list list \<Rightarrow> real list \<Rightarrow> real list" where
  "normal_JTr J r =
     map (\<lambda>j.
        foldl (\<lambda>s i. s + ((J ! i) ! (j * 2) * r ! (i * 2) + (J ! i) ! (j * 2 + 1) * r ! (i * 2 + 1)))
          0 [0..<length J])
       [0..<6]"

definition gaussSeidel_row :: "real list \<Rightarrow> real list \<Rightarrow> real list \<Rightarrow> nat \<Rightarrow> real list" where
  "gaussSeidel_row JTJ JTr delta i =
     (let sum = foldl (\<lambda>sum j. if i \<noteq> j then sum - JTJ ! (i * 6 + j) * delta ! j else sum)
                  (JTr ! i) [0..<6]
      in delta[i := sum / (JTJ ! (i * 6 + i) + 1 / 10000000000)])"

definition gaussSeidel_sweep :: "real list \<Rightarrow> real list \<Rightarrow> real list \<Rightarrow> real list" where
  "gaussSeidel_sweep JTJ JTr delta = foldl (gaussSeidel_row JTJ JTr) delta [0..<6]"

definition solveNormalEquations :: "real list list \<Rightarrow> real list \<Rightarrow> real list" where
  "solveNormalEquations J r =
     ((gaussSeidel_sweep (normal_JTJ J) (normal_JTr J r)) ^^ 50) (replicate 6 0)"

definition updatePose :: "three_lib \<Rightarrow> pose \<Rightarrow> real list \<Rightarrow> pose" where
  "updatePose L p delta =
     (let e = \<lparr>ex = ex (euler p) + delta ! 0, ey = ey (euler p) + delta ! 1,
               ez = ez (euler p) + delta ! 2\<rparr>;
          (t0, t1, t2) = translation p
      in \<lparr>quaternion = setFromEuler L e,
          translation = (t0 + delta ! 3, t1 + delta ! 4, t2 + delta ! 5),
          euler = e,
          rotation = (ex e, ey e, ez e)\<rparr>)"

text \<open>
  \<^verbatim>\<open>_iterativeRefinement\<close>: at most 10 iterations; \<^verbatim>\<open>_solveNormalEquations\<close> always
  returns an array, so the loop ends early only on convergence.
\<close>

fun iterativeRefinement_loop :: "three_lib \<Rightarrow> CameraIntrinsics \<Rightarrow> correspondence list \<Rightarrow> nat \<Rightarrow> pose
    \<Rightarrow> pose" where
  "iterativeRefinement_loop L cam correspondences 0 currentPose = currentPose"
| "iterativeRefinement_loop L cam correspondences (Suc remaining) currentPose =
     (let (J, r) = computeJacobian L cam currentPose correspondences;
          delta = solveNormalEquations J r;
          nextPose = updatePose L currentPose delta;
          deltaNorm = sqrt (foldl (\<lambda>sum d. sum + d * d) 0 delta)
      in if deltaNorm < 1 / 1000000 then nextPose
         else iterativeRefinement_loop L cam correspondences remaining nextPose)"

definition iterativeRefinement :: "three_lib \<Rightarrow> CameraIntrinsics \<Rightarrow> pose \<Rightarrow> correspondence list \<Rightarrow> pose" where
  "iterativeRefinement L cam p correspondences = iterativeRefinement_loop L cam correspondences 10 p"

text \<open>
  \<^verbatim>\<open>_solvePnP\<close>. The initial estimate \<^verbatim>\<open>_initialEstimateDLT\<close> (a power iteration from a
  random start vector, then a decomposition through three.js) is the argument \<open>dlt\<close>:
  what follows holds for every result it may give, \<^verbatim>\<open>null\<close> included.
\<close>

definition solvePnP :: "three_lib \<Rightarrow> (CameraIntrinsics \<Rightarrow> correspondence list \<Rightarrow> pose option)
    \<Rightarrow> CameraIntrinsics \<Rightarrow> correspondence list \<Rightarrow> pose option" where
  "solvePnP L dlt cam correspondences =
     (if length correspondences < 4 then None
      else
        (case dlt cam correspondences of
           None \<Rightarrow> None
         | Some initialPose \<Rightarrow> Some (iterativeRefinement L cam initialPose correspondences)))"

text \<open>
  \<^verbatim>\<open>_calculateReprojectionError\<close>: the pair is \<open>(totalError, count)\<close>; the result is
  \<^verbatim>\<open>Infinity\<close> when no point projects.
\<close>

fun reprojection_loop :: "three_lib \<Rightarrow> CameraIntrinsics \<Rightarrow> 'a rigid_scheme \<Rightarrow> correspondence list
    \<Rightarrow> real \<times> nat \<Rightarrow> real \<times> nat" where
  "reprojection_loop L cam p [] acc = acc"
| "reprojection_loop L cam p (c # cs) (totalError, count) =
     (case project cam (transformPoint L p (model_pt c)) of
        None \<Rightarrow> reprojection_loop L cam p cs (totalError, count)
      | Some projected \<Rightarrow>
          (let error = hypot (x2 (image_pt c) - x2 projected) (y2 (image_pt c) - y2 projected)
           in reprojection_loop L cam p cs (totalError + error, Suc count)))"

definition calculateReprojectionError :: "three_lib \<Rightarrow> CameraIntrinsics \<Rightarrow> 'a rigid_scheme
    \<Rightarrow> correspondence list \<Rightarrow> ext" where
  "calculateReprojectionError L cam p correspondences =
     (let (totalError, count) = reprojection_loop L cam p correspondences (0, 0)
      in if count > 0 then Fin (totalError / real count) else PInf)"

text \<open>
  \<^verbatim>\<open>Math.max(0, 1 - reprojectionError / 50)\<close>: for \<^verbatim>\<open>Infinity\<close> the difference is
  \<^verbatim>\<open>-Infinity\<close> and the maximum is \<open>0\<close>.
\<close>

definition confidence_of :: "ext \<Rightarrow> real" where
  "confidence_of e = (case e of Fin r \<Rightarrow> max 0 (1 - r / 50) | PInf \<Rightarrow> 0)"

definition updateHistory :: "AdvancedPoseEstimator \<Rightarrow> pose_result \<Rightarrow> AdvancedPoseEstimator" where
  "updateHistory e r =
     (let pushed = poseHistory e @ [r];
          kept = (if length pushed > maxHistoryLength then tl pushed else pushed)
      in e\<lparr>poseHistory := kept, previousPose := Some r\<rparr>)"

record estimate_options =
  opt_width :: "real option"
  opt_height :: "real option"

text \<open>
  \<^verbatim>\<open>estimate(landmarks, options)\<close>. \<open>landmarks\<close> is \<open>None\<close> for \<^verbatim>\<open>null\<close> or
  \<^verbatim>\<open>undefined\<close>, \<open>now\<close> is the clock reading of the result's timestamp. The camera
  update of lines 378-380 stays in the estimator when the call returns \<^verbatim>\<open>null\<close>.
  \<^verbatim>\<open>_refinePose\<close> has an empty body.
\<close>

definition estimate :: "three_lib \<Rightarrow> (CameraIntrinsics \<Rightarrow> correspondence list \<Rightarrow> pose option)
    \<Rightarrow> (nat \<Rightarrow> real) \<Rightarrow> real \<Rightarrow> AdvancedPoseEstimator \<Rightarrow> landmark option list option
    \<Rightarrow> estimate_options \<Rightarrow> pose_result option \<times> AdvancedPoseEstimator" where
  "estimate L dlt rnd now e landmarks options =
     (case landmarks of
        None \<Rightarrow> (None, e)
      | Some lms \<Rightarrow>
          if length lms = 0 then (None, e)
          else
            (let w = js_or (opt_width options) (cam_width (camera e));
                 h = js_or (opt_height options) (cam_height (camera e));
                 cam = (if w \<noteq> cam_width (camera e) \<or> h \<noteq> cam_height (camera e)
                        then update_intrinsics (camera e) w h None else camera e);
                 e1 = e\<lparr>camera := cam\<rparr>;
                 correspondences = buildCorrespondences (faceModel e) lms w h
             in if length correspondences < 6 then (None, e1)
                else
                  (let inlierIndices =
                         (if useRANSAC e
                          then findInliers (ransac e) rnd correspondences (project cam)
                          else all_indices (length correspondences));
                       inlierCorrespondences = map (\<lambda>i. correspondences ! i) inlierIndices
                   in case solvePnP L dlt cam inlierCorrespondences of
                        None \<Rightarrow> (None, e1)
                      | Some p \<Rightarrow>
                          (let err = calculateReprojectionError L cam p correspondences;
                               result = \<lparr>res_rotation = rotation p,
                                         res_translation = translation p,
                                         res_quaternion = quaternion p,
                                         res_euler = euler p,
                                         reprojectionError = err,
                                         confidence = confidence_of err,
                                         inlierRatio = real (length inlierIndices)
                                                       / real (length correspondences),
                                         res_timestamp = now\<rparr>
                           in (Some result, updateHistory e1 result)))))"

subsection \<open>Notions used to state the properties of the estimator\<close>

text \<open>
  The number of valid mapped points of a landmark array: the mapped landmark indices
  whose landmark is there (with finite coordinates).
\<close>

definition validMappedPoints :: "FaceModel3D \<Rightarrow> landmark option list \<Rightarrow> nat" where
  "validMappedPoints fm lms = length (filter (\<lambda>idx. js_index lms idx \<noteq> None) (landmarkIndices fm))"

text \<open>The image size, the camera and the correspondence set that \<^verbatim>\<open>estimate\<close> works with.\<close>

definition estimate_width :: "AdvancedPoseEstimator \<Rightarrow> estimate_options \<Rightarrow> real" where
  "estimate_width e options = js_or (opt_width options) (cam_width (camera e))"

definition estimate_height :: "AdvancedPoseEstimator \<Rightarrow> estimate_options \<Rightarrow> real" where
  "estimate_height e options = js_or (opt_height options) (cam_height (camera e))"

definition estimate_camera :: "AdvancedPoseEstimator \<Rightarrow> estimate_options \<Rightarrow> CameraIntrinsics" where
  "estimate_camera e options =
     (if estimate_width e options \<noteq> cam_width (camera e) \<or>
         estimate_height e options \<noteq> cam_height (camera e)
      then update_intrinsics (camera e) (estimate_width e options) (estimate_height e options) None
      else camera e)"

definition estimate_correspondences :: "AdvancedPoseEstimator \<Rightarrow> landmark option list
    \<Rightarrow> estimate_options \<Rightarrow> correspondence list" where
  "estimate_correspondences e lms options =
     buildCorrespondences (faceModel e) lms (estimate_width e options) (estimate_height e options)"

text \<open>The pose that a result carries.\<close>

definition result_pose :: "pose_result \<Rightarrow> rigid" where
  "result_pose r =
     \<lparr>quaternion = res_quaternion r, translation = res_translation r, euler = res_euler r\<rparr>"

text \<open>
  The mean pixel reprojection error in the words of the specification: the pixel
  distance between each observed point and the projection of its model point under the
  pose, averaged over the correspondences that project; \<^verbatim>\<open>Infinity\<close> when none does.
\<close>

definition reprojection_errors :: "three_lib \<Rightarrow> CameraIntrinsics \<Rightarrow> 'a rigid_scheme
    \<Rightarrow> correspondence list \<Rightarrow> real list" where
  "reprojection_errors L cam p cs =
     concat (map (\<lambda>c. case project cam (transformPoint L p (model_pt c)) of
                         None \<Rightarrow> []
                       | Some q \<Rightarrow> [hypot (x2 (image_pt c) - x2 q) (y2 (image_pt c) - y2 q)]) cs)"

definition meanReprojectionError :: "three_lib \<Rightarrow> CameraIntrinsics \<Rightarrow> 'a rigid_scheme
    \<Rightarrow> correspondence list \<Rightarrow> ext" where
  "meanReprojectionError L cam p cs =
     (let errs = reprojection_errors L cam p cs
      in if errs = [] then PInf else Fin (sum_list errs / real (length errs)))"

text \<open>A correspondence whose model point lies in front of the camera under the pose.\<close>

definition in_front :: "three_lib \<Rightarrow> 'a rigid_scheme \<Rightarrow> correspondence \<Rightarrow> bool" where
  "in_front L p c = (0 < z3 (transformPoint L p (model_pt c)))"

subsection \<open>Concrete inputs\<close>

text \<open>
  A stand-in for three.js that is right for the identity rotation: the rotation by the
  identity quaternion leaves a vector as it is.
\<close>

definition identity_quaternion :: Quaternion where
  "identity_quaternion = \<lparr>qx = 0, qy = 0, qz = 0, qw = 1\<rparr>"

definition three_identity :: three_lib where
  "three_identity = \<lparr>applyQuaternion = (\<lambda>v q. v), setFromEuler = (\<lambda>e. identity_quaternion)\<rparr>"

text \<open>A pose without rotation, 630 mm in front of the camera, and an initial estimate that
  always returns it.\<close>

definition frontal_pose :: pose where
  "frontal_pose =
     \<lparr>quaternion = identity_quaternion, translation = (0, 0, 630),
      euler = \<lparr>ex = 0, ey = 0, ez = 0\<rparr>, rotation = (0, 0, 0)\<rparr>"

definition dlt_frontal :: "CameraIntrinsics \<Rightarrow> correspondence list \<Rightarrow> pose option" where
  "dlt_frontal cam cs = Some frontal_pose"

definition default_camera :: CameraIntrinsics where
  "default_camera = new_CameraIntrinsics 640 480 None"

definition default_estimator :: AdvancedPoseEstimator where
  "default_estimator = new_AdvancedPoseEstimator no_estimator_options"

definition no_estimate_options :: estimate_options where
  "no_estimate_options = \<lparr>opt_width = None, opt_height = None\<rparr>"

text \<open>
  Seven landmarks of a frontal face, in pixels of a 640 by 480 image. Six of them are
  the exact projections of their model points (all at depth 10 mm) under
  \<open>frontal_pose\<close>: the model point \<open>(x, y, 10)\<close> lies at depth 640 and projects to
  \<open>(x + 320, y + 240)\<close>. The nose bridge (landmark 6, model point \<open>(0, 5, 10)\<close>) is the
  outlier: its true projection is \<open>(320, 245)\<close> and it is observed 200 pixels to the
  right.
\<close>

definition px_landmark :: "real \<Rightarrow> real \<Rightarrow> landmark" where
  "px_landmark u v = \<lparr>lm_x = u / 640, lm_y = v / 480, lm_z = 0, presence = None\<rparr>"

definition outlier_landmarks :: "landmark option list" where
  "outlier_landmarks =
     (replicate 468 None)
       [6 := Some (px_landmark 520 245),
        50 := Some (px_landmark 370 230),
        61 := Some (px_landmark 344 210),
        133 := Some (px_landmark 332.5 248.5),
        280 := Some (px_landmark 270 230),
        291 := Some (px_landmark 296 210),
        362 := Some (px_landmark 307.5 248.5)]"

definition corr :: "real \<Rightarrow> real \<Rightarrow> real \<Rightarrow> real \<Rightarrow> real \<Rightarrow> nat \<Rightarrow> correspondence" where
  "corr u v x y z idx =
     \<lparr>image_pt = \<lparr>x2 = u, y2 = v\<rparr>, model_pt = \<lparr>x3 = x, y3 = y, z3 = z\<rparr>, landmarkIdx = idx\<rparr>"

definition outlier_correspondences :: "correspondence list" where
  "outlier_correspondences =
     [corr 520 245 0 5 10 6,
      corr 370 230 50 (-10) 10 50,
      corr 344 210 24 (-30) 10 61,
      corr 332.5 248.5 12.5 8.5 10 133,
      corr 270 230 (-50) (-10) 10 280,
      corr 296 210 (-24) (-30) 10 291,
      corr 307.5 248.5 (-12.5) 8.5 10 362]"

text \<open>A pose at the origin of the face model, and two correspondences of which the first
  (the right ear, depth \<open>-5\<close>) lies behind the camera under it.\<close>

definition origin_pose :: rigid where
  "origin_pose =
     \<lparr>quaternion = identity_quaternion, translation = (0, 0, 0), euler = \<lparr>ex = 0, ey = 0, ez = 0\<rparr>\<rparr>"

definition ear_and_mouth :: "correspondence list" where
  "ear_and_mouth = [corr 100 100 75 (-5) (-5) 234, corr 344 210 24 (-30) 10 61]"

text \<open>A landmark array with the two eye landmarks only, for concrete inputs.\<close>

definition eyes_only :: "landmark \<Rightarrow> landmark \<Rightarrow> landmark option list" where
  "eyes_only leftEye rightEye =
     (replicate 264 None)[EYE_left := Some leftEye, EYE_right := Some rightEye]"

definition point2 :: "real \<Rightarrow> real \<Rightarrow> landmark" where
  "point2 a b = \<lparr>lm_x = a, lm_y = b, lm_z = 0, presence = None\<rparr>"

section \<open>ProductionStabilizer.js\<close>

text \<open>
  The functions of three.js that the stabilizer calls are arguments, as for the estimator.
  Where JavaScript arithmetic reads \<^verbatim>\<open>null\<close> it reads \<open>0\<close> (and the velocity keeps
  \<open>0\<close> where the source stores a \<^verbatim>\<open>null\<close> trend). The divisions of the filter
  cascade are by positive numbers for positive cutoff parameters (the defaults are).
\<close>

record three_rot = three_lib +
  eulerFromQuaternion :: "Quaternion \<Rightarrow> Euler"
  slerp :: "Quaternion \<Rightarrow> Quaternion \<Rightarrow> real \<Rightarrow> Quaternion"
  lerp :: "Vector3 \<Rightarrow> Vector3 \<Rightarrow> real \<Rightarrow> Vector3"
  normalizeQ :: "Quaternion \<Rightarrow> Quaternion"
  multiplyQ :: "Quaternion \<Rightarrow> Quaternion \<Rightarrow> Quaternion"
  conjugateQ :: "Quaternion \<Rightarrow> Quaternion"

definition js_num :: "real option \<Rightarrow> real" where
  "js_num a = (case a of None \<Rightarrow> 0 | Some v \<Rightarrow> v)"

subsection \<open>LowPassFilter and OneEuroFilter\<close>

record LowPassFilter =
  lp_x :: "real option"

definition new_LowPassFilter :: LowPassFilter where
  "new_LowPassFilter = \<lparr>lp_x = None\<rparr>"

definition lowpass_filter :: "LowPassFilter \<Rightarrow> real \<Rightarrow> real \<Rightarrow> real \<times> LowPassFilter" where
  "lowpass_filter f x a =
     (case lp_x f of
        None \<Rightarrow> (x, f\<lparr>lp_x := Some x\<rparr>)
      | Some prev \<Rightarrow> (let y = a * x + (1 - a) * prev in (y, f\<lparr>lp_x := Some y\<rparr>)))"

record OneEuroFilter =
  minCutoff :: real
  beta :: real
  dCutoff :: real
  oe_x :: "real option"
  oe_dx :: real
  lastX :: "real option"
  lastTime :: "real option"
  xFilter :: LowPassFilter
  dxFilter :: LowPassFilter

definition new_OneEuroFilter :: "real option \<Rightarrow> real option \<Rightarrow> real option \<Rightarrow> OneEuroFilter" where
  "new_OneEuroFilter optMinCutoff optBeta optDCutoff =
     \<lparr>minCutoff = js_or optMinCutoff 1.0, beta = js_or optBeta 0.007,
      dCutoff = js_or optDCutoff 1.0, oe_x = None, oe_dx = 0, lastX = None, lastTime = None,
      xFilter = new_LowPassFilter, dxFilter = new_LowPassFilter\<rparr>"

definition oneEuro_alpha :: "real \<Rightarrow> real \<Rightarrow> real" where
  "oneEuro_alpha dt cutoff = (let te = 1.0 / (2 * pi * cutoff) in 1.0 / (1.0 + te / dt))"

definition oneEuro_filter :: "OneEuroFilter \<Rightarrow> real \<Rightarrow> real \<Rightarrow> real \<times> OneEuroFilter" where
  "oneEuro_filter f x ts =
     (case lastTime f of
        None \<Rightarrow> (x, f\<lparr>oe_x := Some x, lastX := Some x, lastTime := Some ts\<rparr>)
      | Some lt \<Rightarrow>
          (let dt = max (ts - lt) 0.001;
               dx = (x - js_num (lastX f)) / dt;
               (edx, dxF) = lowpass_filter (dxFilter f) dx (oneEuro_alpha dt (dCutoff f));
               cutoff = minCutoff f + beta f * \<bar>edx\<bar>;
               (y, xF) = lowpass_filter (xFilter f) x (oneEuro_alpha dt cutoff)
           in (y, f\<lparr>lastTime := Some ts, lastX := Some x, dxFilter := dxF, oe_dx := edx,
                     xFilter := xF, oe_x := Some y\<rparr>)))"

definition oneEuro_reset :: "OneEuroFilter \<Rightarrow> OneEuroFilter" where
  "oneEuro_reset f =
     f\<lparr>oe_x := None, oe_dx := 0, lastX := None, lastTime := None,
       xFilter := new_LowPassFilter, dxFilter := new_LowPassFilter\<rparr>"

text \<open>\<^verbatim>\<open>setParams\<close> with the keys that are given.\<close>

definition oneEuro_setParams :: "OneEuroFilter \<Rightarrow> real option \<Rightarrow> real option \<Rightarrow> OneEuroFilter" where
  "oneEuro_setParams f optMinCutoff optBeta =
     (let f1 = (case optMinCutoff of None \<Rightarrow> f | Some m \<Rightarrow> f\<lparr>minCutoff := m\<rparr>)
      in (case optBeta of None \<Rightarrow> f1 | Some b \<Rightarrow> f1\<lparr>beta := b\<rparr>))"

subsection \<open>PoseKalmanFilter\<close>

definition stateDim :: nat where
  "stateDim = 13"

text \<open>The state vector and the matrices are flat arrays, as in the source.\<close>

record PoseKalmanFilter =
  kstate :: "real list"
  kP :: "real list"
  kQ :: "real list"
  kR :: "real list"
  k_initialized :: bool

definition initCovariance :: "real \<Rightarrow> real list" where
  "initCovariance v =
     map (\<lambda>idx. if idx div stateDim = idx mod stateDim then v else 0) [0..<stateDim * stateDim]"

definition new_PoseKalmanFilter :: PoseKalmanFilter where
  "new_PoseKalmanFilter =
     \<lparr>kstate = (replicate stateDim 0)[6 := 1], kP = initCovariance 100, kQ = initCovariance 0.1,
      kR = initCovariance 1.0, k_initialized = False\<rparr>"

definition pkf_jacobian :: "real \<Rightarrow> real list" where
  "pkf_jacobian dt =
     (initCovariance 1)[0 * stateDim + 7 := dt, 1 * stateDim + 8 := dt, 2 * stateDim + 9 := dt]"

definition pkf_updateCovariance :: "PoseKalmanFilter \<Rightarrow> real list \<Rightarrow> PoseKalmanFilter" where
  "pkf_updateCovariance k F =
     (let n = stateDim;
          FP = map (\<lambda>idx. (let i = idx div n; j = idx mod n
                            in foldl (\<lambda>sum m. sum + F ! (i * n + m) * kP k ! (m * n + j)) 0 [0..<n]))
                 [0..<n * n];
          P' = map (\<lambda>idx. (let i = idx div n; j = idx mod n
                            in foldl (\<lambda>sum m. sum + FP ! (i * n + m) * F ! (j * n + m)) 0 [0..<n]
                               + kQ k ! (i * n + j)))
                 [0..<n * n]
      in k\<lparr>kP := P'\<rparr>)"

definition pkf_predict :: "'a three_rot_scheme \<Rightarrow> PoseKalmanFilter \<Rightarrow> real \<Rightarrow> PoseKalmanFilter" where
  "pkf_predict L k dt =
     (let s = kstate k;
          s1 = s[0 := s ! 0 + s ! 7 * dt];
          s2 = s1[1 := s1 ! 1 + s1 ! 8 * dt];
          s3 = s2[2 := s2 ! 2 + s2 ! 9 * dt];
          wx = s3 ! 10 * dt * 0.5;
          wy = s3 ! 11 * dt * 0.5;
          wz = s3 ! 12 * dt * 0.5;
          dq = normalizeQ L \<lparr>qx = wx, qy = wy, qz = wz, qw = 1\<rparr>;
          q = multiplyQ L \<lparr>qx = s3 ! 3, qy = s3 ! 4, qz = s3 ! 5, qw = s3 ! 6\<rparr> dq;
          s4 = s3[3 := qx q, 4 := qy q, 5 := qz q, 6 := qw q]
      in pkf_updateCovariance (k\<lparr>kstate := s4\<rparr>) (pkf_jacobian dt))"

text \<open>
  \<^verbatim>\<open>update(measurement)\<close>. The gain reads the measurement noise at \<^verbatim>\<open>R[i * 7 + i]\<close>, as
  the source does.
\<close>

definition pkf_update :: "'a three_rot_scheme \<Rightarrow> PoseKalmanFilter \<Rightarrow> Vector3 \<Rightarrow> Quaternion
    \<Rightarrow> PoseKalmanFilter" where
  "pkf_update L k mpos mquat =
     (if \<not> k_initialized k
      then k\<lparr>kstate := (kstate k)[0 := x3 mpos, 1 := y3 mpos, 2 := z3 mpos,
                                  3 := qx mquat, 4 := qy mquat, 5 := qz mquat, 6 := qw mquat],
             k_initialized := True\<rparr>
      else
        (let s = kstate k;
             qPred = \<lparr>qx = s ! 3, qy = s ! 4, qz = s ! 5, qw = s ! 6\<rparr>;
             qError = multiplyQ L (conjugateQ L mquat) qPred;
             y = [x3 mpos - s ! 0, y3 mpos - s ! 1, z3 mpos - s ! 2,
                  qx qError, qy qError, qz qError, qw qError];
             gain = map (\<lambda>i. (let d = kP k ! (i * stateDim + i) + kR k ! (i * 7 + i)
                               in if d > 1 / 10000000000 then kP k ! (i * stateDim + i) / d else 0))
                      [0..<7];
             s1 = foldl (\<lambda>st i. st[i := st ! i + gain ! i * y ! i]) s [0..<7];
             qNorm = sqrt ((s1 ! 3) ^ 2 + (s1 ! 4) ^ 2 + (s1 ! 5) ^ 2 + (s1 ! 6) ^ 2);
             s2 = (if qNorm > 1 / 10000000000
                   then s1[3 := s1 ! 3 / qNorm, 4 := s1 ! 4 / qNorm, 5 := s1 ! 5 / qNorm,
                           6 := s1 ! 6 / qNorm]
                   else s1);
             P' = foldl (\<lambda>pm i. pm[i * stateDim + i := pm ! (i * stateDim + i) * (1 - gain ! i)])
                    (kP k) [0..<7]
         in k\<lparr>kstate := s2, kP := P'\<rparr>))"

definition pkf_getPosition :: "PoseKalmanFilter \<Rightarrow> Vector3" where
  "pkf_getPosition k = \<lparr>x3 = kstate k ! 0, y3 = kstate k ! 1, z3 = kstate k ! 2\<rparr>"

definition pkf_getQuaternion :: "PoseKalmanFilter \<Rightarrow> Quaternion" where
  "pkf_getQuaternion k =
     \<lparr>qx = kstate k ! 3, qy = kstate k ! 4, qz = kstate k ! 5, qw = kstate k ! 6\<rparr>"

definition pkf_reset :: "PoseKalmanFilter \<Rightarrow> PoseKalmanFilter" where
  "pkf_reset k =
     k\<lparr>kstate := (replicate stateDim 0)[6 := 1], kP := initCovariance 100, k_initialized := False\<rparr>"

subsection \<open>DoubleExponentialSmoother and JitterSuppressor\<close>

record DoubleExponentialSmoother =
  des_alpha :: real
  des_gamma :: real
  level :: "real option"
  des_trend :: "real option"
  des_initialized :: bool

definition new_DoubleExponentialSmoother :: "real \<Rightarrow> real \<Rightarrow> DoubleExponentialSmoother" where
  "new_DoubleExponentialSmoother a g =
     \<lparr>des_alpha = a, des_gamma = g, level = None, des_trend = None, des_initialized = False\<rparr>"

definition smooth :: "DoubleExponentialSmoother \<Rightarrow> real \<Rightarrow> real \<times> DoubleExponentialSmoother" where
  "smooth d v =
     (if \<not> des_initialized d
      then (v, d\<lparr>level := Some v, des_trend := Some 0, des_initialized := True\<rparr>)
      else
        (let prevLevel = js_num (level d);
             l = des_alpha d * v + (1 - des_alpha d) * (js_num (level d) + js_num (des_trend d));
             t = des_gamma d * (l - prevLevel) + (1 - des_gamma d) * js_num (des_trend d)
         in (l, d\<lparr>level := Some l, des_trend := Some t\<rparr>)))"

definition smoother_reset :: "DoubleExponentialSmoother \<Rightarrow> DoubleExponentialSmoother" where
  "smoother_reset d = d\<lparr>level := None, des_trend := None, des_initialized := False\<rparr>"

record JitterSuppressor =
  windowSize :: nat
  js_threshold :: real
  js_history :: "real list"
  js_variance :: real

definition new_JitterSuppressor :: "real option \<Rightarrow> JitterSuppressor" where
  "new_JitterSuppressor optThreshold =
     \<lparr>windowSize = 5, js_threshold = js_or optThreshold 0.01, js_history = [], js_variance = 0\<rparr>"

definition jitter_process :: "JitterSuppressor \<Rightarrow> real \<Rightarrow> real \<times> JitterSuppressor" where
  "jitter_process j v =
     (let pushed = js_history j @ [v];
          h = (if length pushed > windowSize j then tl pushed else pushed);
          j1 = j\<lparr>js_history := h\<rparr>
      in if length h < 3 then (v, j1)
         else
           (let mean = foldl (\<lambda>a b. a + b) 0 h / real (length h);
                var = foldl (\<lambda>a b. a + (b - mean) ^ 2) 0 h / real (length h);
                j2 = j1\<lparr>js_variance := var\<rparr>
            in if var > js_threshold j then (mean, j2) else (v, j2)))"

definition jitter_reset :: "JitterSuppressor \<Rightarrow> JitterSuppressor" where
  "jitter_reset j = j\<lparr>js_history := [], js_variance := 0\<rparr>"

subsection \<open>ProductionStabilizer\<close>

record stabilizer_config =
  positionMinCutoff :: real
  positionBeta :: real
  rotationMinCutoff :: real
  rotationBeta :: real
  scaleMinCutoff :: real
  scaleBeta :: real
  useKalman :: bool
  useDoubleExponential :: bool
  cfg_alpha :: real
  cfg_gamma :: real
  useJitterSuppression :: bool
  jitterThreshold :: real
  predictionSteps :: real
  adaptiveSmoothing :: bool

record stabilizer_options =
  so_positionMinCutoff :: "real option"
  so_positionBeta :: "real option"
  so_rotationMinCutoff :: "real option"
  so_rotationBeta :: "real option"
  so_scaleMinCutoff :: "real option"
  so_scaleBeta :: "real option"
  so_useKalman :: "bool option"
  so_useDoubleExponential :: "bool option"
  so_alpha :: "real option"
  so_gamma :: "real option"
  so_useJitterSuppression :: "bool option"
  so_jitterThreshold :: "real option"
  so_predictionSteps :: "real option"
  so_adaptiveSmoothing :: "bool option"

definition no_stabilizer_options :: stabilizer_options where
  "no_stabilizer_options =
     \<lparr>so_positionMinCutoff = None, so_positionBeta = None, so_rotationMinCutoff = None,
      so_rotationBeta = None, so_scaleMinCutoff = None, so_scaleBeta = None, so_useKalman = None,
      so_useDoubleExponential = None, so_alpha = None, so_gamma = None,
      so_useJitterSuppression = None, so_jitterThreshold = None, so_predictionSteps = None,
      so_adaptiveSmoothing = None\<rparr>"

text \<open>Three filters of one kind, for the components \<open>x\<close>, \<open>y\<close> and \<open>z\<close>.\<close>

type_synonym 'f xyz = "'f \<times> 'f \<times> 'f"

record stabilizer_metrics =
  jitterLevel :: real
  smoothness :: real
  latency :: real

record ProductionStabilizer =
  config :: stabilizer_config
  positionFilters :: "OneEuroFilter xyz"
  rotationFilters :: "OneEuroFilter xyz"
  scaleFilters :: "OneEuroFilter xyz"
  kalman :: PoseKalmanFilter
  doubleExp :: "DoubleExponentialSmoother xyz"
  jitterSuppressors :: "JitterSuppressor xyz"
  st_position :: Vector3
  st_quaternion :: Quaternion
  st_scale :: Vector3
  st_velocity :: Vector3
  st_initialized :: bool
  lastTimestamp :: "real option"
  lastConfidence :: real
  st_metrics :: stabilizer_metrics

definition vector3 :: "real \<Rightarrow> real \<Rightarrow> real \<Rightarrow> Vector3" where
  "vector3 a b c = \<lparr>x3 = a, y3 = b, z3 = c\<rparr>"

definition new_ProductionStabilizer :: "stabilizer_options \<Rightarrow> ProductionStabilizer" where
  "new_ProductionStabilizer options =
     (let c = \<lparr>positionMinCutoff = js_or (so_positionMinCutoff options) 0.8,
               positionBeta = js_or (so_positionBeta options) 0.005,
               rotationMinCutoff = js_or (so_rotationMinCutoff options) 1.2,
               rotationBeta = js_or (so_rotationBeta options) 0.01,
               scaleMinCutoff = js_or (so_scaleMinCutoff options) 0.5,
               scaleBeta = js_or (so_scaleBeta options) 0.002,
               useKalman = (so_useKalman options \<noteq> Some False),
               useDoubleExponential = (so_useDoubleExponential options \<noteq> Some False),
               cfg_alpha = js_or (so_alpha options) 0.3,
               cfg_gamma = js_or (so_gamma options) 0.1,
               useJitterSuppression = (so_useJitterSuppression options \<noteq> Some False),
               jitterThreshold = js_or (so_jitterThreshold options) 0.005,
               predictionSteps = js_or (so_predictionSteps options) 0.5,
               adaptiveSmoothing = (so_adaptiveSmoothing options \<noteq> Some False)\<rparr>;
          pf = new_OneEuroFilter (Some (positionMinCutoff c)) (Some (positionBeta c)) None;
          pfz = new_OneEuroFilter (Some (positionMinCutoff c * 1.5)) (Some (positionBeta c)) None;
          rf = new_OneEuroFilter (Some (rotationMinCutoff c)) (Some (rotationBeta c)) None;
          sf = new_OneEuroFilter (Some (scaleMinCutoff c)) (Some (scaleBeta c)) None;
          de = new_DoubleExponentialSmoother (cfg_alpha c) (cfg_gamma c);
          js = new_JitterSuppressor (Some (jitterThreshold c))
      in \<lparr>config = c,
          positionFilters = (pf, pf, pfz),
          rotationFilters = (rf, rf, rf),
          scaleFilters = (sf, sf, sf),
          kalman = new_PoseKalmanFilter,
          doubleExp = (de, de, de),
          jitterSuppressors = (js, js, js),
          st_position = vector3 0 0 0,
          st_quaternion = \<lparr>qx = 0, qy = 0, qz = 0, qw = 1\<rparr>,
          st_scale = vector3 1 1 1,
          st_velocity = vector3 0 0 0,
          st_initialized = False,
          lastTimestamp = None,
          lastConfidence = 1,
          st_metrics = \<lparr>jitterLevel = 0, smoothness = 1, latency = 0\<rparr>\<rparr>)"

text \<open>The pose that \<^verbatim>\<open>update\<close> receives and the object that it returns.\<close>

record input_pose =
  in_position :: Vector3
  in_quaternion :: Quaternion
  in_scale :: "Vector3 option"
  in_confidence :: "real option"

record stabilized_pose =
  out_position :: Vector3
  out_quaternion :: Quaternion
  out_scale :: Vector3
  out_velocity :: Vector3
  out_confidence :: real
  out_metrics :: stabilizer_metrics

definition getResult :: "ProductionStabilizer \<Rightarrow> stabilized_pose" where
  "getResult s =
     \<lparr>out_position = st_position s, out_quaternion = st_quaternion s, out_scale = st_scale s,
      out_velocity = st_velocity s, out_confidence = lastConfidence s, out_metrics = st_metrics s\<rparr>"

text \<open>\<^verbatim>\<open>_initialize(pose)\<close>; \<open>now\<close> is the clock reading in milliseconds.\<close>

definition initialize :: "'a three_rot_scheme \<Rightarrow> ProductionStabilizer \<Rightarrow> input_pose \<Rightarrow> real
    \<Rightarrow> ProductionStabilizer" where
  "initialize L s p now =
     (let s1 = s\<lparr>st_position := in_position p, st_quaternion := in_quaternion p\<rparr>;
          s2 = (case in_scale p of None \<Rightarrow> s1 | Some sc \<Rightarrow> s1\<lparr>st_scale := sc\<rparr>);
          s3 = s2\<lparr>st_initialized := True, lastTimestamp := Some (now / 1000)\<rparr>
      in s3\<lparr>kalman := pkf_update L (kalman s3) (st_position s3) (st_quaternion s3)\<rparr>)"

definition map_xyz :: "('f \<Rightarrow> 'f) \<Rightarrow> 'f xyz \<Rightarrow> 'f xyz" where
  "map_xyz g t = (case t of (a, b, c) \<Rightarrow> (g a, g b, g c))"

definition adaptSmoothing :: "ProductionStabilizer \<Rightarrow> real \<Rightarrow> ProductionStabilizer" where
  "adaptSmoothing s conf =
     (if \<not> adaptiveSmoothing (config s) then s
      else
        (let factor = max 0.5 conf;
             posMinCutoff = positionMinCutoff (config s) * factor;
             rotMinCutoff = rotationMinCutoff (config s) * factor
         in s\<lparr>positionFilters :=
                 map_xyz (\<lambda>f. oneEuro_setParams f (Some posMinCutoff) None) (positionFilters s),
               rotationFilters :=
                 map_xyz (\<lambda>f. oneEuro_setParams f (Some rotMinCutoff) None) (rotationFilters s)\<rparr>))"

text \<open>Three values through three filters, in the order \<open>x\<close>, \<open>y\<close>, \<open>z\<close>.\<close>

definition through :: "('f \<Rightarrow> real \<Rightarrow> real \<times> 'f) \<Rightarrow> 'f xyz \<Rightarrow> real \<times> real \<times> real
    \<Rightarrow> (real \<times> real \<times> real) \<times> 'f xyz" where
  "through g fs v =
     (case fs of (fa, fb, fc) \<Rightarrow>
        (case v of (a, b, c) \<Rightarrow>
           (let (a', fa') = g fa a; (b', fb') = g fb b; (c', fc') = g fc c
            in ((a', b', c'), (fa', fb', fc')))))"

definition processPosition :: "ProductionStabilizer \<Rightarrow> Vector3 \<Rightarrow> real \<Rightarrow> real \<Rightarrow> ProductionStabilizer" where
  "processPosition s pos ts dt =
     (let v0 = (x3 pos, y3 pos, z3 pos);
          (v1, js) = (if useJitterSuppression (config s)
                      then through jitter_process (jitterSuppressors s) v0
                      else (v0, jitterSuppressors s));
          (v2, pf) = through (\<lambda>f a. oneEuro_filter f a ts) (positionFilters s) v1;
          (v3, de) = (if useDoubleExponential (config s)
                      then through smooth (doubleExp s) v2
                      else (v2, doubleExp s));
          s1 = s\<lparr>jitterSuppressors := js, positionFilters := pf, doubleExp := de\<rparr>;
          (a, b, c) = v3
      in if predictionSteps (config s) > 0
         then
           (case de of (dx, dy, dz) \<Rightarrow>
              (let vx = js_num (des_trend dx); vy = js_num (des_trend dy); vz = js_num (des_trend dz);
                   k = predictionSteps (config s)
               in s1\<lparr>st_velocity := vector3 vx vy vz,
                      st_position := vector3 (a + vx * k * dt) (b + vy * k * dt) (c + vz * k * dt)\<rparr>))
         else s1\<lparr>st_position := vector3 a b c\<rparr>)"

definition processRotation :: "'a three_rot_scheme \<Rightarrow> ProductionStabilizer \<Rightarrow> Quaternion \<Rightarrow> real
    \<Rightarrow> ProductionStabilizer" where
  "processRotation L s q ts =
     (let e = eulerFromQuaternion L q;
          ((rx, ry, rz), rf) =
             through (\<lambda>f a. oneEuro_filter f a ts) (rotationFilters s) (ex e, ey e, ez e);
          filtered = setFromEuler L \<lparr>ex = rx, ey = ry, ez = rz\<rparr>;
          q' = (if st_initialized s then slerp L filtered q 0.1 else filtered)
      in s\<lparr>rotationFilters := rf, st_quaternion := q'\<rparr>)"

definition processScale :: "ProductionStabilizer \<Rightarrow> Vector3 option \<Rightarrow> real \<Rightarrow> ProductionStabilizer" where
  "processScale s sc ts =
     (case sc of
        None \<Rightarrow> s
      | Some v \<Rightarrow>
          (let ((sx, sy, sz), sf) =
                 through (\<lambda>f a. oneEuro_filter f a ts) (scaleFilters s) (x3 v, y3 v, z3 v)
           in s\<lparr>scaleFilters := sf, st_scale := vector3 sx sy sz\<rparr>))"

definition blendKalmanOutput :: "'a three_rot_scheme \<Rightarrow> ProductionStabilizer \<Rightarrow> ProductionStabilizer" where
  "blendKalmanOutput L s =
     (let kalmanPos = pkf_getPosition (kalman s);
          kalmanQuat = pkf_getQuaternion (kalman s);
          blend = lastConfidence s * 0.3
      in s\<lparr>st_position := lerp L (st_position s) kalmanPos blend,
            st_quaternion := slerp L (st_quaternion s) kalmanQuat blend\<rparr>)"

definition updateMetrics :: "ProductionStabilizer \<Rightarrow> ProductionStabilizer" where
  "updateMetrics s =
     (case jitterSuppressors s of (jx, jy, jz) \<Rightarrow>
        (let jl = (sqrt (js_variance jx) + sqrt (js_variance jy) + sqrt (js_variance jz)) / 3
         in s\<lparr>st_metrics := \<lparr>jitterLevel = jl, smoothness = max 0 (1 - jl * 10),
                              latency = predictionSteps (config s) * 16.67\<rparr>\<rparr>))"

text \<open>
  \<^verbatim>\<open>update(pose, timestamp)\<close>. \<open>tstamp\<close> is \<open>None\<close> for a call without it (\<open>0\<close> is
  falsy too); \<open>now\<close> and \<open>now'\<close> are the clock readings of line 602 and of
  \<^verbatim>\<open>_initialize\<close>.
\<close>

definition stabilizer_update :: "'a three_rot_scheme \<Rightarrow> ProductionStabilizer \<Rightarrow> input_pose \<Rightarrow> real option
    \<Rightarrow> real \<Rightarrow> real \<Rightarrow> stabilized_pose \<times> ProductionStabilizer" where
  "stabilizer_update L s p tstamp now now' =
     (let ts = js_or tstamp (now / 1000)
      in if \<not> st_initialized s
         then (let s' = initialize L s p now' in (getResult s', s'))
         else
           (let dt = (case lastTimestamp s of
                        None \<Rightarrow> 0.016
                      | Some lt \<Rightarrow> if lt = 0 then 0.016 else ts - lt);
                s1 = s\<lparr>lastTimestamp := Some ts, lastConfidence := js_or (in_confidence p) 1\<rparr>;
                s2 = adaptSmoothing s1 (lastConfidence s1);
                s3 = processPosition s2 (in_position p) ts dt;
                s4 = processRotation L s3 (in_quaternion p) ts;
                s5 = processScale s4 (in_scale p) ts;
                s6 = (if useKalman (config s5)
                      then
                        (let k1 = pkf_predict L (kalman s5) dt;
                             k2 = pkf_update L k1 (st_position s5) (st_quaternion s5)
                         in blendKalmanOutput L (s5\<lparr>kalman := k2\<rparr>))
                      else s5);
                s7 = updateMetrics s6
            in (getResult s7, s7)))"

definition stabilizer_reset :: "ProductionStabilizer \<Rightarrow> ProductionStabilizer" where
  "stabilizer_reset s =
     s\<lparr>positionFilters := map_xyz oneEuro_reset (positionFilters s),
       rotationFilters := map_xyz oneEuro_reset (rotationFilters s),
       scaleFilters := map_xyz oneEuro_reset (scaleFilters s),
       kalman := pkf_reset (kalman s),
       doubleExp := map_xyz smoother_reset (doubleExp s),
       jitterSuppressors := map_xyz jitter_reset (jitterSuppressors s),
       st_position := vector3 0 0 0,
       st_quaternion := \<lparr>qx = 0, qy = 0, qz = 0, qw = 1\<rparr>,
       st_scale := vector3 1 1 1,
       st_velocity := vector3 0 0 0,
       st_initialized := False,
       lastTimestamp := None,
       lastConfidence := 1\<rparr>"

text \<open>Stand-ins for the remaining three.js functions, and a measurement, for concrete inputs.\<close>

definition three_rot_identity :: three_rot where
  "three_rot_identity =
     \<lparr>applyQuaternion = (\<lambda>v q. v), setFromEuler = (\<lambda>e. identity_quaternion),
      eulerFromQuaternion = (\<lambda>q. \<lparr>ex = 0, ey = 0, ez = 0\<rparr>),
      slerp = (\<lambda>a b t. a), lerp = (\<lambda>a b t. a), normalizeQ = (\<lambda>q. q), multiplyQ = (\<lambda>a b. a),
      conjugateQ = (\<lambda>q. q)\<rparr>"

definition measured_pose :: input_pose where
  "measured_pose =
     \<lparr>in_position = vector3 12 (-7) 630,
      in_quaternion = \<lparr>qx = 0.1, qy = 0.2, qz = 0.3, qw = 0.9\<rparr>,
      in_scale = Some (vector3 1.1 1.1 1.1),
      in_confidence = Some 0.4\<rparr>"

section \<open>TrackingQualityMonitor.js\<close>

text \<open>
  The value of a metric is a number or \<^verbatim>\<open>NaN\<close>: the two estimates that divide by the
  length of the landmark array give \<^verbatim>\<open>0 / 0\<close> on an empty array. \<^verbatim>\<open>NaN\<close> spreads through
  the arithmetic, and every comparison with it is false.
\<close>

datatype num = Num real | NaN

fun nadd :: "num \<Rightarrow> num \<Rightarrow> num" where
  "nadd (Num a) (Num b) = Num (a + b)"
| "nadd _ _ = NaN"

fun nsub :: "num \<Rightarrow> num \<Rightarrow> num" where
  "nsub (Num a) (Num b) = Num (a - b)"
| "nsub _ _ = NaN"

fun nmul :: "num \<Rightarrow> num \<Rightarrow> num" where
  "nmul (Num a) (Num b) = Num (a * b)"
| "nmul _ _ = NaN"

text \<open>Division by a number that is not zero.\<close>

fun ndivr :: "num \<Rightarrow> real \<Rightarrow> num" where
  "ndivr (Num a) d = Num (a / d)"
| "ndivr NaN d = NaN"

text \<open>\<^verbatim>\<open>Math.max(0, a)\<close>.\<close>

fun nmax0 :: "num \<Rightarrow> num" where
  "nmax0 (Num a) = Num (max 0 a)"
| "nmax0 NaN = NaN"

fun nlt :: "num \<Rightarrow> real \<Rightarrow> bool" where
  "nlt (Num a) t = (a < t)"
| "nlt NaN t = False"

fun nge :: "num \<Rightarrow> real \<Rightarrow> bool" where
  "nge (Num a) t = (a \<ge> t)"
| "nge NaN t = False"

datatype js_error = TypeError

subsection \<open>Constants\<close>

record quality_thresholds =
  excellent :: real
  good :: real
  acceptable :: real
  poor :: real
  critical :: real

definition QUALITY_THRESHOLDS :: quality_thresholds where
  "QUALITY_THRESHOLDS =
     \<lparr>excellent = 0.9, good = 0.75, acceptable = 0.5, poor = 0.3, critical = 0.15\<rparr>"

datatype tracking_state =
    INITIALIZING
  | TRACKING_EXCELLENT
  | TRACKING_GOOD
  | TRACKING_ACCEPTABLE
  | TRACKING_POOR
  | RECOVERING
  | LOST
  | ERROR

datatype recovery_strategy =
    NONE
  | REINITIALIZE
  | RESET_FILTERS
  | ADJUST_THRESHOLDS
  | REDUCE_QUALITY
  | FULL_RESET

subsection \<open>QualityMetric\<close>

record QualityMetric =
  qm_weight :: real
  historySize :: nat
  qm_threshold :: real
  qm_history :: "num list"
  current :: num
  average :: num
  qm_trend :: num

definition new_QualityMetric :: "real option \<Rightarrow> real option \<Rightarrow> QualityMetric" where
  "new_QualityMetric optWeight optThreshold =
     \<lparr>qm_weight = js_or optWeight 1, historySize = 30, qm_threshold = js_or optThreshold 0.5,
      qm_history = [], current = Num 0, average = Num 0, qm_trend = Num 0\<rparr>"

text \<open>
  \<^verbatim>\<open>update(value)\<close>. The denominator of the slope is \<open>n\<^sup>2 (n\<^sup>2 - 1) / 12\<close>, not zero
  for the \<open>n \<ge> 5\<close> of the guard.
\<close>

definition metric_update :: "QualityMetric \<Rightarrow> num \<Rightarrow> QualityMetric" where
  "metric_update q v =
     (let pushed = qm_history q @ [v];
          h = (if length pushed > historySize q then tl pushed else pushed);
          avg = ndivr (foldl nadd (Num 0) h) (real (length h));
          q1 = q\<lparr>current := v, qm_history := h, average := avg\<rparr>
      in if length h \<ge> 5
         then
           (let n = real (length h);
                sumX = (n * (n - 1)) / 2;
                sumY = foldl nadd (Num 0) h;
                sumXY = foldl (\<lambda>a (i, b). nadd a (nmul (Num (real i)) b)) (Num 0)
                          (zip [0..<length h] h);
                sumX2 = (n * (n - 1) * (2 * n - 1)) / 6
            in q1\<lparr>qm_trend := ndivr (nsub (nmul (Num n) sumXY) (nmul (Num sumX) sumY))
                                   (n * sumX2 - sumX * sumX)\<rparr>)
         else q1)"

definition isBelowThreshold :: "QualityMetric \<Rightarrow> bool" where
  "isBelowThreshold q = nlt (current q) (qm_threshold q)"

definition getWeightedScore :: "QualityMetric \<Rightarrow> num" where
  "getWeightedScore q = nmul (current q) (Num (qm_weight q))"

definition metric_reset :: "QualityMetric \<Rightarrow> QualityMetric" where
  "metric_reset q = q\<lparr>qm_history := [], current := Num 0, average := Num 0, qm_trend := Num 0\<rparr>"

subsection \<open>TrackingQualityMonitor\<close>

text \<open>
  The configuration. A callback field says whether the caller gave a function;
  \<^verbatim>\<open>predictionWindow\<close> is never read and is left out.
\<close>

record monitor_config =
  excellentThreshold :: real
  goodThreshold :: real
  acceptableThreshold :: real
  poorThreshold :: real
  criticalThreshold :: real
  recoveryEnabled :: bool
  recoveryDelay :: real
  maxRecoveryAttempts :: nat
  recoveryCooldown :: real
  predictionEnabled :: bool
  onQualityChange :: bool
  onStateChange :: bool
  onRecoveryAttempt :: bool
  onTrackingLost :: bool
  onTrackingRecovered :: bool

record monitor_options =
  mo_excellentThreshold :: "real option"
  mo_goodThreshold :: "real option"
  mo_acceptableThreshold :: "real option"
  mo_poorThreshold :: "real option"
  mo_criticalThreshold :: "real option"
  mo_recoveryEnabled :: "bool option"
  mo_recoveryDelay :: "real option"
  mo_maxRecoveryAttempts :: "nat option"
  mo_recoveryCooldown :: "real option"
  mo_predictionEnabled :: "bool option"
  mo_onQualityChange :: bool
  mo_onStateChange :: bool
  mo_onRecoveryAttempt :: bool
  mo_onTrackingLost :: bool
  mo_onTrackingRecovered :: bool

record monitor_metrics =
  landmarkConfidence :: QualityMetric
  poseStability :: QualityMetric
  reprojectionErrorMetric :: QualityMetric
  faceVisibility :: QualityMetric
  motionConsistency :: QualityMetric
  occlusionLevel :: QualityMetric

text \<open>\<^verbatim>\<open>Object.values(this.metrics)\<close>, in the order of insertion.\<close>

definition metric_values :: "monitor_metrics \<Rightarrow> QualityMetric list" where
  "metric_values ms =
     [landmarkConfidence ms, poseStability ms, reprojectionErrorMetric ms, faceVisibility ms,
      motionConsistency ms, occlusionLevel ms]"

definition map_metrics :: "(QualityMetric \<Rightarrow> QualityMetric) \<Rightarrow> monitor_metrics \<Rightarrow> monitor_metrics" where
  "map_metrics g ms =
     \<lparr>landmarkConfidence = g (landmarkConfidence ms), poseStability = g (poseStability ms),
      reprojectionErrorMetric = g (reprojectionErrorMetric ms),
      faceVisibility = g (faceVisibility ms), motionConsistency = g (motionConsistency ms),
      occlusionLevel = g (occlusionLevel ms)\<rparr>"

record TrackingQualityMonitor =
  mon_config :: monitor_config
  metrics :: monitor_metrics
  mon_state :: tracking_state
  previousState :: "tracking_state option"
  overallQuality :: num
  qualityHistory :: "num list"
  recoveryAttempts :: nat
  lastRecoveryTime :: real
  recoveryInProgress :: bool
  lossStartTime :: "real option"
  lossDuration :: real
  predictedLoss :: bool
  frameCount :: nat
  lastFrameTime :: real
  fps :: ext

definition new_TrackingQualityMonitor :: "monitor_options \<Rightarrow> TrackingQualityMonitor" where
  "new_TrackingQualityMonitor options =
     \<lparr>mon_config =
        \<lparr>excellentThreshold = js_or (mo_excellentThreshold options) (excellent QUALITY_THRESHOLDS),
         goodThreshold = js_or (mo_goodThreshold options) (good QUALITY_THRESHOLDS),
         acceptableThreshold = js_or (mo_acceptableThreshold options) (acceptable QUALITY_THRESHOLDS),
         poorThreshold = js_or (mo_poorThreshold options) (poor QUALITY_THRESHOLDS),
         criticalThreshold = js_or (mo_criticalThreshold options) (critical QUALITY_THRESHOLDS),
         recoveryEnabled = (mo_recoveryEnabled options \<noteq> Some False),
         recoveryDelay = js_or (mo_recoveryDelay options) 500,
         maxRecoveryAttempts = js_or_nat (mo_maxRecoveryAttempts options) 3,
         recoveryCooldown = js_or (mo_recoveryCooldown options) 2000,
         predictionEnabled = (mo_predictionEnabled options \<noteq> Some False),
         onQualityChange = mo_onQualityChange options,
         onStateChange = mo_onStateChange options,
         onRecoveryAttempt = mo_onRecoveryAttempt options,
         onTrackingLost = mo_onTrackingLost options,
         onTrackingRecovered = mo_onTrackingRecovered options\<rparr>,
      metrics =
        \<lparr>landmarkConfidence = new_QualityMetric (Some 0.25) (Some 0.6),
         poseStability = new_QualityMetric (Some 0.2) (Some 0.5),
         reprojectionErrorMetric = new_QualityMetric (Some 0.15) (Some 0.7),
         faceVisibility = new_QualityMetric (Some 0.2) (Some 0.7),
         motionConsistency = new_QualityMetric (Some 0.1) (Some 0.5),
         occlusionLevel = new_QualityMetric (Some 0.1) (Some 0.6)\<rparr>,
      mon_state = INITIALIZING,
      previousState = None,
      overallQuality = Num 0,
      qualityHistory = [],
      recoveryAttempts = 0,
      lastRecoveryTime = 0,
      recoveryInProgress = False,
      lossStartTime = None,
      lossDuration = 0,
      predictedLoss = False,
      frameCount = 0,
      lastFrameTime = 0,
      fps = Fin 0\<rparr>"

text \<open>
  The calls of \<^verbatim>\<open>_triggerCallback\<close>, in the order they are made. The callback fires when
  the caller gave a function for the name; an exception of the callback is caught. The
  number in \<open>OnTrackingLost\<close> and in \<open>OnRecoveryAttempt\<close> is not part of what the callback
  receives: it is the clock reading that the monitor took right before the call.
\<close>

datatype event =
    OnTrackingLost real
  | OnTrackingRecovered
  | OnStateChange tracking_state tracking_state
  | OnQualityChange num
  | OnRecoveryAttempt real nat recovery_strategy

fun registered :: "monitor_config \<Rightarrow> event \<Rightarrow> bool" where
  "registered c (OnTrackingLost t) = onTrackingLost c"
| "registered c OnTrackingRecovered = onTrackingRecovered c"
| "registered c (OnStateChange a b) = onStateChange c"
| "registered c (OnQualityChange q) = onQualityChange c"
| "registered c (OnRecoveryAttempt t n s) = onRecoveryAttempt c"

text \<open>The callbacks that fire, of a list of triggers.\<close>

definition fired :: "monitor_config \<Rightarrow> event list \<Rightarrow> event list" where
  "fired c evs = filter (registered c) evs"

text \<open>The tracking data of a frame: a field is \<open>None\<close> where the property is \<^verbatim>\<open>undefined\<close>.\<close>

record tracking_data =
  td_confidence :: "real option"
  td_poseStability :: "real option"
  td_velocity :: "Vector3 option"
  td_reprojectionError :: "ext option"
  td_faceVisibility :: "real option"
  td_landmarks :: "landmark option list option"
  td_occlusionLevel :: "real option"

definition estimatePoseStability :: "tracking_data \<Rightarrow> real" where
  "estimatePoseStability td =
     (case td_velocity td of
        Some v \<Rightarrow> max 0 (1 - sqrt (x3 v * x3 v + y3 v * y3 v + z3 v * z3 v) / 100)
      | None \<Rightarrow> 0.7)"

text \<open>
  \<^verbatim>\<open>_estimateFaceVisibility\<close>: reading \<^verbatim>\<open>lm.x\<close> of an entry that is \<^verbatim>\<open>null\<close> or
  \<^verbatim>\<open>undefined\<close> throws.
\<close>

fun countVisible :: "landmark option list \<Rightarrow> js_error + nat" where
  "countVisible [] = Inr 0"
| "countVisible (None # lms) = Inl TypeError"
| "countVisible (Some lm # lms) =
     (case countVisible lms of
        Inl e \<Rightarrow> Inl e
      | Inr n \<Rightarrow>
          Inr (if lm_x lm \<ge> 0 \<and> lm_x lm \<le> 1 \<and> lm_y lm \<ge> 0 \<and> lm_y lm \<le> 1 then Suc n else n))"

definition estimateFaceVisibility :: "tracking_data \<Rightarrow> js_error + num" where
  "estimateFaceVisibility td =
     (case td_landmarks td of
        None \<Rightarrow> Inr (Num 0)
      | Some lms \<Rightarrow>
          (case countVisible lms of
             Inl e \<Rightarrow> Inl e
           | Inr visibleCount \<Rightarrow>
               Inr (if lms = [] then NaN else Num (real visibleCount / real (length lms)))))"

definition calculateVariance_arr :: "num list \<Rightarrow> num" where
  "calculateVariance_arr arr =
     (if length arr = 0 then Num 0
      else
        (let mean = ndivr (foldl nadd (Num 0) arr) (real (length arr))
         in ndivr (foldl (\<lambda>a b. nadd a (nmul (nsub b mean) (nsub b mean))) (Num 0) arr)
              (real (length arr))))"

text \<open>\<^verbatim>\<open>arr.slice(-5)\<close>: the last five elements.\<close>

definition last5 :: "'a list \<Rightarrow> 'a list" where
  "last5 xs = drop (length xs - 5) xs"

definition estimateMotionConsistency :: "TrackingQualityMonitor \<Rightarrow> num" where
  "estimateMotionConsistency m =
     (if length (qualityHistory m) < 3 then Num 1
      else
        (let recent = last5 (qualityHistory m);
             var = calculateVariance_arr recent
         in nmax0 (nsub (Num 1) (nmul var (Num 5)))))"

definition estimateOcclusion :: "tracking_data \<Rightarrow> num" where
  "estimateOcclusion td =
     (case td_landmarks td of
        None \<Rightarrow> Num 1
      | Some lms \<Rightarrow>
          (let occludedCount =
                 length (filter (\<lambda>lm. case lm of
                                        None \<Rightarrow> True
                                      | Some l \<Rightarrow> (case presence l of
                                                     None \<Rightarrow> False
                                                   | Some pr \<Rightarrow> pr < 0.5)) lms)
           in if lms = [] then NaN else Num (real occludedCount / real (length lms))))"

text \<open>
  \<^verbatim>\<open>_updateMetrics\<close>. When the visibility estimate throws, the three metrics before it
  have been updated and the three after it have not: the pair holds the exception, if
  any, and the monitor as the call leaves it.
\<close>

definition updateMetrics_monitor :: "TrackingQualityMonitor \<Rightarrow> tracking_data option
    \<Rightarrow> js_error option \<times> TrackingQualityMonitor" where
  "updateMetrics_monitor m trackingData =
     (case trackingData of
        None \<Rightarrow> (None, m\<lparr>metrics := map_metrics (\<lambda>q. metric_update q (Num 0)) (metrics m)\<rparr>)
      | Some td \<Rightarrow>
          (let ms0 = metrics m;
               ms1 = (case td_confidence td of
                        None \<Rightarrow> ms0
                      | Some c \<Rightarrow>
                          ms0\<lparr>landmarkConfidence := metric_update (landmarkConfidence ms0) (Num c)\<rparr>);
               ms2 = ms1\<lparr>poseStability :=
                           metric_update (poseStability ms1)
                             (Num (case td_poseStability td of
                                     Some st \<Rightarrow> st
                                   | None \<Rightarrow> estimatePoseStability td))\<rparr>;
               ms3 = (case td_reprojectionError td of
                        None \<Rightarrow> ms2
                      | Some e \<Rightarrow>
                          ms2\<lparr>reprojectionErrorMetric :=
                                 metric_update (reprojectionErrorMetric ms2) (Num (confidence_of e))\<rparr>)
           in case (case td_faceVisibility td of
                      Some v \<Rightarrow> Inr (Num v)
                    | None \<Rightarrow> estimateFaceVisibility td) of
                Inl e \<Rightarrow> (Some e, m\<lparr>metrics := ms3\<rparr>)
              | Inr visibility \<Rightarrow>
                  (let ms4 = ms3\<lparr>faceVisibility := metric_update (faceVisibility ms3) visibility\<rparr>;
                       ms5 = ms4\<lparr>motionConsistency :=
                                   metric_update (motionConsistency ms4) (estimateMotionConsistency m)\<rparr>;
                       ms6 = ms5\<lparr>occlusionLevel :=
                                   metric_update (occlusionLevel ms5)
                                     (nsub (Num 1)
                                        (case td_occlusionLevel td of
                                           Some oc \<Rightarrow> Num oc
                                         | None \<Rightarrow> estimateOcclusion td))\<rparr>
                   in (None, m\<lparr>metrics := ms6\<rparr>))))"

definition calculateOverallQuality :: "TrackingQualityMonitor \<Rightarrow> TrackingQualityMonitor" where
  "calculateOverallQuality m =
     (let qs = metric_values (metrics m);
          weightedSum = foldl (\<lambda>s q. nadd s (getWeightedScore q)) (Num 0) qs;
          totalWeight = foldl (\<lambda>s q. s + qm_weight q) 0 qs
      in m\<lparr>overallQuality := (if totalWeight > 0 then ndivr weightedSum totalWeight else Num 0)\<rparr>)"

text \<open>
  \<^verbatim>\<open>_handleStateChange(from, to)\<close>; \<open>now\<close> is the clock reading of line 430, taken when
  the state enters \<open>LOST\<close>.
\<close>

definition handleStateChange :: "TrackingQualityMonitor \<Rightarrow> tracking_state \<Rightarrow> tracking_state \<Rightarrow> real
    \<Rightarrow> TrackingQualityMonitor \<times> event list" where
  "handleStateChange m from to now =
     (let m1 = m\<lparr>previousState := Some from\<rparr>;
          (m2, lost) = (if to = LOST \<and> from \<noteq> LOST
                        then (m1\<lparr>lossStartTime := Some now\<rparr>, [OnTrackingLost now])
                        else (m1, []));
          (m3, recovered) = (if from = LOST \<and> to \<noteq> LOST
                             then (m2\<lparr>lossStartTime := None, lossDuration := 0,
                                      recoveryAttempts := 0\<rparr>, [OnTrackingRecovered])
                             else (m2, []))
      in (m3, lost @ recovered @ [OnStateChange from to, OnQualityChange (overallQuality m3)]))"

text \<open>The state that \<^verbatim>\<open>_updateState\<close> assigns, from the quality and the configured thresholds.\<close>

definition stateOfQuality :: "monitor_config \<Rightarrow> num \<Rightarrow> tracking_state" where
  "stateOfQuality c q =
     (if nge q (excellentThreshold c) then TRACKING_EXCELLENT
      else if nge q (goodThreshold c) then TRACKING_GOOD
      else if nge q (acceptableThreshold c) then TRACKING_ACCEPTABLE
      else if nge q (poorThreshold c) then TRACKING_POOR
      else if nge q (criticalThreshold c) then RECOVERING
      else LOST)"

definition updateState :: "TrackingQualityMonitor \<Rightarrow> real \<Rightarrow> TrackingQualityMonitor \<times> event list" where
  "updateState m now =
     (let prev = mon_state m;
          m1 = m\<lparr>mon_state := stateOfQuality (mon_config m) (overallQuality m)\<rparr>
      in if prev \<noteq> mon_state m1 then handleStateChange m1 prev (mon_state m1) now
         else (m1, []))"

definition predictLoss :: "TrackingQualityMonitor \<Rightarrow> TrackingQualityMonitor" where
  "predictLoss m =
     (let decliningCount = length (filter (\<lambda>q. nlt (qm_trend q) (- 0.01)) (metric_values (metrics m)))
      in m\<lparr>predictedLoss :=
             (decliningCount \<ge> 3 \<and> nlt (overallQuality m) (goodThreshold (mon_config m)))\<rparr>)"

definition determineRecoveryStrategy :: "TrackingQualityMonitor \<Rightarrow> recovery_strategy" where
  "determineRecoveryStrategy m =
     (let ms = metrics m
      in if isBelowThreshold (landmarkConfidence ms) \<and> isBelowThreshold (faceVisibility ms)
         then REDUCE_QUALITY
         else if isBelowThreshold (poseStability ms) then RESET_FILTERS
         else if isBelowThreshold (reprojectionErrorMetric ms) then ADJUST_THRESHOLDS
         else if recoveryAttempts m \<ge> 2 then FULL_RESET
         else REINITIALIZE)"

text \<open>
  \<^verbatim>\<open>_attemptRecovery\<close>; \<open>now\<close> is the clock reading of line 468. A loss start time of
  \<open>0\<close> is falsy.
\<close>

definition attemptRecovery :: "TrackingQualityMonitor \<Rightarrow> real \<Rightarrow> TrackingQualityMonitor \<times> event list" where
  "attemptRecovery m now =
     (let m1 = (case lossStartTime m of
                  None \<Rightarrow> m
                | Some t0 \<Rightarrow> if t0 = 0 then m else m\<lparr>lossDuration := now - t0\<rparr>);
          c = mon_config m1
      in if lossDuration m1 < recoveryDelay c then (m1, [])
         else if recoveryInProgress m1 then (m1, [])
         else if recoveryAttempts m1 \<ge> maxRecoveryAttempts c then (m1, [])
         else if now - lastRecoveryTime m1 < recoveryCooldown c then (m1, [])
         else
           (let strategy = determineRecoveryStrategy m1
            in if strategy \<noteq> NONE
               then (m1\<lparr>recoveryInProgress := True,
                         recoveryAttempts := Suc (recoveryAttempts m1),
                         lastRecoveryTime := now\<rparr>,
                     [OnRecoveryAttempt now (Suc (recoveryAttempts m1)) strategy])
               else (m1, [])))"

definition recoveryComplete :: "TrackingQualityMonitor \<Rightarrow> bool \<Rightarrow> TrackingQualityMonitor" where
  "recoveryComplete m success =
     (let m1 = m\<lparr>recoveryInProgress := False\<rparr>
      in if success then m1\<lparr>recoveryAttempts := 0, lossStartTime := None, lossDuration := 0\<rparr>
         else m1)"

record metric_summary =
  ms_current :: num
  ms_average :: num
  ms_trend :: num
  ms_isBelowThreshold :: bool

record assessment =
  a_quality :: num
  a_state :: tracking_state
  a_previousState :: "tracking_state option"
  a_metrics :: "metric_summary list"
  isTracking :: bool
  isRecovering :: bool
  isLost :: bool
  a_predictedLoss :: bool
  a_lossDuration :: real
  a_recoveryAttempts :: nat
  recommendedStrategy :: recovery_strategy
  a_frameCount :: nat
  a_fps :: ext

definition getAssessment :: "TrackingQualityMonitor \<Rightarrow> assessment" where
  "getAssessment m =
     \<lparr>a_quality = overallQuality m,
      a_state = mon_state m,
      a_previousState = previousState m,
      a_metrics = map (\<lambda>q. \<lparr>ms_current = current q, ms_average = average q, ms_trend = qm_trend q,
                              ms_isBelowThreshold = isBelowThreshold q\<rparr>)
                    (metric_values (metrics m)),
      isTracking = (mon_state m \<noteq> LOST \<and> mon_state m \<noteq> ERROR),
      isRecovering = (mon_state m = RECOVERING),
      isLost = (mon_state m = LOST),
      a_predictedLoss = predictedLoss m,
      a_lossDuration = lossDuration m,
      a_recoveryAttempts = recoveryAttempts m,
      recommendedStrategy = (if mon_state m = LOST then determineRecoveryStrategy m else NONE),
      a_frameCount = frameCount m,
      a_fps = fps m\<rparr>"

text \<open>
  The clock readings of one \<^verbatim>\<open>update\<close> call: at its start (line 197), in
  \<^verbatim>\<open>_handleStateChange\<close> (line 430) and in \<^verbatim>\<open>_attemptRecovery\<close> (line 468).
\<close>

record clock =
  t_frame :: real
  t_lost :: real
  t_recover :: real

text \<open>
  \<^verbatim>\<open>update(trackingData)\<close>: the assessment or the exception, the monitor after the call,
  and the callbacks triggered.
\<close>

text \<open>The frame bookkeeping of lines 196-204.\<close>

definition frame_tick :: "TrackingQualityMonitor \<Rightarrow> real \<Rightarrow> TrackingQualityMonitor" where
  "frame_tick m now =
     m\<lparr>frameCount := Suc (frameCount m),
       fps := (if lastFrameTime m > 0
               then (let delta = now - lastFrameTime m
                     in if delta = 0 then PInf else Fin (1000 / delta))
               else fps m),
       lastFrameTime := now\<rparr>"

definition monitor_update :: "TrackingQualityMonitor \<Rightarrow> tracking_data option \<Rightarrow> clock
    \<Rightarrow> (js_error + assessment) \<times> TrackingQualityMonitor \<times> event list" where
  "monitor_update m trackingData ck =
     (case updateMetrics_monitor (frame_tick m (t_frame ck)) trackingData of
        (Some e, m1) \<Rightarrow> (Inl e, m1, [])
      | (None, m1) \<Rightarrow>
          (let m2 = calculateOverallQuality m1;
               (m3, changes) = updateState m2 (t_lost ck);
               m4 = (if predictionEnabled (mon_config m3) then predictLoss m3 else m3);
               (m5, attempts) = (if recoveryEnabled (mon_config m4) \<and> mon_state m4 = LOST
                                 then attemptRecovery m4 (t_recover ck)
                                 else (m4, []));
               pushed = qualityHistory m5 @ [overallQuality m5];
               m6 = m5\<lparr>qualityHistory := (if length pushed > 100 then tl pushed else pushed)\<rparr>
           in (Inr (getAssessment m6), m6, changes @ attempts)))"

definition monitor_reset :: "TrackingQualityMonitor \<Rightarrow> TrackingQualityMonitor" where
  "monitor_reset m =
     m\<lparr>metrics := map_metrics metric_reset (metrics m),
       mon_state := INITIALIZING,
       previousState := None,
       overallQuality := Num 0,
       qualityHistory := [],
       recoveryAttempts := 0,
       lastRecoveryTime := 0,
       recoveryInProgress := False,
       lossStartTime := None,
       lossDuration := 0,
       predictedLoss := False,
       frameCount := 0\<rparr>"

subsection \<open>Executions of the monitor\<close>

text \<open>
  The calls of a caller, and what an observer sees of an execution: the callbacks
  triggered and the calls of \<^verbatim>\<open>recoveryComplete\<close> and \<^verbatim>\<open>reset\<close>. The configuration is the
  one of the constructor (\<^verbatim>\<open>setConfig\<close> is not among the calls).
\<close>

datatype monitor_call =
    Update "tracking_data option" clock
  | RecoveryComplete bool
  | Reset

datatype observation =
    Triggered event
  | Called_recoveryComplete bool
  | Called_reset

fun monitor_step :: "TrackingQualityMonitor \<Rightarrow> monitor_call \<Rightarrow> TrackingQualityMonitor \<times> observation list" where
  "monitor_step m (Update td ck) =
     (case monitor_update m td ck of (r, m', evs) \<Rightarrow> (m', map Triggered evs))"
| "monitor_step m (RecoveryComplete success) =
     (recoveryComplete m success, [Called_recoveryComplete success])"
| "monitor_step m Reset = (monitor_reset m, [Called_reset])"

fun monitor_run :: "TrackingQualityMonitor \<Rightarrow> monitor_call list \<Rightarrow> TrackingQualityMonitor \<times> observation list" where
  "monitor_run m [] = (m, [])"
| "monitor_run m (c # cs) =
     (let (m1, tr1) = monitor_step m c;
          (m2, tr2) = monitor_run m1 cs
      in (m2, tr1 @ tr2))"

text \<open>\<open>n\<close> frames without tracking data, with the clock readings given.\<close>

definition absent_frames :: "clock list \<Rightarrow> monitor_call list" where
  "absent_frames cks = map (Update None) cks"

fun is_lost_callback :: "observation \<Rightarrow> bool" where
  "is_lost_callback (Triggered (OnTrackingLost t)) = True"
| "is_lost_callback _ = False"

fun is_attempt :: "observation \<Rightarrow> bool" where
  "is_attempt (Triggered (OnRecoveryAttempt t n s)) = True"
| "is_attempt _ = False"

text \<open>
  The state of the specification's words: the thresholds are fixed and each boundary
  belongs to the higher state.
\<close>

definition state_of_spec :: "real \<Rightarrow> tracking_state" where
  "state_of_spec q =
     (if q \<ge> 0.9 then TRACKING_EXCELLENT
      else if q \<ge> 0.75 then TRACKING_GOOD
      else if q \<ge> 0.5 then TRACKING_ACCEPTABLE
      else if q \<ge> 0.3 then TRACKING_POOR
      else if q \<ge> 0.15 then RECOVERING
      else LOST)"

definition default_thresholds :: "monitor_config \<Rightarrow> bool" where
  "default_thresholds c =
     (excellentThreshold c = excellent QUALITY_THRESHOLDS
      \<and> goodThreshold c = good QUALITY_THRESHOLDS
      \<and> acceptableThreshold c = acceptable QUALITY_THRESHOLDS
      \<and> poorThreshold c = poor QUALITY_THRESHOLDS
      \<and> criticalThreshold c = critical QUALITY_THRESHOLDS)"

definition positive_thresholds :: "monitor_config \<Rightarrow> bool" where
  "positive_thresholds c =
     (0 < excellentThreshold c \<and> 0 < goodThreshold c \<and> 0 < acceptableThreshold c
      \<and> 0 < poorThreshold c \<and> 0 < criticalThreshold c)"

subsection \<open>The three gates of a recovery attempt, read off an execution\<close>

text \<open>
  A check runs over the observations with a state of its own and fails (\<open>None\<close>) at
  the first observation that breaks the rule.
\<close>

fun check :: "('s \<Rightarrow> observation \<Rightarrow> 's option) \<Rightarrow> 's \<Rightarrow> observation list \<Rightarrow> 's option" where
  "check step s [] = Some s"
| "check step s (ob # tr) = (case step s ob of None \<Rightarrow> None | Some s' \<Rightarrow> check step s' tr)"

text \<open>
  Dwell: the state is the time at which the current stay in \<open>LOST\<close> began, if the
  monitor is in \<open>LOST\<close>. An attempt needs a stay of at least the delay.
\<close>

fun dwell_step :: "real \<Rightarrow> real option \<Rightarrow> observation \<Rightarrow> real option option" where
  "dwell_step d since (Triggered (OnTrackingLost t)) = Some (Some t)"
| "dwell_step d since (Triggered OnTrackingRecovered) = Some None"
| "dwell_step d since (Triggered (OnRecoveryAttempt t n s)) =
     (case since of None \<Rightarrow> None | Some t0 \<Rightarrow> if t - t0 \<ge> d then Some since else None)"
| "dwell_step d since ob = Some since"

definition dwell_respected :: "real \<Rightarrow> observation list \<Rightarrow> bool" where
  "dwell_respected d tr = (check (dwell_step d) None tr \<noteq> None)"

text \<open>
  Attempt count: the state is the number of attempts since the last recovery (the state
  left \<open>LOST\<close>, or the caller reported success). An attempt needs a count below the
  maximum. With \<open>restart\<close>, a \<^verbatim>\<open>reset\<close> starts the count again.
\<close>

fun count_step :: "bool \<Rightarrow> nat \<Rightarrow> nat \<Rightarrow> observation \<Rightarrow> nat option" where
  "count_step restart mx n (Triggered (OnRecoveryAttempt t k s)) = (if n < mx then Some (Suc n) else None)"
| "count_step restart mx n (Triggered OnTrackingRecovered) = Some 0"
| "count_step restart mx n (Called_recoveryComplete success) = Some (if success then 0 else n)"
| "count_step restart mx n Called_reset = Some (if restart then 0 else n)"
| "count_step restart mx n ob = Some n"

definition count_respected :: "bool \<Rightarrow> nat \<Rightarrow> observation list \<Rightarrow> bool" where
  "count_respected restart mx tr = (check (count_step restart mx) 0 tr \<noteq> None)"

text \<open>
  Cooldown: the state is the time of the last attempt. An attempt needs at least the
  cooldown since then. With \<open>restart\<close>, a \<^verbatim>\<open>reset\<close> forgets the last attempt.
\<close>

fun cooldown_step :: "bool \<Rightarrow> real \<Rightarrow> real option \<Rightarrow> observation \<Rightarrow> real option option" where
  "cooldown_step restart cd prev (Triggered (OnRecoveryAttempt t k s)) =
     (case prev of
        None \<Rightarrow> Some (Some t)
      | Some t' \<Rightarrow> if t - t' \<ge> cd then Some (Some t) else None)"
| "cooldown_step restart cd prev Called_reset = Some (if restart then None else prev)"
| "cooldown_step restart cd prev ob = Some prev"

definition cooldown_respected :: "bool \<Rightarrow> real \<Rightarrow> observation list \<Rightarrow> bool" where
  "cooldown_respected restart cd tr = (check (cooldown_step restart cd) None tr \<noteq> None)"

subsection \<open>The stages of a call of update\<close>

text \<open>
  The monitor after the metrics and the quality have been computed, after the state has
  been updated, and after the recovery step, for a call that does not throw.
\<close>

definition after_metrics :: "TrackingQualityMonitor \<Rightarrow> tracking_data option \<Rightarrow> clock
    \<Rightarrow> TrackingQualityMonitor" where
  "after_metrics m td ck =
     calculateOverallQuality (snd (updateMetrics_monitor (frame_tick m (t_frame ck)) td))"

definition after_state :: "TrackingQualityMonitor \<Rightarrow> clock \<Rightarrow> TrackingQualityMonitor" where
  "after_state m2 ck =
     (let m3 = fst (updateState m2 (t_lost ck))
      in if predictionEnabled (mon_config m3) then predictLoss m3 else m3)"

definition after_recovery :: "TrackingQualityMonitor \<Rightarrow> clock
    \<Rightarrow> TrackingQualityMonitor \<times> event list" where
  "after_recovery m4 ck =
     (if recoveryEnabled (mon_config m4) \<and> mon_state m4 = LOST
      then attemptRecovery m4 (t_recover ck) else (m4, []))"

text \<open>An observation that is a callback for which the caller gave a function.\<close>

fun fires :: "monitor_config \<Rightarrow> observation \<Rightarrow> bool" where
  "fires c (Triggered e) = registered c e"
| "fires c ob = False"

subsection \<open>Concrete monitors and executions\<close>

definition no_monitor_options :: monitor_options where
  "no_monitor_options =
     \<lparr>mo_excellentThreshold = None, mo_goodThreshold = None, mo_acceptableThreshold = None,
      mo_poorThreshold = None, mo_criticalThreshold = None, mo_recoveryEnabled = None,
      mo_recoveryDelay = None, mo_maxRecoveryAttempts = None, mo_recoveryCooldown = None,
      mo_predictionEnabled = None, mo_onQualityChange = True, mo_onStateChange = True,
      mo_onRecoveryAttempt = True, mo_onTrackingLost = True, mo_onTrackingRecovered = True\<rparr>"

definition default_monitor :: TrackingQualityMonitor where
  "default_monitor = new_TrackingQualityMonitor no_monitor_options"

text \<open>A frame whose three clock readings are the same.\<close>

definition clock_at :: "real \<Rightarrow> clock" where
  "clock_at t = \<lparr>t_frame = t, t_lost = t, t_recover = t\<rparr>"

text \<open>Tracking data that gives every metric the same score.\<close>

definition uniform_data :: "real \<Rightarrow> tracking_data" where
  "uniform_data q =
     \<lparr>td_confidence = Some q, td_poseStability = Some q, td_velocity = None,
      td_reprojectionError = Some (Fin (50 * (1 - q))), td_faceVisibility = Some q,
      td_landmarks = None, td_occlusionLevel = Some (1 - q)\<rparr>"

text \<open>
  A monitor in \<open>TRACKING_GOOD\<close>: a new monitor after a frame of quality 0.75. Ten frames
  16 ms apart.
\<close>

definition good_monitor :: TrackingQualityMonitor where
  "good_monitor =
     fst (snd (monitor_update default_monitor (Some (uniform_data (13 / 18))) (clock_at 0)))"

definition ten_frames :: "clock list" where
  "ten_frames =
     [clock_at 16, clock_at 32, clock_at 48, clock_at 64, clock_at 80,
      clock_at 96, clock_at 112, clock_at 128, clock_at 144, clock_at 160]"

text \<open>The times of the recovery attempts of an execution.\<close>

fun attempt_times :: "observation list \<Rightarrow> real list" where
  "attempt_times [] = []"
| "attempt_times (Triggered (OnRecoveryAttempt t n s) # tr) = t # attempt_times tr"
| "attempt_times (ob # tr) = attempt_times tr"

text \<open>
  Two executions of a new monitor that loses the face at 3000 ms and makes its first
  attempt at 3500 ms: in the first the caller reports the failure of the attempt, in the
  second the caller resets the monitor.
\<close>

definition retry_calls :: "monitor_call list" where
  "retry_calls =
     [Update None (clock_at 3000), Update None (clock_at 3500), RecoveryComplete False,
      Update None (clock_at 5500)]"

definition reset_calls :: "monitor_call list" where
  "reset_calls =
     [Update None (clock_at 3000), Update None (clock_at 3500), Reset,
      Update None (clock_at 3616), Update None (clock_at 4116)]"

subsection \<open>What the monitor remembers of the gates\<close>

text \<open>
  Outside \<open>LOST\<close> there is no loss start time, and the loss duration is 0 while the
  loss start time is falsy.
\<close>

definition gate_inv :: "TrackingQualityMonitor \<Rightarrow> bool" where
  "gate_inv m =
     ((mon_state m \<noteq> LOST \<longrightarrow> lossStartTime m = None)
      \<and> (lossStartTime m = None \<or> lossStartTime m = Some 0 \<longrightarrow> lossDuration m = 0))"

text \<open>
  The fields of the monitor against the states of the three checks: the loss start time
  is the time of the last loss, the attempt counter is the count, and the last recovery
  time is the time of the last attempt.
\<close>

definition gate_rel :: "TrackingQualityMonitor \<Rightarrow> real option \<times> nat \<times> real option \<Rightarrow> bool" where
  "gate_rel m s =
     (case s of (since, n, prev) \<Rightarrow>
        (\<forall>t. lossStartTime m = Some t \<longrightarrow> since = Some t)
        \<and> recoveryAttempts m = n
        \<and> (\<forall>t. prev = Some t \<longrightarrow> lastRecoveryTime m = t))"

text \<open>The three checks together, a \<^verbatim>\<open>reset\<close> restarting the count and the cooldown.\<close>

definition gates_step :: "monitor_config \<Rightarrow> real option \<times> nat \<times> real option \<Rightarrow> observation
    \<Rightarrow> (real option \<times> nat \<times> real option) option" where
  "gates_step c s ob =
     (case s of (since, n, prev) \<Rightarrow>
        (case dwell_step (recoveryDelay c) since ob of
           None \<Rightarrow> None
         | Some since' \<Rightarrow>
             (case count_step True (maxRecoveryAttempts c) n ob of
                None \<Rightarrow> None
              | Some n' \<Rightarrow>
                  (case cooldown_step True (recoveryCooldown c) prev ob of
                     None \<Rightarrow> None
                   | Some prev' \<Rightarrow> Some (since', n', prev')))))"

section \<open>Properties of CameraCalibrator\<close>

lemma hypot_zero_right: "hypot a 0 = \<bar>a\<bar>"
  by (simp add: hypot_def)

lemma js_index_raw_eyes:
  "js_index (raw_eyes l r) EYE_left = Some l" "js_index (raw_eyes l r) EYE_right = Some r"
  by (simp_all add: js_index_def raw_eyes_def EYE_left_def EYE_right_def)

text \<open>
  The focal-length candidate is \<open>2.1\<close> times the pixel distance, so a distance that
  passes the first check (at most 200) gives a candidate of at most 420, which the
  second check rejects. What passes both checks is a pixel distance that is \<^verbatim>\<open>NaN\<close>:
  every comparison with it is false.
\<close>

lemma estimateFocalLength_eyes:
  "js_index lms EYE_left = Some leftEye \<Longrightarrow> js_index lms EYE_right = Some rightEye \<Longrightarrow>
   estimateFocalLength (Some lms) w
   = (if eyePixelDistance leftEye rightEye w = NotANumber then Some NotANumber else None)"
  by (cases "eyePixelDistance leftEye rightEye w")
     (auto simp: estimateFocalLength_def Let_def REAL_IPD_MM_def)

lemma estimateFocalLength_null_or_NaN:
  "estimateFocalLength landmarks w = None \<or> estimateFocalLength landmarks w = Some NotANumber"
proof (cases landmarks)
  case None
  then show ?thesis by (simp add: estimateFocalLength_def)
next
  case (Some lms)
  show ?thesis
  proof (cases "js_index lms EYE_left")
    case None
    with Some show ?thesis by (simp add: estimateFocalLength_def)
  next
    case l: (Some leftEye)
    show ?thesis
    proof (cases "js_index lms EYE_right")
      case None
      with Some l show ?thesis by (simp add: estimateFocalLength_def)
    next
      case r: (Some rightEye)
      from estimateFocalLength_eyes [OF l r, of w] Some show ?thesis by simp
    qed
  qed
qed

lemma d_less_distance:
  "d_less pd 20 \<or> d_greater pd 200 \<Longrightarrow> pd \<noteq> NotANumber"
  by (cases pd) simp_all

lemma eyePixelDistance_no_width:
  "eyePixelDistance (raw_point a b) (raw_point a' b') NotANumber = NotANumber"
  by (simp add: eyePixelDistance_def raw_point_def d_sub_def)

text \<open>
  C5. \<^verbatim>\<open>estimateFocalLength\<close> returns null whenever the eye pixel distance is below 20
  or above 200. It never returns a number of \<open>[500, 3000]\<close>: what it returns is null or
  \<^verbatim>\<open>NaN\<close>. It returns \<^verbatim>\<open>NaN\<close>, which is not null and not in \<open>[500, 3000]\<close>, exactly when
  both eye landmarks are there and the pixel distance is \<^verbatim>\<open>NaN\<close>; this is the case when
  the eyes have finite coordinates and the image width is \<^verbatim>\<open>undefined\<close> or \<^verbatim>\<open>NaN\<close>.
\<close>

theorem C5_estimateFocalLength_null_or_NaN:
  "(js_index lms EYE_left = Some leftEye \<and> js_index lms EYE_right = Some rightEye \<and>
      (d_less (eyePixelDistance leftEye rightEye w) 20
       \<or> d_greater (eyePixelDistance leftEye rightEye w) 200)
     \<longrightarrow> estimateFocalLength (Some lms) w = None)
   \<and> (estimateFocalLength landmarks w = None \<or> estimateFocalLength landmarks w = Some NotANumber)
   \<and> (\<forall>f. estimateFocalLength landmarks w = Some f \<longrightarrow> \<not> in_range f)
   \<and> (js_index lms EYE_left = Some leftEye \<and> js_index lms EYE_right = Some rightEye \<and>
      eyePixelDistance leftEye rightEye w = NotANumber
     \<longrightarrow> estimateFocalLength (Some lms) w = Some NotANumber)
   \<and> estimateFocalLength (Some (raw_eyes (raw_point a b) (raw_point a' b'))) NotANumber
      = Some NotANumber"
proof -
  have 1: "js_index lms EYE_left = Some leftEye \<and> js_index lms EYE_right = Some rightEye \<and>
      (d_less (eyePixelDistance leftEye rightEye w) 20
       \<or> d_greater (eyePixelDistance leftEye rightEye w) 200)
     \<longrightarrow> estimateFocalLength (Some lms) w = None"
    using d_less_distance [of "eyePixelDistance leftEye rightEye w"]
    by (auto simp: estimateFocalLength_eyes)
  note 2 = estimateFocalLength_null_or_NaN [of landmarks w]
  from 2 have 3: "\<forall>f. estimateFocalLength landmarks w = Some f \<longrightarrow> \<not> in_range f"
    by auto
  have 4: "js_index lms EYE_left = Some leftEye \<and> js_index lms EYE_right = Some rightEye \<and>
      eyePixelDistance leftEye rightEye w = NotANumber
     \<longrightarrow> estimateFocalLength (Some lms) w = Some NotANumber"
    by (auto simp: estimateFocalLength_eyes)
  have 5: "estimateFocalLength (Some (raw_eyes (raw_point a b) (raw_point a' b'))) NotANumber
      = Some NotANumber"
    by (simp add: estimateFocalLength_eyes [OF js_index_raw_eyes] eyePixelDistance_no_width)
  from 1 2 3 4 5 show ?thesis by (intro conjI)
qed

text \<open>
  The two distances of the specification, 5 pixels and 5000 pixels, give null. Eyes at
  \<open>(0.4, 0.5)\<close> and \<open>(0.6, 0.5)\<close> in an image 640 wide are 128 pixels apart, the candidate
  is 268.8 and the result null; the same eyes with no image width give \<^verbatim>\<open>NaN\<close>.
\<close>

theorem C5_estimateFocalLength_null_or_NaN_witness:
  "eyePixelDistance (raw_point 0 0) (raw_point (1/200) 0) (Dbl 1000) = Dbl 5
   \<and> estimateFocalLength (Some (raw_eyes (raw_point 0 0) (raw_point (1/200) 0))) (Dbl 1000) = None
   \<and> eyePixelDistance (raw_point 0 0) (raw_point (1/2) 0) (Dbl 10000) = Dbl 5000
   \<and> estimateFocalLength (Some (raw_eyes (raw_point 0 0) (raw_point (1/2) 0))) (Dbl 10000) = None
   \<and> eyePixelDistance (raw_point (2/5) (1/2)) (raw_point (3/5) (1/2)) (Dbl 640) = Dbl 128
   \<and> estimateFocalLength (Some (raw_eyes (raw_point (2/5) (1/2)) (raw_point (3/5) (1/2)))) (Dbl 640)
      = None
   \<and> eyePixelDistance (raw_point (2/5) (1/2)) (raw_point (3/5) (1/2)) NotANumber = NotANumber
   \<and> estimateFocalLength (Some (raw_eyes (raw_point (2/5) (1/2)) (raw_point (3/5) (1/2)))) NotANumber
      = Some NotANumber
   \<and> \<not> in_range NotANumber"
proof -
  have d1: "eyePixelDistance (raw_point 0 0) (raw_point (1/200) 0) (Dbl 1000) = Dbl 5"
    by (simp add: eyePixelDistance_def raw_point_def d_sub_def hypot_zero_right)
  have d2: "eyePixelDistance (raw_point 0 0) (raw_point (1/2) 0) (Dbl 10000) = Dbl 5000"
    by (simp add: eyePixelDistance_def raw_point_def d_sub_def hypot_zero_right)
  have d3: "eyePixelDistance (raw_point (2/5) (1/2)) (raw_point (3/5) (1/2)) (Dbl 640) = Dbl 128"
    by (simp add: eyePixelDistance_def raw_point_def d_sub_def hypot_zero_right)
  have d4: "eyePixelDistance (raw_point (2/5) (1/2)) (raw_point (3/5) (1/2)) NotANumber = NotANumber"
    by (rule eyePixelDistance_no_width)
  have r1: "estimateFocalLength (Some (raw_eyes (raw_point 0 0) (raw_point (1/200) 0))) (Dbl 1000) = None"
    using C5_estimateFocalLength_null_or_NaN
      [of "raw_eyes (raw_point 0 0) (raw_point (1/200) 0)" "raw_point 0 0" "raw_point (1/200) 0"
          "Dbl 1000"]
    by (simp add: js_index_raw_eyes d1)
  have r2: "estimateFocalLength (Some (raw_eyes (raw_point 0 0) (raw_point (1/2) 0))) (Dbl 10000) = None"
    using C5_estimateFocalLength_null_or_NaN
      [of "raw_eyes (raw_point 0 0) (raw_point (1/2) 0)" "raw_point 0 0" "raw_point (1/2) 0"
          "Dbl 10000"]
    by (simp add: js_index_raw_eyes d2)
  have r3: "estimateFocalLength (Some (raw_eyes (raw_point (2/5) (1/2)) (raw_point (3/5) (1/2))))
      (Dbl 640) = None"
    by (simp add: estimateFocalLength_eyes [OF js_index_raw_eyes] d3)
  have r4: "estimateFocalLength (Some (raw_eyes (raw_point (2/5) (1/2)) (raw_point (3/5) (1/2))))
      NotANumber = Some NotANumber"
    using C5_estimateFocalLength_null_or_NaN
      [of "raw_eyes (raw_point (2/5) (1/2)) (raw_point (3/5) (1/2))" "raw_point (2/5) (1/2)"
          "raw_point (3/5) (1/2)" NotANumber]
    by (simp add: js_index_raw_eyes d4)
  show ?thesis using d1 d2 d3 d4 r1 r2 r3 r4 by simp
qed

subsection \<open>Calibration state\<close>

lemma getCalibratedFocalLength_null_unchanged:
  "fst (getCalibratedFocalLength c now) = None \<Longrightarrow> snd (getCalibratedFocalLength c now) = c"
  by (auto simp: getCalibratedFocalLength_def Let_def split: prod.splits if_splits)

text \<open>A stored focal length is in \<open>[500, 3000]\<close> or \<^verbatim>\<open>NaN\<close>: the two range tests let \<^verbatim>\<open>NaN\<close> pass.\<close>

lemma range_tests: "\<not> d_less f 500 \<Longrightarrow> \<not> d_greater f 3000 \<Longrightarrow> in_range f \<or> f = NotANumber"
  by (cases f) simp_all

lemma stored_getCalibratedFocalLength:
  "calibratedFocal (snd (getCalibratedFocalLength c now)) = Some f \<Longrightarrow>
   calibratedFocal c = Some f \<or> in_range f \<or> f = NotANumber"
  using range_tests [of f]
  by (auto simp: getCalibratedFocalLength_def Let_def split: prod.splits if_splits)

lemma stored_step:
  assumes "\<forall>f. calibratedFocal c = Some f \<longrightarrow> in_range f \<or> f = NotANumber"
  shows "\<forall>f. calibratedFocal (calibrator_step c call) = Some f \<longrightarrow> in_range f \<or> f = NotANumber"
proof (cases call)
  case (AddSample v now)
  with assms show ?thesis
    by (auto simp: addSample_def Let_def split: option.splits)
next
  case (GetCalibratedFocalLength now)
  with assms stored_getCalibratedFocalLength [of c now] show ?thesis
    by auto
next
  case ResetCalibrator
  then show ?thesis by (simp add: reset_calibrator_def)
qed

lemma stored_run:
  assumes "\<forall>f. calibratedFocal c = Some f \<longrightarrow> in_range f \<or> f = NotANumber"
  shows "\<forall>f. calibratedFocal (calibrator_run c calls) = Some f \<longrightarrow> in_range f \<or> f = NotANumber"
  using assms unfolding calibrator_run_def
proof (induction calls arbitrary: c)
  case Nil
  then show ?case by simp
next
  case (Cons call calls)
  from Cons.IH [OF stored_step [OF Cons.prems, of call]] show ?case by simp
qed

lemma stored_in_range_or_NaN:
  "calibratedFocal (calibrator_run new_CameraCalibrator calls) = Some f \<Longrightarrow>
   in_range f \<or> f = NotANumber"
  using stored_run [of new_CameraCalibrator calls]
  by (simp add: new_CameraCalibrator_def)

text \<open>\<^verbatim>\<open>Math.exp\<close> of \<open>-806.25\<close> and below is \<open>0\<close>: \<open>exp (3/4) \<ge> 2\<close>, so \<open>exp 806.25 \<ge> 2 ^ 1075\<close>.\<close>

lemma exp_three_quarters: "2 \<le> exp (3 / 4 :: real)"
proof -
  have "1 + (3 / 4) + (3 / 4)\<^sup>2 / 2 \<le> exp (3 / 4 :: real)"
    by (rule exp_lower_Taylor_quadratic) simp
  moreover have "(2::real) \<le> 1 + (3 / 4) + (3 / 4)\<^sup>2 / 2"
    by (simp add: power2_eq_square)
  ultimately show ?thesis by linarith
qed

lemma exp_underflow: "x \<le> - (3225 / 4) \<Longrightarrow> exp x \<le> 1 / 2 ^ 1075" for x :: real
proof -
  assume x: "x \<le> - (3225 / 4)"
  have "(2::real) ^ 1075 \<le> exp (3 / 4) ^ 1075"
    by (rule power_mono [OF exp_three_quarters]) simp
  also have "\<dots> = exp (real 1075 * (3 / 4))"
    by (rule exp_of_nat_mult [symmetric])
  also have "real 1075 * (3 / 4) = 3225 / 4" by simp
  finally have big: "(2::real) ^ 1075 \<le> exp (3225 / 4)" .
  have "exp x \<le> exp (- (3225 / 4))" using x by simp
  also have "\<dots> = 1 / exp (3225 / 4)" by (simp only: exp_minus inverse_eq_divide)
  also have "\<dots> \<le> 1 / 2 ^ 1075"
    by (rule divide_left_mono [OF big]) (simp_all del: power_numeral)
  finally show ?thesis .
qed

lemma Math_exp_underflow: "x \<le> - (3225 / 4) \<Longrightarrow> Math_exp x = Dbl 0"
  unfolding Math_exp_def by (simp only: exp_underflow if_True)

text \<open>
  When every sample is older than 4031250 ms, every weight is \<open>0\<close>: the total weight is
  \<open>0\<close>, the weighted sum is \<open>0\<close> or \<^verbatim>\<open>NaN\<close>, and their quotient is \<^verbatim>\<open>NaN\<close>.
\<close>

lemma weightedSums_stale_step:
  assumes "\<forall>s \<in> set xs. 4031250 \<le> now - timestamp s" "ws = Dbl 0 \<or> ws = NotANumber"
  shows "\<exists>ws'. foldl (\<lambda>(weightedSum, totalWeight) s.
              (let age = now - timestamp s;
                   weight = Math_exp (- age / 5000)
               in (d_add weightedSum (d_mul (sample_value s) weight), d_add totalWeight weight)))
           (ws, Dbl 0) xs = (ws', Dbl 0) \<and> (ws' = Dbl 0 \<or> ws' = NotANumber)"
  using assms
proof (induction xs arbitrary: ws)
  case Nil
  then show ?case by simp
next
  case (Cons s xs)
  from Cons.prems(1) have "- ((now - timestamp s) / 5000) \<le> - (3225 / 4)" by simp
  then have w: "Math_exp (- ((now - timestamp s) / 5000)) = Dbl 0"
    by (rule Math_exp_underflow)
  have m: "d_mul (sample_value s) (Dbl 0) = Dbl 0 \<or> d_mul (sample_value s) (Dbl 0) = NotANumber"
    by (cases "sample_value s") (simp_all add: inf_of_sign_def)
  with Cons.prems(2)
  have a: "d_add ws (d_mul (sample_value s) (Dbl 0)) = Dbl 0
           \<or> d_add ws (d_mul (sample_value s) (Dbl 0)) = NotANumber"
    by auto
  from Cons.prems(1) have rest: "\<forall>s \<in> set xs. 4031250 \<le> now - timestamp s" by simp
  from Cons.IH [OF rest a] show ?case
    by (simp add: w Let_def)
qed

lemma stale_average:
  assumes "\<forall>s \<in> set xs. 4031250 \<le> now - timestamp s"
  shows "d_div (fst (weightedSums now xs)) (snd (weightedSums now xs)) = NotANumber"
proof -
  from weightedSums_stale_step [OF assms, of "Dbl 0"] obtain ws' where
    "weightedSums now xs = (ws', Dbl 0)" "ws' = Dbl 0 \<or> ws' = NotANumber"
    unfolding weightedSums_def by auto
  then show ?thesis by (auto simp: inf_of_sign_def)
qed

text \<open>
  C9. A call of \<^verbatim>\<open>getCalibratedFocalLength\<close> that returns null leaves the calibrator as
  it was. But the call does not reject every weighted average outside \<open>[500, 3000]\<close>:
  when there are at least eight samples, all of them older than 4031250 ms (67 minutes),
  and the variance test lets them pass, the weighted average is \<^verbatim>\<open>0 / 0\<close>, which is
  \<^verbatim>\<open>NaN\<close>; the call returns it and stores it as the calibrated focal length.
\<close>

theorem C9_stale_samples_store_NaN:
  "(fst (getCalibratedFocalLength c now) = None \<longrightarrow>
        snd (getCalibratedFocalLength c now) = c)
   \<and> (length (samples c) < minSamples \<longrightarrow> getCalibratedFocalLength c now = (None, c))
   \<and> (d_greater (calculateVariance c) 10000 \<longrightarrow> getCalibratedFocalLength c now = (None, c))
   \<and> (minSamples \<le> length (samples c) \<and> (\<forall>s \<in> set (samples c). 4031250 \<le> now - timestamp s)
      \<and> \<not> d_greater (calculateVariance c) 10000 \<longrightarrow>
        getCalibratedFocalLength c now
        = (Some NotANumber, c\<lparr>calibratedFocal := Some NotANumber, lastCalibrationTime := now\<rparr>)
        \<and> \<not> focal_in_range (snd (getCalibratedFocalLength c now)))"
proof -
  have 1: "fst (getCalibratedFocalLength c now) = None \<longrightarrow>
        snd (getCalibratedFocalLength c now) = c"
    by (simp add: getCalibratedFocalLength_null_unchanged)
  have 2: "length (samples c) < minSamples \<longrightarrow> getCalibratedFocalLength c now = (None, c)"
    by (simp add: getCalibratedFocalLength_def)
  have 3: "d_greater (calculateVariance c) 10000 \<longrightarrow> getCalibratedFocalLength c now = (None, c)"
    by (auto simp: getCalibratedFocalLength_def Let_def split: prod.splits)
  have 4: "minSamples \<le> length (samples c) \<and> (\<forall>s \<in> set (samples c). 4031250 \<le> now - timestamp s)
      \<and> \<not> d_greater (calculateVariance c) 10000 \<longrightarrow>
        getCalibratedFocalLength c now
        = (Some NotANumber, c\<lparr>calibratedFocal := Some NotANumber, lastCalibrationTime := now\<rparr>)
        \<and> \<not> focal_in_range (snd (getCalibratedFocalLength c now))"
  proof (intro impI, elim conjE)
    assume n: "minSamples \<le> length (samples c)"
      and old: "\<forall>s \<in> set (samples c). 4031250 \<le> now - timestamp s"
      and v: "\<not> d_greater (calculateVariance c) 10000"
    note a = stale_average [OF old]
    have g: "getCalibratedFocalLength c now
        = (Some NotANumber, c\<lparr>calibratedFocal := Some NotANumber, lastCalibrationTime := now\<rparr>)"
      using n v by (simp add: getCalibratedFocalLength_def Let_def case_prod_beta a)
    show "getCalibratedFocalLength c now
        = (Some NotANumber, c\<lparr>calibratedFocal := Some NotANumber, lastCalibrationTime := now\<rparr>)
        \<and> \<not> focal_in_range (snd (getCalibratedFocalLength c now))"
      unfolding g by (simp add: focal_in_range_def)
  qed
  from 1 2 3 4 show ?thesis by (intro conjI)
qed

text \<open>
  Two calibrators that hold a stored focal length of 900, one with three samples and
  one with eight samples around 1000 that spread too far (variance 40000): the call
  returns null and they keep the 900. A new calibrator is given eight samples of 1000
  at time 0 and asked for the calibrated focal length at 5000000 ms: it stores \<^verbatim>\<open>NaN\<close>.
\<close>

lemma run_stale_calls:
  "calibrator_run new_CameraCalibrator stale_calls
   = snd (getCalibratedFocalLength eight_samples 5000000)"
  by (simp add: calibrator_run_def stale_calls_def new_CameraCalibrator_def eight_samples_def
      samples_at_def addSample_def maxSamples_def Let_def numeral_eq_Suc)

theorem C9_stale_samples_store_NaN_witness:
  "getCalibratedFocalLength (stored_900 [1000, 1000, 1000]) 7 = (None, stored_900 [1000, 1000, 1000])
   \<and> getCalibratedFocalLength (stored_900 [800, 1200, 800, 1200, 800, 1200, 800, 1200]) 7
       = (None, stored_900 [800, 1200, 800, 1200, 800, 1200, 800, 1200])
   \<and> fst (getCalibratedFocalLength eight_samples 5000000) = Some NotANumber
   \<and> calibratedFocal (calibrator_run new_CameraCalibrator stale_calls) = Some NotANumber
   \<and> \<not> focal_in_range (calibrator_run new_CameraCalibrator stale_calls)"
proof -
  have a: "length (samples (stored_900 [1000, 1000, 1000])) < minSamples"
    by (simp add: stored_900_def samples_at_def minSamples_def)
  have c: "d_greater (calculateVariance (stored_900 [800, 1200, 800, 1200, 800, 1200, 800, 1200])) 10000"
    by (simp add: stored_900_def samples_at_def calculateVariance_def d_sub_def)
  note t1 = C9_stale_samples_store_NaN [of "stored_900 [1000, 1000, 1000]" 7]
  note t3 = C9_stale_samples_store_NaN [of "stored_900 [800, 1200, 800, 1200, 800, 1200, 800, 1200]" 7]
  note t4 = C9_stale_samples_store_NaN [of eight_samples 5000000]
  from t1 a have r1: "getCalibratedFocalLength (stored_900 [1000, 1000, 1000]) 7
      = (None, stored_900 [1000, 1000, 1000])" by blast
  from t3 c have r3: "getCalibratedFocalLength (stored_900 [800, 1200, 800, 1200, 800, 1200, 800, 1200]) 7
       = (None, stored_900 [800, 1200, 800, 1200, 800, 1200, 800, 1200])" by blast
  have n: "minSamples \<le> length (samples eight_samples)"
    by (simp add: eight_samples_def samples_at_def minSamples_def)
  have old: "\<forall>s \<in> set (samples eight_samples). 4031250 \<le> 5000000 - timestamp s"
    by (simp add: eight_samples_def samples_at_def)
  have v: "\<not> d_greater (calculateVariance eight_samples) 10000"
    by (simp add: eight_samples_def samples_at_def calculateVariance_def d_sub_def)
  from t4 n old v have g: "getCalibratedFocalLength eight_samples 5000000
        = (Some NotANumber,
           eight_samples\<lparr>calibratedFocal := Some NotANumber, lastCalibrationTime := 5000000\<rparr>)"
    and nr: "\<not> focal_in_range (snd (getCalibratedFocalLength eight_samples 5000000))"
    by blast+
  have r4: "fst (getCalibratedFocalLength eight_samples 5000000) = Some NotANumber"
    by (simp add: g)
  have r5: "calibratedFocal (calibrator_run new_CameraCalibrator stale_calls) = Some NotANumber"
    by (simp add: run_stale_calls g)
  have r6: "\<not> focal_in_range (calibrator_run new_CameraCalibrator stale_calls)"
    unfolding run_stale_calls by (rule nr)
  from r1 r3 r4 r5 r6 show ?thesis by (intro conjI)
qed

section \<open>Properties of the pose estimator\<close>

subsection \<open>Projection\<close>

lemma project_None_iff: "project cam p = None \<longleftrightarrow> z3 p \<le> 0"
  by (simp add: project_def Let_def)

lemma project_Some:
  "0 < z3 p \<Longrightarrow> project cam p = Some \<lparr>x2 = focalLength cam * x3 p / z3 p + cx cam,
                                         y2 = focalLength cam * y3 p / z3 p + cy cam\<rparr>"
  by (simp add: project_def Let_def)

text \<open>The inlier scoring only ever adds the index of a point that projects.\<close>

lemma scoreInliers_indices:
  "set (fst (scoreInliers t pf cs i acc)) \<subseteq>
     set (fst acc) \<union> {j. i \<le> j \<and> j < i + length cs \<and> pf (model_pt (cs ! (j - i))) \<noteq> None}"
proof (induction cs arbitrary: i acc)
  case Nil
  then show ?case by (cases acc) simp
next
  case (Cons c cs)
  obtain inl tot where acc: "acc = (inl, tot)" by (cases acc)
  have step: "set (fst (scoreInliers t pf cs (Suc i) acc')) \<subseteq>
     set (fst acc') \<union> {j. i \<le> j \<and> j < i + length (c # cs) \<and> pf (model_pt ((c # cs) ! (j - i))) \<noteq> None}"
    for acc'
  proof -
    have "set (fst (scoreInliers t pf cs (Suc i) acc')) \<subseteq>
      set (fst acc') \<union> {j. Suc i \<le> j \<and> j < Suc i + length cs \<and> pf (model_pt (cs ! (j - Suc i))) \<noteq> None}"
      by (rule Cons.IH)
    moreover have "{j. Suc i \<le> j \<and> j < Suc i + length cs \<and> pf (model_pt (cs ! (j - Suc i))) \<noteq> None}
      \<subseteq> {j. i \<le> j \<and> j < i + length (c # cs) \<and> pf (model_pt ((c # cs) ! (j - i))) \<noteq> None}"
      by (auto simp: nth_Cons split: nat.splits) (metis Suc_diff_Suc Suc_le_lessD nat.inject)
    ultimately show ?thesis by blast
  qed
  show ?case
  proof (cases "pf (model_pt c)")
    case None
    then show ?thesis using step [of "(inl, tot)"] by (simp add: acc)
  next
    case (Some pr)
    then show ?thesis
      using step [of "(inl, tot)"]
            step [of "(inl @ [i], tot + hypot (x2 pr - x2 (image_pt c)) (y2 pr - y2 (image_pt c)))"]
      by (auto simp: acc Let_def)
  qed
qed

lemma scoreInliers_in_front:
  "j \<in> set (fst (scoreInliers t (project cam) cs 0 ([], 0))) \<Longrightarrow>
     j < length cs \<and> 0 < z3 (model_pt (cs ! j))"
  using scoreInliers_indices [of t "project cam" cs 0 "([], 0)"]
  by (auto simp: project_None_iff)

lemma reprojection_loop_filter:
  "reprojection_loop L cam p (filter (in_front L p) cs) acc = reprojection_loop L cam p cs acc"
proof (induction cs arbitrary: acc)
  case Nil
  then show ?case by simp
next
  case (Cons c cs)
  obtain tot cnt where acc: "acc = (tot, cnt)" by (cases acc)
  show ?case
  proof (cases "in_front L p c")
    case True
    then show ?thesis using Cons.IH by (simp add: acc in_front_def project_Some Let_def)
  next
    case False
    then have "project cam (transformPoint L p (model_pt c)) = None"
      by (simp add: project_None_iff in_front_def)
    then show ?thesis using False Cons.IH by (simp add: acc)
  qed
qed

lemma computeJacobian_filter:
  "computeJacobian L cam p (filter (in_front L p) cs) = computeJacobian L cam p cs"
proof (induction cs)
  case Nil
  then show ?case by simp
next
  case (Cons c cs)
  show ?case
  proof (cases "in_front L p c")
    case True
    then show ?thesis using Cons.IH by (simp add: in_front_def project_Some Let_def)
  next
    case False
    then have "project cam (transformPoint L p (model_pt c)) = None"
      by (simp add: project_None_iff in_front_def)
    then show ?thesis using False Cons.IH by (simp add: Let_def split: prod.splits)
  qed
qed

lemma length_jacobianRow: "length (jacobianRow L cam p m pr) = 12"
proof -
  have "length (case project cam (transformPoint L (perturbPose L p k (1 / 1000000)) m) of
              Some projectedPlus \<Rightarrow>
                [(x2 projectedPlus - x2 pr) / (1 / 1000000), (y2 projectedPlus - y2 pr) / (1 / 1000000)]
            | None \<Rightarrow> [0, 0]) = 2" for k
    by (simp split: option.splits)
  then show ?thesis
    by (simp add: jacobianRow_def Let_def length_concat upt_conv_Cons del: upt_Suc split: option.splits)
qed

lemma computeJacobian_rows:
  "row \<in> set (fst (computeJacobian L cam p cs)) \<Longrightarrow> length row = 12"
  by (induction cs arbitrary: row)
     (auto simp: Let_def length_jacobianRow split: prod.splits option.splits)

text \<open>
  C10. \<^verbatim>\<open>CameraIntrinsics.project\<close> returns null exactly when the depth of the point is
  not positive, and otherwise the pixel coordinates of the guarded division. Its callers
  in the estimator take the null case: the inlier scoring never counts a point that does
  not project, the reprojection error and the Jacobian are those of the points in front
  of the camera alone, and every row of the Jacobian is complete.
\<close>

theorem C10_project_guarded:
  "(project cam pt = None \<longleftrightarrow> z3 pt \<le> 0)
   \<and> (0 < z3 pt \<longrightarrow>
        project cam pt = Some \<lparr>x2 = focalLength cam * x3 pt / z3 pt + cx cam,
                                y2 = focalLength cam * y3 pt / z3 pt + cy cam\<rparr>)
   \<and> (\<forall>j. j \<in> set (fst (scoreInliers t (project cam) cs 0 ([], 0))) \<longrightarrow>
          j < length cs \<and> 0 < z3 (model_pt (cs ! j)))
   \<and> calculateReprojectionError L cam p cs
       = calculateReprojectionError L cam p (filter (in_front L p) cs)
   \<and> computeJacobian L cam p cs = computeJacobian L cam p (filter (in_front L p) cs)
   \<and> (\<forall>row. row \<in> set (fst (computeJacobian L cam p cs)) \<longrightarrow> length row = 12)"
proof -
  have "calculateReprojectionError L cam p cs
       = calculateReprojectionError L cam p (filter (in_front L p) cs)"
    by (simp add: calculateReprojectionError_def reprojection_loop_filter)
  then show ?thesis
    using project_None_iff [of cam pt] project_Some [of pt cam]
          scoreInliers_in_front [of _ t cam cs] computeJacobian_filter [of L cam p cs]
          computeJacobian_rows [of _ L cam p cs]
    by simp
qed

lemma default_camera_fields:
  "focalLength default_camera = 640" "cx default_camera = 320" "cy default_camera = 240"
  "cam_width default_camera = 640" "cam_height default_camera = 480"
  by (simp_all add: default_camera_def new_CameraIntrinsics_def js_or_def)

lemma in_front_ear_and_mouth:
  "filter (in_front three_identity origin_pose) ear_and_mouth = [corr 344 210 24 (-30) 10 61]"
  by (simp add: ear_and_mouth_def in_front_def transformPoint_def three_identity_def
        origin_pose_def corr_def)

theorem C10_project_guarded_witness:
  "project default_camera \<lparr>x3 = 75, y3 = -5, z3 = -5\<rparr> = None
   \<and> project default_camera \<lparr>x3 = 24, y3 = -30, z3 = 10\<rparr> = Some \<lparr>x2 = 1856, y2 = -1680\<rparr>
   \<and> calculateReprojectionError three_identity default_camera origin_pose ear_and_mouth
       = calculateReprojectionError three_identity default_camera origin_pose
           [corr 344 210 24 (-30) 10 61]
   \<and> computeJacobian three_identity default_camera origin_pose ear_and_mouth
       = computeJacobian three_identity default_camera origin_pose [corr 344 210 24 (-30) 10 61]"
proof -
  note behind = C10_project_guarded [of default_camera "\<lparr>x3 = 75, y3 = -5, z3 = -5\<rparr>" 10
      ear_and_mouth three_identity origin_pose]
  note front = C10_project_guarded [of default_camera "\<lparr>x3 = 24, y3 = -30, z3 = 10\<rparr>" 10
      ear_and_mouth three_identity origin_pose]
  have a: "project default_camera \<lparr>x3 = 75, y3 = -5, z3 = -5\<rparr> = None"
    using behind by simp
  have b: "project default_camera \<lparr>x3 = 24, y3 = -30, z3 = 10\<rparr> = Some \<lparr>x2 = 1856, y2 = -1680\<rparr>"
    using front by (simp add: default_camera_fields)
  from a b front show ?thesis by (simp add: in_front_ear_and_mouth)
qed

subsection \<open>The correspondence set\<close>

lemma length_buildCorrespondences_loop:
  "length (buildCorrespondences_loop entries lms w h)
   = length (filter (\<lambda>idx. js_index lms idx \<noteq> None) (map fst entries))"
  by (induction entries lms w h rule: buildCorrespondences_loop.induct)
     (auto split: option.splits)

lemma length_buildCorrespondences:
  "length (vertices fm) = length (landmarkIndices fm) \<Longrightarrow>
     length (buildCorrespondences fm lms w h) = validMappedPoints fm lms"
  by (simp add: buildCorrespondences_def validMappedPoints_def length_buildCorrespondences_loop)

lemma new_FaceModel3D_lengths:
  "length (vertices new_FaceModel3D) = length (landmarkIndices new_FaceModel3D)"
  by (simp add: new_FaceModel3D_def Let_def)

subsection \<open>The result of estimate\<close>

text \<open>What a call that returns a result has gone through.\<close>

lemma estimate_Some:
  assumes "fst (estimate L dlt rnd now e landmarks options) = Some res"
  shows "\<exists>lms inlierIndices p.
           landmarks = Some lms \<and> lms \<noteq> []
           \<and> 6 \<le> length (estimate_correspondences e lms options)
           \<and> solvePnP L dlt (estimate_camera e options)
                (map (\<lambda>i. estimate_correspondences e lms options ! i) inlierIndices) = Some p
           \<and> res_quaternion res = quaternion p \<and> res_translation res = translation p
           \<and> res_euler res = euler p \<and> res_rotation res = rotation p
           \<and> reprojectionError res
               = calculateReprojectionError L (estimate_camera e options) p
                   (estimate_correspondences e lms options)
           \<and> confidence res = confidence_of (reprojectionError res)
           \<and> res_timestamp res = now"
proof -
  from assms obtain lms where lms: "landmarks = Some lms"
    by (cases landmarks) (simp_all add: estimate_def)
  from assms lms have ne: "lms \<noteq> []"
    by (auto simp: estimate_def)
  let ?cs = "estimate_correspondences e lms options"
  let ?cam = "estimate_camera e options"
  from assms lms ne have six: "6 \<le> length ?cs"
    by (auto simp: estimate_def Let_def estimate_correspondences_def estimate_width_def
          estimate_height_def split: if_splits)
  let ?idx = "if useRANSAC e then findInliers (ransac e) rnd ?cs (project ?cam)
              else all_indices (length ?cs)"
  from assms lms ne six obtain p where
    p: "solvePnP L dlt ?cam (map (\<lambda>i. ?cs ! i) ?idx) = Some p"
    and res: "res = \<lparr>res_rotation = rotation p, res_translation = translation p,
                     res_quaternion = quaternion p, res_euler = euler p,
                     reprojectionError = calculateReprojectionError L ?cam p ?cs,
                     confidence = confidence_of (calculateReprojectionError L ?cam p ?cs),
                     inlierRatio = real (length ?idx) / real (length ?cs),
                     res_timestamp = now\<rparr>"
    by (auto simp: estimate_def Let_def estimate_correspondences_def estimate_width_def
          estimate_height_def estimate_camera_def split: if_splits option.splits)
  from lms ne six p res show ?thesis by auto
qed

lemma estimate_few_correspondences:
  "length (estimate_correspondences e lms options) < 6 \<Longrightarrow>
     fst (estimate L dlt rnd now e (Some lms) options) = None"
  by (simp add: estimate_def Let_def estimate_correspondences_def estimate_width_def
        estimate_height_def)

text \<open>
  C1. \<^verbatim>\<open>estimate\<close> returns a pose result only when the correspondence set built from
  the landmarks has at least 6 valid pairs; in particular it returns null for a
  landmark array with fewer than 4 valid mapped points, and \<^verbatim>\<open>_solvePnP\<close> itself
  returns null on fewer than 4 correspondences.
\<close>

theorem C1_estimate_needs_six:
  "length (vertices (faceModel e)) = length (landmarkIndices (faceModel e)) \<longrightarrow>
     (validMappedPoints (faceModel e) lms < 6 \<longrightarrow>
        fst (estimate L dlt rnd now e (Some lms) options) = None)
     \<and> (validMappedPoints (faceModel e) lms < 4 \<longrightarrow>
        fst (estimate L dlt rnd now e (Some lms) options) = None)
     \<and> (\<forall>res. fst (estimate L dlt rnd now e landmarks options) = Some res \<longrightarrow>
          (\<exists>ls. landmarks = Some ls \<and> 6 \<le> validMappedPoints (faceModel e) ls
                \<and> length (estimate_correspondences e ls options)
                    = validMappedPoints (faceModel e) ls))
     \<and> (length cs < 4 \<longrightarrow> solvePnP L dlt cam cs = None)"
proof (intro impI conjI allI)
  assume len: "length (vertices (faceModel e)) = length (landmarkIndices (faceModel e))"
  have eq: "length (estimate_correspondences e ls options) = validMappedPoints (faceModel e) ls"
    for ls
    using len by (simp add: estimate_correspondences_def length_buildCorrespondences)
  {
    assume "validMappedPoints (faceModel e) lms < 6"
    then show "fst (estimate L dlt rnd now e (Some lms) options) = None"
      using eq [of lms] by (simp add: estimate_few_correspondences)
  }
  {
    assume "validMappedPoints (faceModel e) lms < 4"
    then show "fst (estimate L dlt rnd now e (Some lms) options) = None"
      using eq [of lms] by (simp add: estimate_few_correspondences)
  }
  {
    fix res
    assume "fst (estimate L dlt rnd now e landmarks options) = Some res"
    from estimate_Some [OF this] obtain ls where
      "landmarks = Some ls" "6 \<le> length (estimate_correspondences e ls options)"
      by blast
    then show "\<exists>ls. landmarks = Some ls \<and> 6 \<le> validMappedPoints (faceModel e) ls
                \<and> length (estimate_correspondences e ls options)
                    = validMappedPoints (faceModel e) ls"
      using eq by auto
  }
  {
    assume "length cs < 4"
    then show "solvePnP L dlt cam cs = None"
      by (simp add: solvePnP_def)
  }
qed

lemma object_entries_landmarkToModel:
  "object_entries landmarkToModel =
     [(1, 1), (6, 9), (10, 8), (13, 20), (14, 21), (33, 0), (50, 16), (61, 4), (70, 6),
      (98, 14), (133, 12), (152, 2), (172, 18), (234, 10), (263, 3), (280, 17), (291, 5),
      (300, 7), (327, 15), (362, 13), (397, 19), (454, 11)]"
  by (simp add: object_entries_def landmarkToModel_def)

lemma face_model_entries:
  "zip (landmarkIndices new_FaceModel3D) (vertices new_FaceModel3D) =
     [(1, \<lparr>x3 = 0, y3 = -5.2, z3 = 18.5\<rparr>), (6, \<lparr>x3 = 0, y3 = 5, z3 = 10\<rparr>),
      (10, \<lparr>x3 = 0, y3 = 35, z3 = 8\<rparr>), (13, \<lparr>x3 = 0, y3 = -25, z3 = 12\<rparr>),
      (14, \<lparr>x3 = 0, y3 = -35, z3 = 10\<rparr>), (33, \<lparr>x3 = 32.5, y3 = 8.5, z3 = 8.5\<rparr>),
      (50, \<lparr>x3 = 50, y3 = -10, z3 = 10\<rparr>), (61, \<lparr>x3 = 24, y3 = -30, z3 = 10\<rparr>),
      (70, \<lparr>x3 = 40, y3 = 20, z3 = 6\<rparr>), (98, \<lparr>x3 = 12, y3 = -15, z3 = 15\<rparr>),
      (133, \<lparr>x3 = 12.5, y3 = 8.5, z3 = 10\<rparr>), (152, \<lparr>x3 = 0, y3 = -55, z3 = 5\<rparr>),
      (172, \<lparr>x3 = 45, y3 = -45, z3 = 0\<rparr>), (234, \<lparr>x3 = 75, y3 = -5, z3 = -5\<rparr>),
      (263, \<lparr>x3 = -32.5, y3 = 8.5, z3 = 8.5\<rparr>), (280, \<lparr>x3 = -50, y3 = -10, z3 = 10\<rparr>),
      (291, \<lparr>x3 = -24, y3 = -30, z3 = 10\<rparr>), (300, \<lparr>x3 = -40, y3 = 20, z3 = 6\<rparr>),
      (327, \<lparr>x3 = -12, y3 = -15, z3 = 15\<rparr>), (362, \<lparr>x3 = -12.5, y3 = 8.5, z3 = 10\<rparr>),
      (397, \<lparr>x3 = -45, y3 = -45, z3 = 0\<rparr>), (454, \<lparr>x3 = -75, y3 = -5, z3 = -5\<rparr>)]"
  by (simp add: new_FaceModel3D_def Let_def object_entries_landmarkToModel CANONICAL_vertices_def)

lemma buildCorrespondences_outlier:
  "buildCorrespondences new_FaceModel3D outlier_landmarks 640 480 = outlier_correspondences"
  by (simp add: buildCorrespondences_def face_model_entries js_index_def outlier_landmarks_def
        outlier_correspondences_def corr_def px_landmark_def)

lemma validMappedPoints_eyes_only: "validMappedPoints new_FaceModel3D (eyes_only l r) = 2"
  using arg_cong [OF face_model_entries, of "map fst"]
  by (simp add: validMappedPoints_def new_FaceModel3D_lengths js_index_def eyes_only_def
        EYE_left_def EYE_right_def)

lemma default_estimator_fields:
  "faceModel default_estimator = new_FaceModel3D" "camera default_estimator = default_camera"
  "ransac default_estimator = new_RANSAC no_RANSAC_options" "useRANSAC default_estimator"
  by (simp_all add: default_estimator_def new_AdvancedPoseEstimator_def no_estimator_options_def
        default_camera_def)

lemma default_estimate_camera:
  "estimate_camera default_estimator no_estimate_options = default_camera"
  "estimate_width default_estimator no_estimate_options = 640"
  "estimate_height default_estimator no_estimate_options = 480"
  by (simp_all add: estimate_camera_def estimate_width_def estimate_height_def js_or_def
        no_estimate_options_def default_estimator_fields default_camera_fields)

lemma default_estimate_correspondences:
  "estimate_correspondences default_estimator outlier_landmarks no_estimate_options
   = outlier_correspondences"
  by (simp add: estimate_correspondences_def default_estimate_camera default_estimator_fields
        buildCorrespondences_outlier)

subsection \<open>RANSAC\<close>

lemma hypot_less_iff: "0 \<le> t \<Longrightarrow> hypot a b < t \<longleftrightarrow> a * a + b * b < t * t"
proof -
  assume t: "0 \<le> t"
  have "sqrt (a * a + b * b) < sqrt (t * t) \<longleftrightarrow> a * a + b * b < t * t"
    by (rule real_sqrt_less_iff)
  moreover have "sqrt (t * t) = t" using t by simp
  ultimately show ?thesis by (simp add: hypot_def)
qed

lemma hypot_nonneg: "0 \<le> hypot a b"
  by (simp add: hypot_def)

text \<open>
  Whatever the samples are, the loop ends with the set it started from or with the set
  that the scoring gives: the scoring projects the raw model points with the camera and
  uses neither the sample nor a pose fitted to it.
\<close>

lemma findInliers_loop_choice:
  "fst (findInliers_loop R rnd cs pf k pos (b, be)) = b \<or>
   fst (findInliers_loop R rnd cs pf k pos (b, be))
     = fst (scoreInliers (inlierThreshold R) pf cs 0 ([], 0))"
proof (induction k arbitrary: pos b be)
  case 0
  then show ?case by simp
next
  case (Suc k)
  obtain smp pos' where smp: "randomSample rnd pos (length cs) 4 = (smp, pos')"
    by (cases "randomSample rnd pos (length cs) 4")
  obtain inl tot where sc: "scoreInliers (inlierThreshold R) pf cs 0 ([], 0) = (inl, tot)"
    by (cases "scoreInliers (inlierThreshold R) pf cs 0 ([], 0)")
  show ?case
    using Suc.IH [of pos' b be] Suc.IH [of pos' inl "Fin tot"]
    by (auto simp: smp sc Let_def)
qed

lemma findInliers_choice:
  assumes "0 < minInliers R"
  shows "findInliers R rnd cs pf = all_indices (length cs) \<or>
         findInliers R rnd cs pf = fst (scoreInliers (inlierThreshold R) pf cs 0 ([], 0))"
proof -
  obtain bi be where l: "findInliers_loop R rnd cs pf (maxIterations R) 0 ([], PInf) = (bi, be)"
    by (cases "findInliers_loop R rnd cs pf (maxIterations R) 0 ([], PInf)")
  from findInliers_loop_choice [of R rnd cs pf "maxIterations R" 0 "[]" PInf] l
  have "bi = [] \<or> bi = fst (scoreInliers (inlierThreshold R) pf cs 0 ([], 0))" by simp
  then show ?thesis using assms by (auto simp: findInliers_def Let_def l)
qed

lemma findInliers_nothing_scored:
  assumes "0 < minInliers R" "fst (scoreInliers (inlierThreshold R) pf cs 0 ([], 0)) = []"
  shows "findInliers R rnd cs pf = all_indices (length cs)"
proof -
  obtain bi be where l: "findInliers_loop R rnd cs pf (maxIterations R) 0 ([], PInf) = (bi, be)"
    by (cases "findInliers_loop R rnd cs pf (maxIterations R) 0 ([], PInf)")
  from findInliers_loop_choice [of R rnd cs pf "maxIterations R" 0 "[]" PInf] l assms(2)
  have "bi = []" by auto
  then show ?thesis using assms(1) by (simp add: findInliers_def Let_def l)
qed

lemma length_findInliers:
  "minInliers R \<le> length cs \<Longrightarrow> minInliers R \<le> length (findInliers R rnd cs pf)"
  by (auto simp: findInliers_def Let_def all_indices_def split: prod.splits)

lemma default_RANSAC:
  "maxIterations (new_RANSAC no_RANSAC_options) = 100"
  "inlierThreshold (new_RANSAC no_RANSAC_options) = 10"
  "minInliers (new_RANSAC no_RANSAC_options) = 6"
  by (simp_all add: new_RANSAC_def no_RANSAC_options_def js_or_def js_or_nat_def)

lemma scoreInliers_outlier:
  "scoreInliers 10 (project default_camera) outlier_correspondences 0 ([], 0) = ([], 0)"
  by (simp add: outlier_correspondences_def corr_def project_def default_camera_fields
        hypot_less_iff Let_def)

lemma reprojection_errors_outlier:
  "reprojection_errors three_identity default_camera frontal_pose outlier_correspondences
   = [200, 0, 0, 0, 0, 0, 0]"
  by (simp add: reprojection_errors_def outlier_correspondences_def corr_def project_def
        default_camera_fields transformPoint_def three_identity_def frontal_pose_def
        hypot_zero_right Let_def)

text \<open>
  C2 (what the code does). On the seven correspondences of \<open>outlier_landmarks\<close>, six
  exact projections of a frontal pose and the nose bridge displaced by 200 pixels,
  \<^verbatim>\<open>findInliers\<close> with the default settings returns every index, the outlier's index
  \<open>0\<close> included, whatever the random samples are: no point lies within 10 pixels of the
  camera projection of its raw model point, so no iteration finds an inlier and the
  fallback of line 289 returns all indices.
\<close>

theorem C2_outlier_not_rejected:
  "buildCorrespondences new_FaceModel3D outlier_landmarks 640 480 = outlier_correspondences
   \<and> reprojection_errors three_identity default_camera frontal_pose outlier_correspondences
       = [200, 0, 0, 0, 0, 0, 0]
   \<and> findInliers (new_RANSAC no_RANSAC_options) rnd outlier_correspondences (project default_camera)
       = [0, 1, 2, 3, 4, 5, 6]"
proof -
  have "findInliers (new_RANSAC no_RANSAC_options) rnd outlier_correspondences (project default_camera)
     = all_indices (length outlier_correspondences)"
    by (rule findInliers_nothing_scored) (simp_all add: default_RANSAC scoreInliers_outlier)
  then have "findInliers (new_RANSAC no_RANSAC_options) rnd outlier_correspondences
      (project default_camera) = [0, 1, 2, 3, 4, 5, 6]"
    by (simp add: all_indices_def outlier_correspondences_def upt_conv_Cons del: upt_Suc)
  then show ?thesis
    by (simp add: buildCorrespondences_outlier reprojection_errors_outlier)
qed

text \<open>
  A random source that returns \<open>1/5\<close> at every call draws the sample \<open>[1, 2, 3, 0]\<close>,
  which passes the collinearity check: the outlier is kept although every iteration
  scores the points.
\<close>

lemma randomSample_fifth: "fst (randomSample (\<lambda>j. 1 / 5) pos 7 4) = [1, 2, 3, 0]"
proof -
  have l1: "fst (randomSample_loop (\<lambda>j. 1 / 5) p [0, 4, 5, 6] (Suc 0)) = [0]" for p
    by (simp add: Let_def splice1_def)
  have l2: "fst (randomSample_loop (\<lambda>j. 1 / 5) p [0, 3, 4, 5, 6] (Suc (Suc 0))) = [3, 0]" for p
    using l1 [of "Suc p"] by (simp add: Let_def splice1_def split: prod.splits)
  have l3: "fst (randomSample_loop (\<lambda>j. 1 / 5) p [0, 2, 3, 4, 5, 6] (Suc (Suc (Suc 0)))) = [2, 3, 0]"
    for p
    using l2 [of "Suc p"] by (simp add: Let_def splice1_def split: prod.splits)
  have l4: "fst (randomSample_loop (\<lambda>j. 1 / 5) p [0, 1, 2, 3, 4, 5, 6] (Suc (Suc (Suc (Suc 0)))))
      = [1, 2, 3, 0]" for p
    using l3 [of "Suc p"] by (simp add: Let_def splice1_def split: prod.splits)
  have four: "(4 :: nat) = Suc (Suc (Suc (Suc 0)))" by simp
  have ix: "all_indices 7 = [0, 1, 2, 3, 4, 5, 6]"
    by (simp add: all_indices_def upt_conv_Cons del: upt_Suc)
  show ?thesis
    unfolding randomSample_def ix using l4 [of pos] by (simp only: four)
qed

lemma isValidSample_fifth: "isValidSample outlier_correspondences [1, 2, 3, 0]"
  by (simp add: isValidSample_def outlier_correspondences_def corr_def triangle_area_def Let_def
      upt_conv_Cons del: upt_Suc)

theorem C2_outlier_not_rejected_witness:
  "isValidSample outlier_correspondences (fst (randomSample (\<lambda>j. 1 / 5) 0 7 4))
   \<and> findInliers (new_RANSAC no_RANSAC_options) (\<lambda>j. 1 / 5) outlier_correspondences
        (project default_camera) = [0, 1, 2, 3, 4, 5, 6]
   \<and> 0 \<in> set (findInliers (new_RANSAC no_RANSAC_options) (\<lambda>j. 1 / 5) outlier_correspondences
        (project default_camera))"
proof -
  have v: "isValidSample outlier_correspondences (fst (randomSample (\<lambda>j. 1 / 5) 0 7 4))"
    by (simp only: randomSample_fifth isValidSample_fifth)
  have f: "findInliers (new_RANSAC no_RANSAC_options) (\<lambda>j. 1 / 5) outlier_correspondences
        (project default_camera) = [0, 1, 2, 3, 4, 5, 6]"
    using C2_outlier_not_rejected [of "\<lambda>j. 1 / 5"] by blast
  have m: "0 \<in> set (findInliers (new_RANSAC no_RANSAC_options) (\<lambda>j. 1 / 5)
        outlier_correspondences (project default_camera))"
    unfolding f by simp
  from v f m show ?thesis by blast
qed

subsection \<open>Reprojection error and confidence\<close>

lemma reprojection_loop_sums:
  "reprojection_loop L cam p cs (tot, cnt)
   = (tot + sum_list (reprojection_errors L cam p cs), cnt + length (reprojection_errors L cam p cs))"
  by (induction cs arbitrary: tot cnt)
     (auto simp: reprojection_errors_def Let_def split: option.splits)

text \<open>The loop of the code computes the mean of the specification.\<close>

lemma calculateReprojectionError_mean:
  "calculateReprojectionError L cam p cs = meanReprojectionError L cam p cs"
  by (simp add: calculateReprojectionError_def meanReprojectionError_def reprojection_loop_sums
        Let_def)

lemma reprojection_errors_nonneg: "e \<in> set (reprojection_errors L cam p cs) \<Longrightarrow> 0 \<le> e"
  by (auto simp: reprojection_errors_def hypot_nonneg split: option.splits)

lemma meanReprojectionError_nonneg: "meanReprojectionError L cam p cs = Fin m \<Longrightarrow> 0 \<le> m"
proof -
  assume a: "meanReprojectionError L cam p cs = Fin m"
  have "0 \<le> sum_list (reprojection_errors L cam p cs)"
    by (rule sum_list_nonneg) (rule reprojection_errors_nonneg)
  with a show ?thesis
    by (auto simp: meanReprojectionError_def Let_def split: if_splits)
qed

text \<open>The error of a pose depends on its quaternion and its translation only.\<close>

lemma transformPoint_cong:
  "quaternion p = quaternion p' \<Longrightarrow> translation p = translation p' \<Longrightarrow>
     transformPoint L p m = transformPoint L p' m"
  by (simp add: transformPoint_def)

lemma reprojection_errors_cong:
  "quaternion p = quaternion p' \<Longrightarrow> translation p = translation p' \<Longrightarrow>
     reprojection_errors L cam p cs = reprojection_errors L cam p' cs"
  by (simp add: reprojection_errors_def transformPoint_cong [of p p'])

lemma meanReprojectionError_cong:
  "quaternion p = quaternion p' \<Longrightarrow> translation p = translation p' \<Longrightarrow>
     meanReprojectionError L cam p cs = meanReprojectionError L cam p' cs"
  by (simp add: meanReprojectionError_def reprojection_errors_cong [of p p'])

lemma confidence_of_range: "0 \<le> confidence_of e" "(\<And>m. e = Fin m \<Longrightarrow> 0 \<le> m) \<Longrightarrow> confidence_of e \<le> 1"
  by (cases e; simp add: confidence_of_def)+

text \<open>
  C4. The confidence of every pose result of \<^verbatim>\<open>estimate\<close> is
  \<open>max 0 (1 - meanReprojectionError / 50)\<close>, where the error is the mean pixel
  reprojection error of the returned pose over the correspondences (those that
  project; \<^verbatim>\<open>Infinity\<close>, with confidence \<open>0\<close>, when none does). The confidence lies in
  \<open>[0, 1]\<close>, and a mean error of 50 pixels or more gives confidence \<open>0\<close>.
\<close>

theorem C4_confidence_formula:
  "fst (estimate L dlt rnd now e (Some lms) options) = Some res \<longrightarrow>
     reprojectionError res
       = meanReprojectionError L (estimate_camera e options) (result_pose res)
           (estimate_correspondences e lms options)
     \<and> confidence res = confidence_of (reprojectionError res)
     \<and> (\<forall>m. reprojectionError res = Fin m \<longrightarrow>
            0 \<le> m \<and> confidence res = max 0 (1 - m / 50) \<and> (50 \<le> m \<longrightarrow> confidence res = 0))
     \<and> (reprojectionError res = PInf \<longrightarrow> confidence res = 0)
     \<and> 0 \<le> confidence res \<and> confidence res \<le> 1"
proof
  assume "fst (estimate L dlt rnd now e (Some lms) options) = Some res"
  from estimate_Some [OF this] obtain ls and inlierIndices :: "nat list" and p :: pose where
    ls: "Some lms = Some ls"
    and q: "res_quaternion res = quaternion p" and t: "res_translation res = translation p"
    and err': "reprojectionError res
               = calculateReprojectionError L (estimate_camera e options) p
                   (estimate_correspondences e ls options)"
    and conf: "confidence res = confidence_of (reprojectionError res)"
    by blast
  from ls err' have err: "reprojectionError res
               = calculateReprojectionError L (estimate_camera e options) p
                   (estimate_correspondences e lms options)"
    by simp
  have "meanReprojectionError L (estimate_camera e options) p (estimate_correspondences e lms options)
      = meanReprojectionError L (estimate_camera e options) (result_pose res)
           (estimate_correspondences e lms options)"
    by (rule meanReprojectionError_cong) (simp_all add: result_pose_def q t)
  with err have mean: "reprojectionError res
       = meanReprojectionError L (estimate_camera e options) (result_pose res)
           (estimate_correspondences e lms options)"
    by (simp add: calculateReprojectionError_mean)
  have nonneg: "0 \<le> m" if "reprojectionError res = Fin m" for m
    using that mean meanReprojectionError_nonneg [of L "estimate_camera e options" "result_pose res"
        "estimate_correspondences e lms options" m]
    by simp
  have fin: "\<forall>m. reprojectionError res = Fin m \<longrightarrow>
            0 \<le> m \<and> confidence res = max 0 (1 - m / 50) \<and> (50 \<le> m \<longrightarrow> confidence res = 0)"
    using nonneg conf by (simp add: confidence_of_def)
  have inf: "reprojectionError res = PInf \<longrightarrow> confidence res = 0"
    using conf by (simp add: confidence_of_def)
  have r0: "0 \<le> confidence res"
    using confidence_of_range(1) [of "reprojectionError res"] conf by simp
  have r1: "confidence res \<le> 1"
    using confidence_of_range(2) [of "reprojectionError res"] nonneg conf by simp
  show "reprojectionError res
       = meanReprojectionError L (estimate_camera e options) (result_pose res)
           (estimate_correspondences e lms options)
     \<and> confidence res = confidence_of (reprojectionError res)
     \<and> (\<forall>m. reprojectionError res = Fin m \<longrightarrow>
            0 \<le> m \<and> confidence res = max 0 (1 - m / 50) \<and> (50 \<le> m \<longrightarrow> confidence res = 0))
     \<and> (reprojectionError res = PInf \<longrightarrow> confidence res = 0)
     \<and> 0 \<le> confidence res \<and> confidence res \<le> 1"
    by (insert mean conf fin inf r0 r1, intro conjI, assumption+)
qed

text \<open>
  With the stand-ins for the initial estimate and for three.js, the default estimator
  returns a result on the seven landmarks of \<open>outlier_landmarks\<close>.
\<close>

lemma estimate_outlier_landmarks:
  "\<exists>res. fst (estimate three_identity dlt_frontal rnd now default_estimator
                 (Some outlier_landmarks) no_estimate_options) = Some res"
proof -
  have len: "length outlier_correspondences = 7"
    by (simp add: outlier_correspondences_def)
  have "findInliers (new_RANSAC no_RANSAC_options) rnd outlier_correspondences
      (project default_camera) = all_indices (length outlier_correspondences)"
    by (rule findInliers_nothing_scored) (simp_all add: default_RANSAC scoreInliers_outlier)
  then have idx: "findInliers (new_RANSAC no_RANSAC_options) rnd outlier_correspondences
      (project default_camera) = all_indices 7"
    by (simp add: len)
  have ne: "outlier_landmarks \<noteq> []"
    by (simp add: outlier_landmarks_def)
  obtain p where p: "solvePnP three_identity dlt_frontal default_camera
      (map (\<lambda>i. outlier_correspondences ! i) (all_indices 7)) = Some p"
    by (simp add: solvePnP_def dlt_frontal_def all_indices_def)
  show ?thesis
    unfolding estimate_def
    by (simp add: ne Let_def js_or_def no_estimate_options_def buildCorrespondences_outlier len
          default_estimator_fields default_camera_fields idx p)
qed

theorem C4_confidence_formula_witness:
  "\<exists>res. fst (estimate three_identity dlt_frontal (\<lambda>j. 1 / 5) 0 default_estimator
                 (Some outlier_landmarks) no_estimate_options) = Some res
     \<and> reprojectionError res
         = meanReprojectionError three_identity default_camera (result_pose res) outlier_correspondences
     \<and> confidence res = confidence_of (reprojectionError res)
     \<and> 0 \<le> confidence res \<and> confidence res \<le> 1"
proof -
  from estimate_outlier_landmarks [of "\<lambda>j. 1 / 5" 0] obtain res where
    r: "fst (estimate three_identity dlt_frontal (\<lambda>j. 1 / 5) 0 default_estimator
                 (Some outlier_landmarks) no_estimate_options) = Some res"
    by blast
  note t = C4_confidence_formula [of three_identity dlt_frontal "\<lambda>j. 1 / 5" 0 default_estimator
      outlier_landmarks no_estimate_options res]
  from t r have m: "reprojectionError res
         = meanReprojectionError three_identity (estimate_camera default_estimator no_estimate_options)
             (result_pose res)
             (estimate_correspondences default_estimator outlier_landmarks no_estimate_options)"
    by blast
  from t r have c: "confidence res = confidence_of (reprojectionError res)" by blast
  from t r have r0: "0 \<le> confidence res" by blast
  from t r have r1: "confidence res \<le> 1" by blast
  from m have m': "reprojectionError res
         = meanReprojectionError three_identity default_camera (result_pose res) outlier_correspondences"
    by (simp only: default_estimate_camera default_estimate_correspondences)
  from r m' c r0 r1 show ?thesis by blast
qed

text \<open>
  The default estimator returns null on two valid mapped points (the eyes alone) and
  a result on the seven of \<open>outlier_landmarks\<close>.
\<close>

theorem C1_estimate_needs_six_witness:
  "validMappedPoints new_FaceModel3D (eyes_only (point2 0 0) (point2 1 1)) = 2
   \<and> fst (estimate three_identity dlt_frontal (\<lambda>j. 1 / 5) 0 default_estimator
           (Some (eyes_only (point2 0 0) (point2 1 1))) no_estimate_options) = None
   \<and> (\<exists>res. fst (estimate three_identity dlt_frontal (\<lambda>j. 1 / 5) 0 default_estimator
                 (Some outlier_landmarks) no_estimate_options) = Some res
        \<and> 6 \<le> validMappedPoints new_FaceModel3D outlier_landmarks)
   \<and> solvePnP three_identity dlt_frontal default_camera (take 3 outlier_correspondences) = None"
proof -
  have len: "length (vertices (faceModel default_estimator))
      = length (landmarkIndices (faceModel default_estimator))"
    by (simp add: default_estimator_fields new_FaceModel3D_lengths)
  note few = C1_estimate_needs_six [of default_estimator "eyes_only (point2 0 0) (point2 1 1)"
      three_identity dlt_frontal "\<lambda>j. 1 / 5" 0 no_estimate_options
      "Some outlier_landmarks" "take 3 outlier_correspondences" default_camera]
  have two: "validMappedPoints (faceModel default_estimator) (eyes_only (point2 0 0) (point2 1 1)) < 4"
    by (simp add: default_estimator_fields validMappedPoints_eyes_only)
  from few len two have a: "fst (estimate three_identity dlt_frontal (\<lambda>j. 1 / 5) 0 default_estimator
           (Some (eyes_only (point2 0 0) (point2 1 1))) no_estimate_options) = None"
    by blast
  from estimate_outlier_landmarks [of "\<lambda>j. 1 / 5" 0] obtain res where
    r: "fst (estimate three_identity dlt_frontal (\<lambda>j. 1 / 5) 0 default_estimator
                 (Some outlier_landmarks) no_estimate_options) = Some res"
    by blast
  from few len r have "\<exists>ls. Some outlier_landmarks = Some ls
      \<and> 6 \<le> validMappedPoints (faceModel default_estimator) ls
      \<and> length (estimate_correspondences default_estimator ls no_estimate_options)
          = validMappedPoints (faceModel default_estimator) ls"
    by blast
  then have b: "6 \<le> validMappedPoints new_FaceModel3D outlier_landmarks"
    by (simp add: default_estimator_fields)
  have three: "length (take 3 outlier_correspondences) < 4"
    by simp
  from few len three have c: "solvePnP three_identity dlt_frontal default_camera
      (take 3 outlier_correspondences) = None"
    by blast
  from a b c r validMappedPoints_eyes_only [of "point2 0 0" "point2 1 1"] show ?thesis by blast
qed

section \<open>Properties of the stabilizer\<close>

lemma not_initialized_new: "\<not> st_initialized (new_ProductionStabilizer options)"
  by (simp add: new_ProductionStabilizer_def Let_def)

lemma not_initialized_reset: "\<not> st_initialized (stabilizer_reset s)"
  by (simp add: stabilizer_reset_def)

lemma scale_new: "st_scale (new_ProductionStabilizer options) = vector3 1 1 1"
  by (simp add: new_ProductionStabilizer_def Let_def)

lemma scale_reset: "st_scale (stabilizer_reset s) = vector3 1 1 1"
  by (simp add: stabilizer_reset_def)

text \<open>The first call on a stabilizer that is not initialized copies the measurement.\<close>

lemma first_update:
  assumes "\<not> st_initialized s"
  shows "out_position (fst (stabilizer_update L s p tstamp now now')) = in_position p"
    and "out_quaternion (fst (stabilizer_update L s p tstamp now now')) = in_quaternion p"
    and "out_scale (fst (stabilizer_update L s p tstamp now now'))
           = (case in_scale p of None \<Rightarrow> st_scale s | Some sc \<Rightarrow> sc)"
    and "out_velocity (fst (stabilizer_update L s p tstamp now now')) = st_velocity s"
    and "positionFilters (snd (stabilizer_update L s p tstamp now now')) = positionFilters s"
    and "rotationFilters (snd (stabilizer_update L s p tstamp now now')) = rotationFilters s"
    and "scaleFilters (snd (stabilizer_update L s p tstamp now now')) = scaleFilters s"
    and "doubleExp (snd (stabilizer_update L s p tstamp now now')) = doubleExp s"
    and "jitterSuppressors (snd (stabilizer_update L s p tstamp now now')) = jitterSuppressors s"
    and "st_initialized (snd (stabilizer_update L s p tstamp now now'))"
  using assms
  by (simp_all add: stabilizer_update_def initialize_def getResult_def Let_def split: option.splits)

text \<open>
  C3. The very first \<^verbatim>\<open>update\<close> call on a freshly constructed or freshly reset
  stabilizer returns exactly the input pose: position, quaternion and scale are those of
  the measurement (the scale stays \<open>(1, 1, 1)\<close> when the measurement carries none), and no
  filter of the cascade is touched.
\<close>

theorem C3_first_update_returns_input:
  "s = new_ProductionStabilizer options \<or> s = stabilizer_reset s0 \<longrightarrow>
     out_position (fst (stabilizer_update L s p tstamp now now')) = in_position p
     \<and> out_quaternion (fst (stabilizer_update L s p tstamp now now')) = in_quaternion p
     \<and> (\<forall>sc. in_scale p = Some sc \<longrightarrow>
           out_scale (fst (stabilizer_update L s p tstamp now now')) = sc)
     \<and> (in_scale p = None \<longrightarrow>
           out_scale (fst (stabilizer_update L s p tstamp now now')) = vector3 1 1 1)
     \<and> positionFilters (snd (stabilizer_update L s p tstamp now now')) = positionFilters s
     \<and> rotationFilters (snd (stabilizer_update L s p tstamp now now')) = rotationFilters s
     \<and> scaleFilters (snd (stabilizer_update L s p tstamp now now')) = scaleFilters s
     \<and> doubleExp (snd (stabilizer_update L s p tstamp now now')) = doubleExp s
     \<and> jitterSuppressors (snd (stabilizer_update L s p tstamp now now')) = jitterSuppressors s"
proof
  assume "s = new_ProductionStabilizer options \<or> s = stabilizer_reset s0"
  then have ni: "\<not> st_initialized s" and sc: "st_scale s = vector3 1 1 1"
    using not_initialized_new not_initialized_reset scale_new scale_reset by auto
  show "out_position (fst (stabilizer_update L s p tstamp now now')) = in_position p
     \<and> out_quaternion (fst (stabilizer_update L s p tstamp now now')) = in_quaternion p
     \<and> (\<forall>sc. in_scale p = Some sc \<longrightarrow>
           out_scale (fst (stabilizer_update L s p tstamp now now')) = sc)
     \<and> (in_scale p = None \<longrightarrow>
           out_scale (fst (stabilizer_update L s p tstamp now now')) = vector3 1 1 1)
     \<and> positionFilters (snd (stabilizer_update L s p tstamp now now')) = positionFilters s
     \<and> rotationFilters (snd (stabilizer_update L s p tstamp now now')) = rotationFilters s
     \<and> scaleFilters (snd (stabilizer_update L s p tstamp now now')) = scaleFilters s
     \<and> doubleExp (snd (stabilizer_update L s p tstamp now now')) = doubleExp s
     \<and> jitterSuppressors (snd (stabilizer_update L s p tstamp now now')) = jitterSuppressors s"
    using first_update [OF ni, of L p tstamp now now'] sc by simp
qed

text \<open>
  A new stabilizer returns the measurement \<open>measured_pose\<close> as it is, and so does the
  stabilizer that has processed it and has been reset.
\<close>

theorem C3_first_update_returns_input_witness:
  "out_position (fst (stabilizer_update three_rot_identity
       (new_ProductionStabilizer no_stabilizer_options) measured_pose (Some 5) 5000 5001))
     = vector3 12 (-7) 630
   \<and> out_quaternion (fst (stabilizer_update three_rot_identity
       (new_ProductionStabilizer no_stabilizer_options) measured_pose (Some 5) 5000 5001))
     = \<lparr>qx = 0.1, qy = 0.2, qz = 0.3, qw = 0.9\<rparr>
   \<and> out_scale (fst (stabilizer_update three_rot_identity
       (new_ProductionStabilizer no_stabilizer_options) measured_pose (Some 5) 5000 5001))
     = vector3 1.1 1.1 1.1
   \<and> out_position (fst (stabilizer_update three_rot_identity
       (stabilizer_reset (snd (stabilizer_update three_rot_identity
          (new_ProductionStabilizer no_stabilizer_options) measured_pose (Some 5) 5000 5001)))
       measured_pose None 6000 6001))
     = vector3 12 (-7) 630"
proof -
  note a = C3_first_update_returns_input [of "new_ProductionStabilizer no_stabilizer_options"
      no_stabilizer_options "new_ProductionStabilizer no_stabilizer_options"
      three_rot_identity measured_pose "Some 5" 5000 5001]
  note b = C3_first_update_returns_input [of
      "stabilizer_reset (snd (stabilizer_update three_rot_identity
          (new_ProductionStabilizer no_stabilizer_options) measured_pose (Some 5) 5000 5001))"
      no_stabilizer_options
      "snd (stabilizer_update three_rot_identity
          (new_ProductionStabilizer no_stabilizer_options) measured_pose (Some 5) 5000 5001)"
      three_rot_identity measured_pose None 6000 6001]
  have p: "in_position measured_pose = vector3 12 (-7) 630"
    "in_quaternion measured_pose = \<lparr>qx = 0.1, qy = 0.2, qz = 0.3, qw = 0.9\<rparr>"
    "in_scale measured_pose = Some (vector3 1.1 1.1 1.1)"
    by (simp_all add: measured_pose_def)
  from a b p show ?thesis by simp
qed

section \<open>Properties of the quality monitor\<close>

subsection \<open>The state is a function of the quality\<close>

lemma stateOfQuality_zero: "positive_thresholds c \<Longrightarrow> stateOfQuality c (Num 0) = LOST"
  by (simp add: stateOfQuality_def positive_thresholds_def)

lemma stateOfQuality_spec:
  "default_thresholds c \<Longrightarrow> stateOfQuality c (Num q) = state_of_spec q"
  by (simp add: stateOfQuality_def default_thresholds_def state_of_spec_def QUALITY_THRESHOLDS_def)

lemma stateOfQuality_NaN: "stateOfQuality c NaN = LOST"
  by (simp add: stateOfQuality_def)

text \<open>What each part of \<^verbatim>\<open>update\<close> leaves as it is.\<close>

lemma updateMetrics_monitor_frame:
  "updateMetrics_monitor m td = (e, m') \<Longrightarrow> m' = m\<lparr>metrics := metrics m'\<rparr>"
  by (auto simp: updateMetrics_monitor_def Let_def split: option.splits sum.splits)

lemma calculateOverallQuality_frame:
  "calculateOverallQuality m = m\<lparr>overallQuality := overallQuality (calculateOverallQuality m)\<rparr>"
  by (simp add: calculateOverallQuality_def Let_def)

lemma handleStateChange_fields:
  "mon_state (fst (handleStateChange m a b now)) = mon_state m"
  "overallQuality (fst (handleStateChange m a b now)) = overallQuality m"
  "mon_config (fst (handleStateChange m a b now)) = mon_config m"
  "recoveryInProgress (fst (handleStateChange m a b now)) = recoveryInProgress m"
  "lastRecoveryTime (fst (handleStateChange m a b now)) = lastRecoveryTime m"
  by (simp_all add: handleStateChange_def Let_def split: prod.splits)

lemma updateState_fields:
  "mon_state (fst (updateState m now)) = stateOfQuality (mon_config m) (overallQuality m)"
  "overallQuality (fst (updateState m now)) = overallQuality m"
  "mon_config (fst (updateState m now)) = mon_config m"
  "recoveryInProgress (fst (updateState m now)) = recoveryInProgress m"
  "lastRecoveryTime (fst (updateState m now)) = lastRecoveryTime m"
  by (simp_all add: updateState_def Let_def handleStateChange_fields)

lemma attemptRecovery_fields:
  "mon_state (fst (attemptRecovery m now)) = mon_state m"
  "overallQuality (fst (attemptRecovery m now)) = overallQuality m"
  "mon_config (fst (attemptRecovery m now)) = mon_config m"
  by (simp_all add: attemptRecovery_def Let_def split: option.splits)

lemma after_metrics_fields:
  "mon_state (after_metrics m td ck) = mon_state m"
  "mon_config (after_metrics m td ck) = mon_config m"
  "lossStartTime (after_metrics m td ck) = lossStartTime m"
  "lossDuration (after_metrics m td ck) = lossDuration m"
  "recoveryAttempts (after_metrics m td ck) = recoveryAttempts m"
  "lastRecoveryTime (after_metrics m td ck) = lastRecoveryTime m"
  "recoveryInProgress (after_metrics m td ck) = recoveryInProgress m"
proof -
  obtain er m1 where u: "updateMetrics_monitor (frame_tick m (t_frame ck)) td = (er, m1)"
    by (cases "updateMetrics_monitor (frame_tick m (t_frame ck)) td")
  from updateMetrics_monitor_frame [OF u]
  have fr: "m1 = (frame_tick m (t_frame ck))\<lparr>metrics := metrics m1\<rparr>" .
  have am: "after_metrics m td ck = calculateOverallQuality m1"
    by (simp add: after_metrics_def u)
  have co: "calculateOverallQuality m1 = m1\<lparr>overallQuality := overallQuality (calculateOverallQuality m1)\<rparr>"
    by (rule calculateOverallQuality_frame)
  show "mon_state (after_metrics m td ck) = mon_state m"
    unfolding am by (subst co, subst fr) (simp add: frame_tick_def)
  show "mon_config (after_metrics m td ck) = mon_config m"
    unfolding am by (subst co, subst fr) (simp add: frame_tick_def)
  show "lossStartTime (after_metrics m td ck) = lossStartTime m"
    unfolding am by (subst co, subst fr) (simp add: frame_tick_def)
  show "lossDuration (after_metrics m td ck) = lossDuration m"
    unfolding am by (subst co, subst fr) (simp add: frame_tick_def)
  show "recoveryAttempts (after_metrics m td ck) = recoveryAttempts m"
    unfolding am by (subst co, subst fr) (simp add: frame_tick_def)
  show "lastRecoveryTime (after_metrics m td ck) = lastRecoveryTime m"
    unfolding am by (subst co, subst fr) (simp add: frame_tick_def)
  show "recoveryInProgress (after_metrics m td ck) = recoveryInProgress m"
    unfolding am by (subst co, subst fr) (simp add: frame_tick_def)
qed

lemma after_state_fields:
  "mon_state (after_state m2 ck) = stateOfQuality (mon_config m2) (overallQuality m2)"
  "overallQuality (after_state m2 ck) = overallQuality m2"
  "mon_config (after_state m2 ck) = mon_config m2"
  "lossStartTime (after_state m2 ck) = lossStartTime (fst (updateState m2 (t_lost ck)))"
  "lossDuration (after_state m2 ck) = lossDuration (fst (updateState m2 (t_lost ck)))"
  "recoveryAttempts (after_state m2 ck) = recoveryAttempts (fst (updateState m2 (t_lost ck)))"
  "lastRecoveryTime (after_state m2 ck) = lastRecoveryTime m2"
  "recoveryInProgress (after_state m2 ck) = recoveryInProgress m2"
  by (simp_all add: after_state_def Let_def predictLoss_def updateState_fields)

lemma after_recovery_fields:
  "mon_state (fst (after_recovery m4 ck)) = mon_state m4"
  "overallQuality (fst (after_recovery m4 ck)) = overallQuality m4"
  "mon_config (fst (after_recovery m4 ck)) = mon_config m4"
  by (simp_all add: after_recovery_def attemptRecovery_fields)

text \<open>A call of \<^verbatim>\<open>update\<close> returns exactly when the metrics step does not throw.\<close>

lemma monitor_update_returned:
  assumes "fst (updateMetrics_monitor (frame_tick m (t_frame ck)) td) = None"
  shows "monitor_update m td ck
         = (Inr (getAssessment (fst (snd (monitor_update m td ck)))),
            fst (snd (monitor_update m td ck)),
            snd (updateState (after_metrics m td ck) (t_lost ck))
              @ snd (after_recovery (after_state (after_metrics m td ck) ck) ck))"
    and "\<exists>h. fst (snd (monitor_update m td ck))
           = (fst (after_recovery (after_state (after_metrics m td ck) ck) ck))\<lparr>qualityHistory := h\<rparr>"
proof -
  obtain er m1 where u: "updateMetrics_monitor (frame_tick m (t_frame ck)) td = (er, m1)"
    by (cases "updateMetrics_monitor (frame_tick m (t_frame ck)) td")
  with assms have er: "er = None" by simp
  have am: "after_metrics m td ck = calculateOverallQuality m1"
    by (simp add: after_metrics_def u)
  obtain m3 ch where us: "updateState (calculateOverallQuality m1) (t_lost ck) = (m3, ch)"
    by (cases "updateState (calculateOverallQuality m1) (t_lost ck)")
  have as: "after_state (calculateOverallQuality m1) ck
      = (if predictionEnabled (mon_config m3) then predictLoss m3 else m3)"
    by (simp add: after_state_def us)
  obtain m5 atts where ar: "after_recovery (if predictionEnabled (mon_config m3) then predictLoss m3 else m3) ck
      = (m5, atts)"
    by (cases "after_recovery (if predictionEnabled (mon_config m3) then predictLoss m3 else m3) ck")
  have ar': "(if recoveryEnabled (mon_config (if predictionEnabled (mon_config m3) then predictLoss m3 else m3))
         \<and> mon_state (if predictionEnabled (mon_config m3) then predictLoss m3 else m3) = LOST
      then attemptRecovery (if predictionEnabled (mon_config m3) then predictLoss m3 else m3) (t_recover ck)
      else (if predictionEnabled (mon_config m3) then predictLoss m3 else m3, [])) = (m5, atts)"
    using ar by (simp add: after_recovery_def)
  have mu: "monitor_update m td ck
      = (Inr (getAssessment (m5\<lparr>qualityHistory :=
             (if length (qualityHistory m5 @ [overallQuality m5]) > 100
              then tl (qualityHistory m5 @ [overallQuality m5])
              else qualityHistory m5 @ [overallQuality m5])\<rparr>)),
         m5\<lparr>qualityHistory :=
             (if length (qualityHistory m5 @ [overallQuality m5]) > 100
              then tl (qualityHistory m5 @ [overallQuality m5])
              else qualityHistory m5 @ [overallQuality m5])\<rparr>,
         ch @ atts)"
    unfolding monitor_update_def u er
    by (simp only: option.case prod.case Let_def us ar')
  show "monitor_update m td ck
         = (Inr (getAssessment (fst (snd (monitor_update m td ck)))),
            fst (snd (monitor_update m td ck)),
            snd (updateState (after_metrics m td ck) (t_lost ck))
              @ snd (after_recovery (after_state (after_metrics m td ck) ck) ck))"
    unfolding am as ar us by (simp add: mu)
  show "\<exists>h. fst (snd (monitor_update m td ck))
           = (fst (after_recovery (after_state (after_metrics m td ck) ck) ck))\<lparr>qualityHistory := h\<rparr>"
    unfolding am as ar by (simp only: mu fst_conv snd_conv) blast
qed


lemma monitor_update_threw:
  assumes "fst (updateMetrics_monitor (frame_tick m (t_frame ck)) td) = Some e"
  shows "monitor_update m td ck
         = (Inl e, snd (updateMetrics_monitor (frame_tick m (t_frame ck)) td), [])"
proof -
  obtain er m1 where u: "updateMetrics_monitor (frame_tick m (t_frame ck)) td = (er, m1)"
    by (cases "updateMetrics_monitor (frame_tick m (t_frame ck)) td")
  with assms have er: "er = Some e" by simp
  show ?thesis unfolding monitor_update_def u er by simp
qed

lemma monitor_update_Inr:
  assumes "monitor_update m td ck = (Inr a, m', evs)"
  shows "fst (updateMetrics_monitor (frame_tick m (t_frame ck)) td) = None"
proof (cases "fst (updateMetrics_monitor (frame_tick m (t_frame ck)) td)")
  case None
  then show ?thesis .
next
  case (Some e)
  from monitor_update_threw [OF Some] assms show ?thesis by simp
qed

lemma monitor_update_state:
  assumes "monitor_update m td ck = (Inr a, m', evs)"
  shows "mon_state m' = stateOfQuality (mon_config m) (overallQuality m')"
    and "overallQuality m' = overallQuality (after_metrics m td ck)"
    and "mon_config m' = mon_config m"
    and "a = getAssessment m'"
proof -
  note n = monitor_update_Inr [OF assms]
  from monitor_update_returned(1) [OF n] assms
  show "a = getAssessment m'" by simp
  from monitor_update_returned(2) [OF n] assms obtain h where
    m': "m' = (fst (after_recovery (after_state (after_metrics m td ck) ck) ck))\<lparr>qualityHistory := h\<rparr>"
    by auto
  show q: "overallQuality m' = overallQuality (after_metrics m td ck)"
    by (simp add: m' after_recovery_fields after_state_fields)
  show "mon_config m' = mon_config m"
    by (simp add: m' after_recovery_fields after_state_fields after_metrics_fields)
  show "mon_state m' = stateOfQuality (mon_config m) (overallQuality m')"
    unfolding q by (simp add: m' after_recovery_fields after_state_fields after_metrics_fields)
qed

text \<open>
  C6: with the thresholds of \<^verbatim>\<open>QUALITY_THRESHOLDS\<close>, the state after a call of
  \<^verbatim>\<open>update\<close> that returns is the state that the specification assigns to the overall
  quality of that call, whatever the state and the history before: excellent from 0.9,
  good from 0.75, acceptable from 0.5, poor from 0.3, recovering from 0.15 and lost
  below, each boundary belonging to the higher state. A quality of exactly 0.75 gives
  \<open>TRACKING_GOOD\<close>. A quality that is not a number gives \<open>LOST\<close>. The assessment returned
  reports this state and this quality.
\<close>

theorem C6_state_from_quality:
  "default_thresholds (mon_config m) \<and> monitor_update m td ck = (Inr a, m', evs) \<longrightarrow>
     (\<forall>q. overallQuality m' = Num q \<longrightarrow> mon_state m' = state_of_spec q)
     \<and> (overallQuality m' = NaN \<longrightarrow> mon_state m' = LOST)
     \<and> (overallQuality m' = Num 0.75 \<longrightarrow> mon_state m' = TRACKING_GOOD)
     \<and> a_state a = mon_state m' \<and> a_quality a = overallQuality m'"
proof (intro impI, elim conjE)
  assume d: "default_thresholds (mon_config m)"
    and u: "monitor_update m td ck = (Inr a, m', evs)"
  note s = monitor_update_state [OF u]
  have 1: "\<forall>q. overallQuality m' = Num q \<longrightarrow> mon_state m' = state_of_spec q"
    using s(1) stateOfQuality_spec [OF d] by simp
  have 2: "overallQuality m' = NaN \<longrightarrow> mon_state m' = LOST"
    using s(1) by (simp add: stateOfQuality_NaN)
  have "state_of_spec 0.75 = TRACKING_GOOD"
    by (simp add: state_of_spec_def)
  with 1 have 3: "overallQuality m' = Num 0.75 \<longrightarrow> mon_state m' = TRACKING_GOOD"
    by metis
  have 4: "a_state a = mon_state m'" "a_quality a = overallQuality m'"
    using s(4) by (simp_all add: getAssessment_def)
  from 1 2 3 4 show "(\<forall>q. overallQuality m' = Num q \<longrightarrow> mon_state m' = state_of_spec q)
     \<and> (overallQuality m' = NaN \<longrightarrow> mon_state m' = LOST)
     \<and> (overallQuality m' = Num 0.75 \<longrightarrow> mon_state m' = TRACKING_GOOD)
     \<and> a_state a = mon_state m' \<and> a_quality a = overallQuality m'"
    by blast
qed

subsection \<open>The quality of a frame\<close>

lemma metric_update_fields:
  "current (metric_update q v) = v"
  "qm_weight (metric_update q v) = qm_weight q"
  "qm_threshold (metric_update q v) = qm_threshold q"
  by (simp_all add: metric_update_def Let_def)

lemma metric_values_map:
  "metric_values (map_metrics g ms) = map g (metric_values ms)"
  by (simp add: metric_values_def map_metrics_def)

lemma weighted_sum_zero:
  "foldl (\<lambda>s q. nadd s (getWeightedScore q)) (Num 0) (map (\<lambda>q. metric_update q (Num 0)) qs) = Num 0"
  by (induction qs) (simp_all add: getWeightedScore_def metric_update_fields)

text \<open>A frame without tracking data has quality 0.\<close>

lemma quality_absent: "overallQuality (after_metrics m None ck) = Num 0"
proof -
  have "overallQuality (calculateOverallQuality
          (m0\<lparr>metrics := map_metrics (\<lambda>q. metric_update q (Num 0)) (metrics m0)\<rparr>)) = Num 0" for m0
    by (simp add: calculateOverallQuality_def Let_def metric_values_map weighted_sum_zero)
  then show ?thesis
    by (simp add: after_metrics_def updateMetrics_monitor_def)
qed

lemma absent_returns:
  "fst (updateMetrics_monitor m0 None) = None"
  by (simp add: updateMetrics_monitor_def)


lemma overallQuality_calculate:
  "overallQuality (calculateOverallQuality m)
   = (if foldl (\<lambda>s q. s + qm_weight q) 0 (metric_values (metrics m)) > 0
      then ndivr (foldl (\<lambda>s q. nadd s (getWeightedScore q)) (Num 0) (metric_values (metrics m)))
             (foldl (\<lambda>s q. s + qm_weight q) 0 (metric_values (metrics m)))
      else Num 0)"
  by (simp add: calculateOverallQuality_def Let_def)

lemma updateMetrics_monitor_uniform:
  "updateMetrics_monitor m0 (Some (uniform_data q))
   = (None, m0\<lparr>metrics :=
        \<lparr>landmarkConfidence = metric_update (landmarkConfidence (metrics m0)) (Num q),
         poseStability = metric_update (poseStability (metrics m0)) (Num q),
         reprojectionErrorMetric = metric_update (reprojectionErrorMetric (metrics m0))
                                     (Num (confidence_of (Fin (50 * (1 - q))))),
         faceVisibility = metric_update (faceVisibility (metrics m0)) (Num q),
         motionConsistency = metric_update (motionConsistency (metrics m0))
                                     (estimateMotionConsistency m0),
         occlusionLevel = metric_update (occlusionLevel (metrics m0))
                                     (nsub (Num 1) (Num (1 - q)))\<rparr>\<rparr>)"
  by (simp add: updateMetrics_monitor_def uniform_data_def Let_def)

lemma default_monitor_weights:
  "qm_weight (landmarkConfidence (metrics default_monitor)) = 0.25"
  "qm_weight (poseStability (metrics default_monitor)) = 0.2"
  "qm_weight (reprojectionErrorMetric (metrics default_monitor)) = 0.15"
  "qm_weight (faceVisibility (metrics default_monitor)) = 0.2"
  "qm_weight (motionConsistency (metrics default_monitor)) = 0.1"
  "qm_weight (occlusionLevel (metrics default_monitor)) = 0.1"
  by (simp_all add: default_monitor_def new_TrackingQualityMonitor_def new_QualityMetric_def js_or_def)

lemma default_monitor_fields:
  "qualityHistory default_monitor = []"
  "mon_state default_monitor = INITIALIZING"
  "default_thresholds (mon_config default_monitor)"
  "recoveryEnabled (mon_config default_monitor)"
  "recoveryDelay (mon_config default_monitor) = 500"
  "maxRecoveryAttempts (mon_config default_monitor) = 3"
  "recoveryCooldown (mon_config default_monitor) = 2000"
  "onTrackingLost (mon_config default_monitor)"
  "onRecoveryAttempt (mon_config default_monitor)"
  by (simp_all add: default_monitor_def new_TrackingQualityMonitor_def no_monitor_options_def
      default_thresholds_def js_or_def js_or_nat_def)

lemma frame_tick_fields:
  "metrics (frame_tick m now) = metrics m"
  "qualityHistory (frame_tick m now) = qualityHistory m"
  "mon_config (frame_tick m now) = mon_config m"
  by (simp_all add: frame_tick_def)

lemma quality_uniform:
  "overallQuality (after_metrics default_monitor (Some (uniform_data (13 / 18))) ck) = Num (3 / 4)"
proof -
  have mc: "estimateMotionConsistency (frame_tick default_monitor (t_frame ck)) = Num 1"
    by (simp add: estimateMotionConsistency_def frame_tick_fields default_monitor_fields)
  have co: "confidence_of (Fin (125 / 9)) = 13 / 18"
    by (simp add: confidence_of_def)
  show ?thesis
    unfolding after_metrics_def updateMetrics_monitor_uniform snd_conv overallQuality_calculate
    by (simp add: metric_values_def getWeightedScore_def metric_update_fields frame_tick_fields
        default_monitor_weights mc co)
qed

text \<open>
  A frame that gives every metric the score \<open>13/18\<close> has, on a new monitor, the quality
  \<open>0.9 * 13/18 + 0.1 * 1 = 0.75\<close> (the motion consistency of a monitor without history is
  1): the state is \<open>TRACKING_GOOD\<close>.
\<close>

theorem C6_state_from_quality_witness:
  "default_thresholds (mon_config default_monitor)
   \<and> (\<exists>a m' evs. monitor_update default_monitor (Some (uniform_data (13 / 18))) (clock_at 16)
                    = (Inr a, m', evs)
         \<and> overallQuality m' = Num 0.75 \<and> mon_state m' = TRACKING_GOOD
         \<and> a_state a = TRACKING_GOOD)"
proof -
  have n: "fst (updateMetrics_monitor (frame_tick default_monitor (t_frame (clock_at 16)))
             (Some (uniform_data (13 / 18)))) = None"
    by (simp add: updateMetrics_monitor_uniform)
  from monitor_update_returned(1) [OF n] obtain a m' evs where
    u: "monitor_update default_monitor (Some (uniform_data (13 / 18))) (clock_at 16) = (Inr a, m', evs)"
    by blast
  have q: "overallQuality m' = Num 0.75"
    using monitor_update_state(2) [OF u] by (simp add: quality_uniform)
  note d = default_monitor_fields(3)
  from C6_state_from_quality [of default_monitor "Some (uniform_data (13 / 18))" "clock_at 16" a m' evs]
    d u q
  have "mon_state m' = TRACKING_GOOD" "a_state a = mon_state m'" by blast+
  with d u q show ?thesis by auto
qed

subsection \<open>Frames without tracking data\<close>

lemma updateState_events:
  "snd (updateState m now)
   = (if mon_state m = stateOfQuality (mon_config m) (overallQuality m) then []
      else (if stateOfQuality (mon_config m) (overallQuality m) = LOST then [OnTrackingLost now] else [])
           @ (if mon_state m = LOST then [OnTrackingRecovered] else [])
           @ [OnStateChange (mon_state m) (stateOfQuality (mon_config m) (overallQuality m)),
              OnQualityChange (overallQuality m)])"
  by (simp add: updateState_def handleStateChange_def Let_def)

lemma attemptRecovery_events:
  "snd (attemptRecovery m now) = [] \<or>
   (\<exists>s. snd (attemptRecovery m now) = [OnRecoveryAttempt now (Suc (recoveryAttempts m)) s])"
  by (simp add: attemptRecovery_def Let_def split: option.splits)

lemma after_recovery_events:
  "snd (after_recovery m ck) = [] \<or>
   (\<exists>s. snd (after_recovery m ck) = [OnRecoveryAttempt (t_recover ck) (Suc (recoveryAttempts m)) s])"
  using attemptRecovery_events [of m "t_recover ck"] by (simp add: after_recovery_def)

lemma after_recovery_no_lost:
  "filter is_lost_callback (map Triggered (snd (after_recovery m ck))) = []"
  using after_recovery_events [of m ck] by auto

text \<open>
  A frame without tracking data leaves the monitor in \<open>LOST\<close>; it triggers
  \<^verbatim>\<open>onTrackingLost\<close> when the monitor was not in \<open>LOST\<close> before, and only then.
\<close>

lemma absent_step:
  assumes p: "positive_thresholds (mon_config m)"
  shows "mon_state (fst (monitor_step m (Update None ck))) = LOST"
    and "mon_config (fst (monitor_step m (Update None ck))) = mon_config m"
    and "filter is_lost_callback (snd (monitor_step m (Update None ck)))
         = (if mon_state m = LOST then [] else [Triggered (OnTrackingLost (t_lost ck))])"
    and "mon_state m \<noteq> LOST \<Longrightarrow>
         Triggered (OnStateChange (mon_state m) LOST) \<in> set (snd (monitor_step m (Update None ck)))"
proof -
  note n = absent_returns [of "frame_tick m (t_frame ck)"]
  note r = monitor_update_returned [OF n]
  obtain a m' evs where u: "monitor_update m None ck = (Inr a, m', evs)"
    using r(1) by blast
  note s = monitor_update_state [OF u]
  have q: "overallQuality m' = Num 0"
    using s(2) by (simp add: quality_absent)
  have st: "mon_state m' = LOST"
    using s(1) q stateOfQuality_zero [OF p] by simp
  have ms: "monitor_step m (Update None ck) = (m', map Triggered evs)"
    by (simp add: u)
  show "mon_state (fst (monitor_step m (Update None ck))) = LOST"
    unfolding ms by (simp add: st)
  show "mon_config (fst (monitor_step m (Update None ck))) = mon_config m"
    unfolding ms by (simp add: s(3))
  have evs: "evs = snd (updateState (after_metrics m None ck) (t_lost ck))
              @ snd (after_recovery (after_state (after_metrics m None ck) ck) ck)"
    using r(1) u by simp
  have ch: "snd (updateState (after_metrics m None ck) (t_lost ck))
      = (if mon_state m = LOST then []
         else [OnTrackingLost (t_lost ck), OnStateChange (mon_state m) LOST, OnQualityChange (Num 0)])"
    by (simp add: updateState_events after_metrics_fields quality_absent stateOfQuality_zero [OF p])
  show "filter is_lost_callback (snd (monitor_step m (Update None ck)))
         = (if mon_state m = LOST then [] else [Triggered (OnTrackingLost (t_lost ck))])"
    unfolding ms by (simp add: evs ch after_recovery_no_lost)
  show "Triggered (OnStateChange (mon_state m) LOST) \<in> set (snd (monitor_step m (Update None ck)))"
    if "mon_state m \<noteq> LOST"
    using that unfolding ms by (simp add: evs ch)
qed

lemma absent_run:
  assumes "positive_thresholds (mon_config m)"
  shows "mon_config (fst (monitor_run m (absent_frames cks))) = mon_config m
         \<and> (cks \<noteq> [] \<longrightarrow> mon_state (fst (monitor_run m (absent_frames cks))) = LOST)
         \<and> filter is_lost_callback (snd (monitor_run m (absent_frames cks)))
           = (if mon_state m = LOST \<or> cks = [] then []
              else [Triggered (OnTrackingLost (t_lost (hd cks)))])"
  using assms
proof (induction cks arbitrary: m)
  case Nil
  then show ?case by (simp add: absent_frames_def)
next
  case (Cons ck cks)
  obtain m1 tr1 where s1: "monitor_step m (Update None ck) = (m1, tr1)"
    by (cases "monitor_step m (Update None ck)")
  obtain m2 tr2 where r2: "monitor_run m1 (absent_frames cks) = (m2, tr2)"
    by (cases "monitor_run m1 (absent_frames cks)")
  note a = absent_step [OF Cons.prems, of ck]
  have c1: "mon_config m1 = mon_config m" and l1: "mon_state m1 = LOST"
    and f1: "filter is_lost_callback tr1
         = (if mon_state m = LOST then [] else [Triggered (OnTrackingLost (t_lost ck))])"
    using a s1 by simp_all
  from Cons.prems c1 have p1: "positive_thresholds (mon_config m1)" by simp
  note ih = Cons.IH [OF p1]
  have c2: "mon_config m2 = mon_config m1"
    and l2: "cks \<noteq> [] \<longrightarrow> mon_state m2 = LOST"
    and f2: "filter is_lost_callback tr2 = []"
    using ih r2 l1 by simp_all
  have run: "monitor_run m (absent_frames (ck # cks)) = (m2, tr1 @ tr2)"
    using s1 r2 by (simp add: absent_frames_def)
  have l2': "mon_state m2 = LOST"
  proof (cases cks)
    case Nil
    with r2 have "m2 = m1" by (simp add: absent_frames_def)
    with l1 show ?thesis by simp
  next
    case (Cons c cs)
    with l2 show ?thesis by simp
  qed
  show ?case
    unfolding run by (simp add: c2 c1 l2' f1 f2)
qed


text \<open>
  C7: a monitor in \<open>TRACKING_GOOD\<close>, with positive thresholds (the defaults are) and a
  function given for \<^verbatim>\<open>onTrackingLost\<close>, receives ten frames without tracking data.
  It is in \<open>LOST\<close> after the first of them and after each of the following ones; over the
  ten frames the callback fires exactly once, in the first frame, the one whose state
  change is from \<open>TRACKING_GOOD\<close> to \<open>LOST\<close>.
\<close>

theorem C7_lost_once:
  "positive_thresholds (mon_config m) \<and> onTrackingLost (mon_config m)
   \<and> mon_state m = TRACKING_GOOD \<and> length cks = 10 \<longrightarrow>
     (\<forall>k. 1 \<le> k \<and> k \<le> 10 \<longrightarrow>
        mon_state (fst (monitor_run m (absent_frames (take k cks)))) = LOST)
     \<and> filter (\<lambda>ob. is_lost_callback ob \<and> fires (mon_config m) ob)
          (snd (monitor_run m (absent_frames cks)))
        = [Triggered (OnTrackingLost (t_lost (hd cks)))]
     \<and> filter is_lost_callback (snd (monitor_step m (Update None (hd cks))))
        = [Triggered (OnTrackingLost (t_lost (hd cks)))]
     \<and> Triggered (OnStateChange TRACKING_GOOD LOST)
        \<in> set (snd (monitor_step m (Update None (hd cks))))"
proof (intro impI, elim conjE)
  assume p: "positive_thresholds (mon_config m)"
    and cb: "onTrackingLost (mon_config m)"
    and g: "mon_state m = TRACKING_GOOD"
    and l: "length cks = 10"
  from l have ne: "cks \<noteq> []" by auto
  have 1: "\<forall>k. 1 \<le> k \<and> k \<le> 10 \<longrightarrow>
        mon_state (fst (monitor_run m (absent_frames (take k cks)))) = LOST"
  proof (intro allI impI)
    fix k :: nat
    assume "1 \<le> k \<and> k \<le> 10"
    with ne have "take k cks \<noteq> []" by auto
    with absent_run [OF p, of "take k cks"]
    show "mon_state (fst (monitor_run m (absent_frames (take k cks)))) = LOST" by blast
  qed
  from absent_run [OF p, of cks] g ne
  have f: "filter is_lost_callback (snd (monitor_run m (absent_frames cks)))
        = [Triggered (OnTrackingLost (t_lost (hd cks)))]"
    by simp
  have "filter (\<lambda>ob. is_lost_callback ob \<and> fires (mon_config m) ob)
          (snd (monitor_run m (absent_frames cks)))
        = filter (fires (mon_config m))
            (filter is_lost_callback (snd (monitor_run m (absent_frames cks))))"
    by (simp add: conj_commute)
  with f cb have 2: "filter (\<lambda>ob. is_lost_callback ob \<and> fires (mon_config m) ob)
          (snd (monitor_run m (absent_frames cks)))
        = [Triggered (OnTrackingLost (t_lost (hd cks)))]"
    by simp
  from absent_step(3) [OF p, of "hd cks"] g
  have 3: "filter is_lost_callback (snd (monitor_step m (Update None (hd cks))))
        = [Triggered (OnTrackingLost (t_lost (hd cks)))]"
    by simp
  from absent_step(4) [OF p, of "hd cks"] g
  have 4: "Triggered (OnStateChange TRACKING_GOOD LOST)
        \<in> set (snd (monitor_step m (Update None (hd cks))))"
    by simp
  from 1 2 3 4 show "(\<forall>k. 1 \<le> k \<and> k \<le> 10 \<longrightarrow>
        mon_state (fst (monitor_run m (absent_frames (take k cks)))) = LOST)
     \<and> filter (\<lambda>ob. is_lost_callback ob \<and> fires (mon_config m) ob)
          (snd (monitor_run m (absent_frames cks)))
        = [Triggered (OnTrackingLost (t_lost (hd cks)))]
     \<and> filter is_lost_callback (snd (monitor_step m (Update None (hd cks))))
        = [Triggered (OnTrackingLost (t_lost (hd cks)))]
     \<and> Triggered (OnStateChange TRACKING_GOOD LOST)
        \<in> set (snd (monitor_step m (Update None (hd cks))))"
    by (intro conjI)
qed

lemma good_monitor_fields:
  "mon_state good_monitor = TRACKING_GOOD"
  "mon_config good_monitor = mon_config default_monitor"
proof -
  have n: "fst (updateMetrics_monitor (frame_tick default_monitor (t_frame (clock_at 0)))
             (Some (uniform_data (13 / 18)))) = None"
    by (simp add: updateMetrics_monitor_uniform)
  from monitor_update_returned(1) [OF n] obtain a evs where
    u: "monitor_update default_monitor (Some (uniform_data (13 / 18))) (clock_at 0)
        = (Inr a, good_monitor, evs)"
    unfolding good_monitor_def by blast
  note s = monitor_update_state [OF u]
  from s(2) have q: "overallQuality good_monitor = Num (3 / 4)"
    by (simp add: quality_uniform)
  have "state_of_spec (3 / 4) = TRACKING_GOOD"
    by (simp add: state_of_spec_def)
  with s(1) q stateOfQuality_spec [OF default_monitor_fields(3)]
  show "mon_state good_monitor = TRACKING_GOOD" by simp
  from s(3) show "mon_config good_monitor = mon_config default_monitor" .
qed

lemma default_thresholds_positive: "default_thresholds c \<Longrightarrow> positive_thresholds c"
  by (simp add: default_thresholds_def positive_thresholds_def QUALITY_THRESHOLDS_def)

theorem C7_lost_once_witness:
  "positive_thresholds (mon_config good_monitor) \<and> onTrackingLost (mon_config good_monitor)
   \<and> mon_state good_monitor = TRACKING_GOOD \<and> length ten_frames = 10
   \<and> mon_state (fst (monitor_run good_monitor (absent_frames (take 1 ten_frames)))) = LOST
   \<and> mon_state (fst (monitor_run good_monitor (absent_frames ten_frames))) = LOST
   \<and> filter (\<lambda>ob. is_lost_callback ob \<and> fires (mon_config good_monitor) ob)
        (snd (monitor_run good_monitor (absent_frames ten_frames)))
      = [Triggered (OnTrackingLost 16)]"
proof -
  have p: "positive_thresholds (mon_config good_monitor)"
    by (simp add: good_monitor_fields default_thresholds_positive default_monitor_fields)
  have cb: "onTrackingLost (mon_config good_monitor)"
    by (simp add: good_monitor_fields default_monitor_fields)
  note g = good_monitor_fields(1)
  have l: "length ten_frames = 10" by (simp add: ten_frames_def)
  have h: "t_lost (hd ten_frames) = 16" by (simp add: ten_frames_def clock_at_def)
  have t: "take 10 ten_frames = ten_frames" by (simp add: ten_frames_def)
  from C7_lost_once [of good_monitor ten_frames] p cb g l
  have a: "\<forall>k. 1 \<le> k \<and> k \<le> 10 \<longrightarrow>
        mon_state (fst (monitor_run good_monitor (absent_frames (take k ten_frames)))) = LOST"
    and b: "filter (\<lambda>ob. is_lost_callback ob \<and> fires (mon_config good_monitor) ob)
          (snd (monitor_run good_monitor (absent_frames ten_frames)))
        = [Triggered (OnTrackingLost (t_lost (hd ten_frames)))]"
    by blast+
  from a have 1: "mon_state (fst (monitor_run good_monitor (absent_frames (take 1 ten_frames)))) = LOST"
    by simp
  from a have "mon_state (fst (monitor_run good_monitor (absent_frames (take 10 ten_frames)))) = LOST"
    by simp
  then have 2: "mon_state (fst (monitor_run good_monitor (absent_frames ten_frames))) = LOST"
    by (simp only: t)
  from b have 3: "filter (\<lambda>ob. is_lost_callback ob \<and> fires (mon_config good_monitor) ob)
        (snd (monitor_run good_monitor (absent_frames ten_frames)))
      = [Triggered (OnTrackingLost 16)]"
    by (simp only: h)
  from p cb g l 1 2 3 show ?thesis by (intro conjI)
qed

subsection \<open>The gates of a recovery attempt\<close>

lemma check_append:
  "check f s (tr1 @ tr2) = (case check f s tr1 of None \<Rightarrow> None | Some s1 \<Rightarrow> check f s1 tr2)"
  by (induction tr1 arbitrary: s) (simp_all split: option.splits)

lemma gates_check:
  "check (gates_step c) (since, n, prev) tr = Some (since', n', prev') \<Longrightarrow>
     check (dwell_step (recoveryDelay c)) since tr = Some since'
     \<and> check (count_step True (maxRecoveryAttempts c)) n tr = Some n'
     \<and> check (cooldown_step True (recoveryCooldown c)) prev tr = Some prev'"
proof (induction tr arbitrary: since n prev)
  case Nil
  then show ?case by simp
next
  case (Cons ob tr)
  from Cons.prems obtain a b d where
    g: "gates_step c (since, n, prev) ob = Some (a, b, d)"
    and r: "check (gates_step c) (a, b, d) tr = Some (since', n', prev')"
    by (auto split: option.splits)
  from g have "dwell_step (recoveryDelay c) since ob = Some a"
    and "count_step True (maxRecoveryAttempts c) n ob = Some b"
    and "cooldown_step True (recoveryCooldown c) prev ob = Some d"
    by (auto simp: gates_step_def split: option.splits)
  with Cons.IH [OF r] show ?case by simp
qed

text \<open>Without a \<^verbatim>\<open>reset\<close> among the observations, restarting at a reset changes nothing.\<close>

lemma count_step_restart:
  "ob \<noteq> Called_reset \<Longrightarrow> count_step False mx n ob = count_step True mx n ob"
  by (cases "(True, mx, n, ob)" rule: count_step.cases) simp_all

lemma cooldown_step_restart:
  "ob \<noteq> Called_reset \<Longrightarrow> cooldown_step False cd prev ob = cooldown_step True cd prev ob"
  by (cases "(True, cd, prev, ob)" rule: cooldown_step.cases) simp_all

lemma check_count_restart:
  "Called_reset \<notin> set tr \<Longrightarrow> check (count_step False mx) n tr = check (count_step True mx) n tr"
proof (induction tr arbitrary: n)
  case Nil
  then show ?case by simp
next
  case (Cons ob tr)
  from Cons.prems have ob: "ob \<noteq> Called_reset" and tr: "Called_reset \<notin> set tr" by auto
  show ?case
    by (simp add: count_step_restart [OF ob] Cons.IH [OF tr] split: option.splits)
qed

lemma check_cooldown_restart:
  "Called_reset \<notin> set tr \<Longrightarrow>
     check (cooldown_step False cd) prev tr = check (cooldown_step True cd) prev tr"
proof (induction tr arbitrary: prev)
  case Nil
  then show ?case by simp
next
  case (Cons ob tr)
  from Cons.prems have ob: "ob \<noteq> Called_reset" and tr: "Called_reset \<notin> set tr" by auto
  show ?case
    by (simp add: cooldown_step_restart [OF ob] Cons.IH [OF tr] split: option.splits)
qed

lemma monitor_step_no_reset:
  "call \<noteq> Reset \<Longrightarrow> Called_reset \<notin> set (snd (monitor_step m call))"
  by (cases call) (auto split: prod.splits)

lemma monitor_run_no_reset:
  "Reset \<notin> set calls \<Longrightarrow> Called_reset \<notin> set (snd (monitor_run m calls))"
proof (induction calls arbitrary: m)
  case Nil
  then show ?case by simp
next
  case (Cons call calls)
  from Cons.prems have c: "call \<noteq> Reset" and cs: "Reset \<notin> set calls" by auto
  obtain m1 tr1 where s1: "monitor_step m call = (m1, tr1)"
    by (cases "monitor_step m call")
  obtain m2 tr2 where r2: "monitor_run m1 calls = (m2, tr2)"
    by (cases "monitor_run m1 calls")
  from monitor_step_no_reset [OF c, of m] s1 have "Called_reset \<notin> set tr1" by simp
  moreover from Cons.IH [OF cs, of m1] r2 have "Called_reset \<notin> set tr2" by simp
  ultimately show ?case by (simp add: s1 r2)
qed

text \<open>The stages of \<^verbatim>\<open>update\<close> against the checks.\<close>

lemma updateState_gates:
  assumes "gate_inv m" "gate_rel m s"
  shows "\<exists>s'. check (gates_step c) s (map Triggered (snd (updateState m now))) = Some s'
               \<and> gate_rel (fst (updateState m now)) s'"
    and "gate_inv (fst (updateState m now))"
proof -
  obtain since n prev where s: "s = (since, n, prev)" by (cases s)
  show "\<exists>s'. check (gates_step c) s (map Triggered (snd (updateState m now))) = Some s'
               \<and> gate_rel (fst (updateState m now)) s'"
    using assms unfolding s
    by (auto simp: updateState_def handleStateChange_def Let_def gate_inv_def gate_rel_def
        gates_step_def)
  show "gate_inv (fst (updateState m now))"
    using assms(1)
    by (auto simp: updateState_def handleStateChange_def Let_def gate_inv_def)
qed


lemma determineRecoveryStrategy_not_NONE: "determineRecoveryStrategy m \<noteq> NONE"
  by (simp add: determineRecoveryStrategy_def Let_def)

lemma attemptRecovery_gates:
  assumes "gate_inv m" "gate_rel m s" "0 < recoveryDelay (mon_config m)"
  shows "\<exists>s'. check (gates_step (mon_config m)) s (map Triggered (snd (attemptRecovery m now))) = Some s'
               \<and> gate_rel (fst (attemptRecovery m now)) s'"
    and "gate_inv (fst (attemptRecovery m now))"
proof -
  obtain since n prev where s: "s = (since, n, prev)" by (cases s)
  show "\<exists>s'. check (gates_step (mon_config m)) s (map Triggered (snd (attemptRecovery m now))) = Some s'
               \<and> gate_rel (fst (attemptRecovery m now)) s'"
  proof (cases "lossStartTime m")
    case None
    with assms(1) have "lossDuration m = 0" by (simp add: gate_inv_def)
    with None assms(2,3) show ?thesis unfolding s
      by (simp add: attemptRecovery_def Let_def gate_rel_def)
  next
    case (Some t0)
    show ?thesis
    proof (cases "t0 = 0")
      case True
      with Some assms(1) have "lossDuration m = 0" by (simp add: gate_inv_def)
      with Some True assms(2,3) show ?thesis unfolding s
        by (simp add: attemptRecovery_def Let_def gate_rel_def)
    next
      case False
      from Some assms(2) have since: "since = Some t0" unfolding s by (simp add: gate_rel_def)
      from assms(2) have n: "recoveryAttempts m = n"
        and prev: "\<forall>t. prev = Some t \<longrightarrow> lastRecoveryTime m = t"
        unfolding s by (simp_all add: gate_rel_def)
      show ?thesis unfolding s since
        using Some False n prev
        by (cases prev)
           (auto simp: attemptRecovery_def Let_def gate_rel_def gates_step_def
              determineRecoveryStrategy_not_NONE)
    qed
  qed
  show "gate_inv (fst (attemptRecovery m now))"
    using assms(1)
    by (auto simp: attemptRecovery_def Let_def gate_inv_def split: option.splits)
qed


lemma after_metrics_gates:
  "gate_inv (after_metrics m td ck) = gate_inv m"
  "gate_rel (after_metrics m td ck) s = gate_rel m s"
  by (simp_all add: gate_inv_def gate_rel_def after_metrics_fields)

lemma predictLoss_gates:
  "gate_inv (predictLoss m) = gate_inv m"
  "gate_rel (predictLoss m) s = gate_rel m s"
  "mon_config (predictLoss m) = mon_config m"
  by (simp_all add: gate_inv_def gate_rel_def predictLoss_def)

lemma after_state_gates:
  "gate_inv (after_state m ck) = gate_inv (fst (updateState m (t_lost ck)))"
  "gate_rel (after_state m ck) s = gate_rel (fst (updateState m (t_lost ck))) s"
  by (simp_all add: after_state_def Let_def predictLoss_gates)

lemma after_recovery_gates:
  assumes "gate_inv m" "gate_rel m s" "0 < recoveryDelay (mon_config m)"
  shows "\<exists>s'. check (gates_step (mon_config m)) s (map Triggered (snd (after_recovery m ck))) = Some s'
               \<and> gate_rel (fst (after_recovery m ck)) s'"
    and "gate_inv (fst (after_recovery m ck))"
proof -
  show "\<exists>s'. check (gates_step (mon_config m)) s (map Triggered (snd (after_recovery m ck))) = Some s'
               \<and> gate_rel (fst (after_recovery m ck)) s'"
  proof (cases "recoveryEnabled (mon_config m) \<and> mon_state m = LOST")
    case True
    then have "after_recovery m ck = attemptRecovery m (t_recover ck)"
      by (simp add: after_recovery_def)
    with attemptRecovery_gates(1) [OF assms, of "t_recover ck"] show ?thesis by simp
  next
    case False
    then have "after_recovery m ck = (m, [])"
      by (auto simp: after_recovery_def)
    with assms(2) show ?thesis by simp
  qed
  show "gate_inv (fst (after_recovery m ck))"
    using attemptRecovery_gates(2) [OF assms, of "t_recover ck"] assms(1)
    by (simp add: after_recovery_def)
qed

lemma history_gates:
  "gate_inv (m\<lparr>qualityHistory := h\<rparr>) = gate_inv m"
  "gate_rel (m\<lparr>qualityHistory := h\<rparr>) s = gate_rel m s"
  by (simp_all add: gate_inv_def gate_rel_def)

lemma threw_gates:
  "gate_inv (snd (updateMetrics_monitor (frame_tick m now) td)) = gate_inv m"
  "gate_rel (snd (updateMetrics_monitor (frame_tick m now) td)) s = gate_rel m s"
  "mon_config (snd (updateMetrics_monitor (frame_tick m now) td)) = mon_config m"
proof -
  obtain er m1 where u: "updateMetrics_monitor (frame_tick m now) td = (er, m1)"
    by (cases "updateMetrics_monitor (frame_tick m now) td")
  from updateMetrics_monitor_frame [OF u]
  have fr: "m1 = (frame_tick m now)\<lparr>metrics := metrics m1\<rparr>" .
  show "gate_inv (snd (updateMetrics_monitor (frame_tick m now) td)) = gate_inv m"
    unfolding u snd_conv by (subst fr) (simp add: gate_inv_def frame_tick_def)
  show "gate_rel (snd (updateMetrics_monitor (frame_tick m now) td)) s = gate_rel m s"
    unfolding u snd_conv by (subst fr) (simp add: gate_rel_def frame_tick_def)
  show "mon_config (snd (updateMetrics_monitor (frame_tick m now) td)) = mon_config m"
    unfolding u snd_conv by (subst fr) (simp add: frame_tick_def)
qed

text \<open>Every call keeps the invariant and is accepted by the three checks.\<close>

lemma monitor_update_gates:
  assumes i: "gate_inv m" and r: "gate_rel m s" and d: "0 < recoveryDelay (mon_config m)"
  shows "\<exists>s'. check (gates_step (mon_config m)) s
                 (map Triggered (snd (snd (monitor_update m td ck)))) = Some s'
               \<and> gate_rel (fst (snd (monitor_update m td ck))) s'"
    and "gate_inv (fst (snd (monitor_update m td ck)))"
    and "mon_config (fst (snd (monitor_update m td ck))) = mon_config m"
proof -
  let ?c = "mon_config m"
  let ?goal = "(\<exists>s'. check (gates_step ?c) s
                 (map Triggered (snd (snd (monitor_update m td ck)))) = Some s'
               \<and> gate_rel (fst (snd (monitor_update m td ck))) s')
      \<and> gate_inv (fst (snd (monitor_update m td ck)))
      \<and> mon_config (fst (snd (monitor_update m td ck))) = ?c"
  have ?goal
  proof (cases "fst (updateMetrics_monitor (frame_tick m (t_frame ck)) td)")
    case (Some e)
    note t = monitor_update_threw [OF Some]
    show ?thesis unfolding t
      using i r by (simp add: threw_gates)
  next
    case None
    note ret = monitor_update_returned [OF None]
    let ?m2 = "after_metrics m td ck"
    let ?m4 = "after_state ?m2 ck"
    from ret(2) obtain h where
      m': "fst (snd (monitor_update m td ck)) = (fst (after_recovery ?m4 ck))\<lparr>qualityHistory := h\<rparr>"
      by blast
    have evs: "snd (snd (monitor_update m td ck))
        = snd (updateState ?m2 (t_lost ck)) @ snd (after_recovery ?m4 ck)"
      by (subst ret(1)) simp
    have i2: "gate_inv ?m2" and r2: "gate_rel ?m2 s"
      using i r by (simp_all add: after_metrics_gates)
    from updateState_gates(1) [OF i2 r2, of ?c "t_lost ck"]
      updateState_gates(2) [OF i2 r2, of "t_lost ck"] obtain s1 where
      c1: "check (gates_step ?c) s (map Triggered (snd (updateState ?m2 (t_lost ck)))) = Some s1"
      and r3: "gate_rel (fst (updateState ?m2 (t_lost ck))) s1"
      and i3: "gate_inv (fst (updateState ?m2 (t_lost ck)))"
      by blast
    have i4: "gate_inv ?m4" and r4: "gate_rel ?m4 s1"
      using i3 r3 by (simp_all add: after_state_gates)
    have c4: "mon_config ?m4 = ?c"
      by (simp add: after_state_fields after_metrics_fields)
    from d c4 have d4: "0 < recoveryDelay (mon_config ?m4)" by simp
    from after_recovery_gates [OF i4 r4 d4, of ck] obtain s2 where
      c2: "check (gates_step ?c) s1 (map Triggered (snd (after_recovery ?m4 ck))) = Some s2"
      and r5: "gate_rel (fst (after_recovery ?m4 ck)) s2"
      and i5: "gate_inv (fst (after_recovery ?m4 ck))"
      unfolding c4 by blast
    have "check (gates_step ?c) s (map Triggered (snd (snd (monitor_update m td ck)))) = Some s2"
      unfolding evs map_append check_append by (simp add: c1 c2)
    moreover have "gate_rel (fst (snd (monitor_update m td ck))) s2"
      unfolding m' by (simp add: history_gates r5)
    moreover have "gate_inv (fst (snd (monitor_update m td ck)))"
      unfolding m' by (simp add: history_gates i5)
    moreover have "mon_config (fst (snd (monitor_update m td ck))) = ?c"
      unfolding m' by (simp add: after_recovery_fields c4)
    ultimately show ?thesis by blast
  qed
  then show "\<exists>s'. check (gates_step (mon_config m)) s
                 (map Triggered (snd (snd (monitor_update m td ck)))) = Some s'
               \<and> gate_rel (fst (snd (monitor_update m td ck))) s'"
    and "gate_inv (fst (snd (monitor_update m td ck)))"
    and "mon_config (fst (snd (monitor_update m td ck))) = mon_config m"
    by blast+
qed

lemma monitor_step_gates:
  assumes i: "gate_inv m" and r: "gate_rel m s" and d: "0 < recoveryDelay (mon_config m)"
  shows "\<exists>s'. check (gates_step (mon_config m)) s (snd (monitor_step m call)) = Some s'
               \<and> gate_rel (fst (monitor_step m call)) s'"
    and "gate_inv (fst (monitor_step m call))"
    and "mon_config (fst (monitor_step m call)) = mon_config m"
proof -
  obtain since n prev where s: "s = (since, n, prev)" by (cases s)
  have "(\<exists>s'. check (gates_step (mon_config m)) s (snd (monitor_step m call)) = Some s'
               \<and> gate_rel (fst (monitor_step m call)) s')
      \<and> gate_inv (fst (monitor_step m call))
      \<and> mon_config (fst (monitor_step m call)) = mon_config m"
  proof (cases call)
    case (Update td ck)
    have st: "monitor_step m (Update td ck)
        = (fst (snd (monitor_update m td ck)), map Triggered (snd (snd (monitor_update m td ck))))"
      by (simp add: case_prod_beta)
    show ?thesis unfolding Update st fst_conv snd_conv
      using monitor_update_gates [OF i r d, of td ck] by blast
  next
    case (RecoveryComplete success)
    show ?thesis unfolding RecoveryComplete
      using i r unfolding s
      by (auto simp: recoveryComplete_def Let_def gate_inv_def gate_rel_def gates_step_def)
  next
    case Reset
    show ?thesis unfolding Reset
      using i r unfolding s
      by (auto simp: monitor_reset_def gate_inv_def gate_rel_def gates_step_def)
  qed
  then show "\<exists>s'. check (gates_step (mon_config m)) s (snd (monitor_step m call)) = Some s'
               \<and> gate_rel (fst (monitor_step m call)) s'"
    and "gate_inv (fst (monitor_step m call))"
    and "mon_config (fst (monitor_step m call)) = mon_config m"
    by blast+
qed

lemma monitor_run_gates:
  assumes "gate_inv m" "gate_rel m s" "0 < recoveryDelay (mon_config m)"
  shows "\<exists>s'. check (gates_step (mon_config m)) s (snd (monitor_run m calls)) = Some s'"
  using assms
proof (induction calls arbitrary: m s)
  case Nil
  have "check (gates_step (mon_config m)) s [] = Some s" by simp
  then show ?case by (simp only: monitor_run.simps snd_conv) blast
next
  case (Cons call calls)
  obtain m1 tr1 where s1: "monitor_step m call = (m1, tr1)"
    by (cases "monitor_step m call")
  obtain m2 tr2 where r2: "monitor_run m1 calls = (m2, tr2)"
    by (cases "monitor_run m1 calls")
  note g = monitor_step_gates [OF Cons.prems, of call]
  from g(1) s1 obtain sa where
    c1: "check (gates_step (mon_config m)) s tr1 = Some sa" and r1: "gate_rel m1 sa"
    by auto
  from g(2) s1 have i1: "gate_inv m1" by simp
  from g(3) s1 have cf: "mon_config m1 = mon_config m" by simp
  from Cons.prems(3) cf have d1: "0 < recoveryDelay (mon_config m1)" by simp
  from Cons.IH [OF i1 r1 d1] r2 obtain sb where
    c2: "check (gates_step (mon_config m)) sa tr2 = Some sb"
    unfolding cf by auto
  have tr: "snd (monitor_run m (call # calls)) = tr1 @ tr2"
    by (simp add: s1 r2)
  have "check (gates_step (mon_config m)) s (tr1 @ tr2) = Some sb"
    by (simp add: check_append c1 c2)
  then show ?case unfolding tr by blast
qed


lemma new_monitor_gates:
  "gate_inv (new_TrackingQualityMonitor options)"
  "gate_rel (new_TrackingQualityMonitor options) (None, 0, None)"
  by (simp_all add: gate_inv_def gate_rel_def new_TrackingQualityMonitor_def)

text \<open>
  C8, amended: in every execution of a monitor made by the constructor with a positive
  recovery delay (the default is 500 ms), whatever the calls of \<^verbatim>\<open>update\<close>,
  \<^verbatim>\<open>recoveryComplete\<close> and \<^verbatim>\<open>reset\<close> and whatever the tracking data and the clock readings,
  a recovery attempt is triggered only when the current stay in \<open>LOST\<close> has lasted at
  least the recovery delay, only when fewer than the maximum number of attempts were made
  since the last recovery or \<^verbatim>\<open>reset\<close>, and only when at least the cooldown has passed since
  the previous attempt after the last \<^verbatim>\<open>reset\<close>. In an execution without \<^verbatim>\<open>reset\<close> the count
  is the one since the last recovery, and every two consecutive attempts are separated
  by at least the cooldown.
\<close>

theorem C8_recovery_gates:
  "0 < recoveryDelay (mon_config (new_TrackingQualityMonitor options)) \<longrightarrow>
     dwell_respected (recoveryDelay (mon_config (new_TrackingQualityMonitor options)))
       (snd (monitor_run (new_TrackingQualityMonitor options) calls))
     \<and> count_respected True (maxRecoveryAttempts (mon_config (new_TrackingQualityMonitor options)))
         (snd (monitor_run (new_TrackingQualityMonitor options) calls))
     \<and> cooldown_respected True (recoveryCooldown (mon_config (new_TrackingQualityMonitor options)))
         (snd (monitor_run (new_TrackingQualityMonitor options) calls))
     \<and> (Reset \<notin> set calls \<longrightarrow>
          count_respected False (maxRecoveryAttempts (mon_config (new_TrackingQualityMonitor options)))
            (snd (monitor_run (new_TrackingQualityMonitor options) calls))
          \<and> cooldown_respected False (recoveryCooldown (mon_config (new_TrackingQualityMonitor options)))
              (snd (monitor_run (new_TrackingQualityMonitor options) calls)))"
proof
  let ?m = "new_TrackingQualityMonitor options"
  let ?c = "mon_config ?m"
  let ?tr = "snd (monitor_run ?m calls)"
  assume d: "0 < recoveryDelay ?c"
  from monitor_run_gates [OF new_monitor_gates d, of calls] obtain s' where
    "check (gates_step ?c) (None, 0, None) ?tr = Some s'"
    by blast
  then obtain a b e where "check (gates_step ?c) (None, 0, None) ?tr = Some (a, b, e)"
    by (cases s') simp
  from gates_check [OF this]
  have 1: "check (dwell_step (recoveryDelay ?c)) None ?tr = Some a"
    and 2: "check (count_step True (maxRecoveryAttempts ?c)) 0 ?tr = Some b"
    and 3: "check (cooldown_step True (recoveryCooldown ?c)) None ?tr = Some e"
    by blast+
  have dw: "dwell_respected (recoveryDelay ?c) ?tr"
    by (simp add: dwell_respected_def 1)
  have ct: "count_respected True (maxRecoveryAttempts ?c) ?tr"
    by (simp add: count_respected_def 2)
  have cd: "cooldown_respected True (recoveryCooldown ?c) ?tr"
    by (simp add: cooldown_respected_def 3)
  have nr: "Reset \<notin> set calls \<longrightarrow>
          count_respected False (maxRecoveryAttempts ?c) ?tr
          \<and> cooldown_respected False (recoveryCooldown ?c) ?tr"
  proof
    assume "Reset \<notin> set calls"
    from monitor_run_no_reset [OF this, of ?m]
    have n: "Called_reset \<notin> set ?tr" .
    show "count_respected False (maxRecoveryAttempts ?c) ?tr
          \<and> cooldown_respected False (recoveryCooldown ?c) ?tr"
      by (simp add: count_respected_def cooldown_respected_def
          check_count_restart [OF n] check_cooldown_restart [OF n] 2 3)
  qed
  from dw ct cd nr
  show "dwell_respected (recoveryDelay ?c) ?tr
     \<and> count_respected True (maxRecoveryAttempts ?c) ?tr
     \<and> cooldown_respected True (recoveryCooldown ?c) ?tr
     \<and> (Reset \<notin> set calls \<longrightarrow>
          count_respected False (maxRecoveryAttempts ?c) ?tr
          \<and> cooldown_respected False (recoveryCooldown ?c) ?tr)"
    by (intro conjI)
qed


subsection \<open>Two executions\<close>

lemma attempt_times_append: "attempt_times (tr1 @ tr2) = attempt_times tr1 @ attempt_times tr2"
  by (induction tr1 rule: attempt_times.induct) simp_all

lemma updateState_no_attempt: "attempt_times (map Triggered (snd (updateState m now))) = []"
  by (simp add: updateState_events)

lemma updateState_loss:
  "stateOfQuality (mon_config m) (overallQuality m) = LOST \<Longrightarrow>
     lossStartTime (fst (updateState m now))
     = (if mon_state m = LOST then lossStartTime m else Some now)"
  "stateOfQuality (mon_config m) (overallQuality m) = LOST \<Longrightarrow>
     lossDuration (fst (updateState m now)) = lossDuration m"
  "stateOfQuality (mon_config m) (overallQuality m) = LOST \<Longrightarrow>
     recoveryAttempts (fst (updateState m now)) = recoveryAttempts m"
  by (auto simp: updateState_def handleStateChange_def Let_def)

text \<open>The recovery step of a monitor in \<open>LOST\<close> whose loss start time is set.\<close>

lemma attemptRecovery_started:
  assumes "lossStartTime m = Some t0" "t0 \<noteq> 0"
    and "go = (recoveryDelay (mon_config m) \<le> now - t0 \<and> \<not> recoveryInProgress m
               \<and> recoveryAttempts m < maxRecoveryAttempts (mon_config m)
               \<and> recoveryCooldown (mon_config m) \<le> now - lastRecoveryTime m)"
  shows "attempt_times (map Triggered (snd (attemptRecovery m now))) = (if go then [now] else [])"
    and "lossStartTime (fst (attemptRecovery m now)) = Some t0"
    and "recoveryInProgress (fst (attemptRecovery m now)) = (recoveryInProgress m \<or> go)"
    and "recoveryAttempts (fst (attemptRecovery m now))
         = (if go then Suc (recoveryAttempts m) else recoveryAttempts m)"
    and "lastRecoveryTime (fst (attemptRecovery m now)) = (if go then now else lastRecoveryTime m)"
  using assms
  by (auto simp: attemptRecovery_def Let_def determineRecoveryStrategy_not_NONE)

text \<open>A frame without tracking data, for a monitor with recovery enabled.\<close>

lemma absent_frame:
  assumes p: "positive_thresholds (mon_config m)" and e: "recoveryEnabled (mon_config m)"
    and l: "(if mon_state m = LOST then lossStartTime m else Some (t_lost ck)) = Some t0"
    and t0: "t0 \<noteq> 0"
    and go: "go = (recoveryDelay (mon_config m) \<le> t_recover ck - t0 \<and> \<not> recoveryInProgress m
               \<and> recoveryAttempts m < maxRecoveryAttempts (mon_config m)
               \<and> recoveryCooldown (mon_config m) \<le> t_recover ck - lastRecoveryTime m)"
  shows "attempt_times (snd (monitor_step m (Update None ck))) = (if go then [t_recover ck] else [])"
    and "mon_state (fst (monitor_step m (Update None ck))) = LOST"
    and "mon_config (fst (monitor_step m (Update None ck))) = mon_config m"
    and "lossStartTime (fst (monitor_step m (Update None ck))) = Some t0"
    and "recoveryInProgress (fst (monitor_step m (Update None ck))) = (recoveryInProgress m \<or> go)"
    and "recoveryAttempts (fst (monitor_step m (Update None ck)))
         = (if go then Suc (recoveryAttempts m) else recoveryAttempts m)"
    and "lastRecoveryTime (fst (monitor_step m (Update None ck)))
         = (if go then t_recover ck else lastRecoveryTime m)"
proof -
  let ?m2 = "after_metrics m None ck"
  define m4 where "m4 = after_state ?m2 ck"
  note n = absent_returns [of "frame_tick m (t_frame ck)"]
  note ret = monitor_update_returned [OF n]
  have st: "monitor_step m (Update None ck)
      = (fst (snd (monitor_update m None ck)), map Triggered (snd (snd (monitor_update m None ck))))"
    by (simp add: case_prod_beta)
  have q: "stateOfQuality (mon_config ?m2) (overallQuality ?m2) = LOST"
    by (simp add: after_metrics_fields quality_absent stateOfQuality_zero [OF p])
  have f4: "mon_state m4 = LOST" "mon_config m4 = mon_config m"
    "lastRecoveryTime m4 = lastRecoveryTime m" "recoveryInProgress m4 = recoveryInProgress m"
    by (simp_all add: m4_def after_state_fields after_metrics_fields quality_absent
        stateOfQuality_zero [OF p])
  have l4: "lossStartTime m4 = Some t0"
    using l by (auto simp: m4_def after_state_fields updateState_loss(1) [OF q] after_metrics_fields
        split: if_splits)
  have n4: "recoveryAttempts m4 = recoveryAttempts m"
    by (simp add: m4_def after_state_fields updateState_loss(3) [OF q] after_metrics_fields)
  have go4: "go = (recoveryDelay (mon_config m4) \<le> t_recover ck - t0 \<and> \<not> recoveryInProgress m4
               \<and> recoveryAttempts m4 < maxRecoveryAttempts (mon_config m4)
               \<and> recoveryCooldown (mon_config m4) \<le> t_recover ck - lastRecoveryTime m4)"
    unfolding f4 n4 by (rule go)
  note a = attemptRecovery_started [OF l4 t0 go4]
  have ar: "after_recovery m4 ck = attemptRecovery m4 (t_recover ck)"
    using e by (simp add: after_recovery_def f4)
  from ret(2) obtain h where
    m': "fst (snd (monitor_update m None ck)) = (fst (attemptRecovery m4 (t_recover ck)))\<lparr>qualityHistory := h\<rparr>"
    unfolding m4_def [symmetric] ar by blast
  have evs: "snd (snd (monitor_update m None ck))
      = snd (updateState ?m2 (t_lost ck)) @ snd (attemptRecovery m4 (t_recover ck))"
    by (subst ret(1)) (simp add: m4_def [symmetric] ar)
  show "attempt_times (snd (monitor_step m (Update None ck))) = (if go then [t_recover ck] else [])"
    unfolding st snd_conv evs map_append attempt_times_append updateState_no_attempt
    by (simp add: a(1))
  show "mon_state (fst (monitor_step m (Update None ck))) = LOST"
    unfolding st fst_conv m' by (simp add: attemptRecovery_fields f4)
  show "mon_config (fst (monitor_step m (Update None ck))) = mon_config m"
    unfolding st fst_conv m' by (simp add: attemptRecovery_fields f4)
  show "lossStartTime (fst (monitor_step m (Update None ck))) = Some t0"
    unfolding st fst_conv m' by (simp add: a(2))
  show "recoveryInProgress (fst (monitor_step m (Update None ck))) = (recoveryInProgress m \<or> go)"
    unfolding st fst_conv m' by (simp add: a(3) f4)
  show "recoveryAttempts (fst (monitor_step m (Update None ck)))
         = (if go then Suc (recoveryAttempts m) else recoveryAttempts m)"
    unfolding st fst_conv m' by (simp add: a(4) n4)
  show "lastRecoveryTime (fst (monitor_step m (Update None ck)))
         = (if go then t_recover ck else lastRecoveryTime m)"
    unfolding st fst_conv m' by (simp add: a(5) f4)
qed


lemma monitor_run_Cons:
  "snd (monitor_run m (call # calls))
   = snd (monitor_step m call) @ snd (monitor_run (fst (monitor_step m call)) calls)"
  "fst (monitor_run m (call # calls)) = fst (monitor_run (fst (monitor_step m call)) calls)"
  by (simp_all add: case_prod_beta)

lemma default_monitor_gates:
  "positive_thresholds (mon_config default_monitor)"
  "recoveryInProgress default_monitor = False"
  "recoveryAttempts default_monitor = 0"
  "lastRecoveryTime default_monitor = 0"
  by (simp_all add: default_thresholds_positive default_monitor_fields)
     (simp_all add: default_monitor_def new_TrackingQualityMonitor_def)

text \<open>
  The face is lost at 3000 ms: no attempt in that frame. At 3500 ms the stay in \<open>LOST\<close>
  has lasted 500 ms: the first attempt.
\<close>

lemma lost_at_3000:
  "attempt_times (snd (monitor_step default_monitor (Update None (clock_at 3000)))) = []"
  "mon_state (fst (monitor_step default_monitor (Update None (clock_at 3000)))) = LOST"
  "mon_config (fst (monitor_step default_monitor (Update None (clock_at 3000))))
   = mon_config default_monitor"
  "lossStartTime (fst (monitor_step default_monitor (Update None (clock_at 3000)))) = Some 3000"
  "recoveryInProgress (fst (monitor_step default_monitor (Update None (clock_at 3000)))) = False"
  "recoveryAttempts (fst (monitor_step default_monitor (Update None (clock_at 3000)))) = 0"
  "lastRecoveryTime (fst (monitor_step default_monitor (Update None (clock_at 3000)))) = 0"
proof -
  have l: "(if mon_state default_monitor = LOST then lossStartTime default_monitor
            else Some (t_lost (clock_at 3000))) = Some 3000"
    by (simp add: default_monitor_fields clock_at_def)
  have go: "False = (recoveryDelay (mon_config default_monitor) \<le> t_recover (clock_at 3000) - 3000
               \<and> \<not> recoveryInProgress default_monitor
               \<and> recoveryAttempts default_monitor < maxRecoveryAttempts (mon_config default_monitor)
               \<and> recoveryCooldown (mon_config default_monitor)
                   \<le> t_recover (clock_at 3000) - lastRecoveryTime default_monitor)"
    by (simp add: default_monitor_fields clock_at_def)
  note a = absent_frame [OF default_monitor_gates(1) default_monitor_fields(4) l _ go]
  show "attempt_times (snd (monitor_step default_monitor (Update None (clock_at 3000)))) = []"
    using a(1) by simp
  show "mon_state (fst (monitor_step default_monitor (Update None (clock_at 3000)))) = LOST"
    using a(2) by simp
  show "mon_config (fst (monitor_step default_monitor (Update None (clock_at 3000))))
   = mon_config default_monitor"
    using a(3) by simp
  show "lossStartTime (fst (monitor_step default_monitor (Update None (clock_at 3000)))) = Some 3000"
    using a(4) by simp
  show "recoveryInProgress (fst (monitor_step default_monitor (Update None (clock_at 3000)))) = False"
    using a(5) by (simp add: default_monitor_gates)
  show "recoveryAttempts (fst (monitor_step default_monitor (Update None (clock_at 3000)))) = 0"
    using a(6) by (simp add: default_monitor_gates)
  show "lastRecoveryTime (fst (monitor_step default_monitor (Update None (clock_at 3000)))) = 0"
    using a(7) by (simp add: default_monitor_gates)
qed

lemma attempt_at_3500:
  "attempt_times (snd (monitor_step (fst (monitor_step default_monitor (Update None (clock_at 3000))))
      (Update None (clock_at 3500)))) = [3500]"
  "mon_state (fst (monitor_step (fst (monitor_step default_monitor (Update None (clock_at 3000))))
      (Update None (clock_at 3500)))) = LOST"
  "mon_config (fst (monitor_step (fst (monitor_step default_monitor (Update None (clock_at 3000))))
      (Update None (clock_at 3500)))) = mon_config default_monitor"
  "lossStartTime (fst (monitor_step (fst (monitor_step default_monitor (Update None (clock_at 3000))))
      (Update None (clock_at 3500)))) = Some 3000"
  "recoveryInProgress (fst (monitor_step (fst (monitor_step default_monitor (Update None (clock_at 3000))))
      (Update None (clock_at 3500)))) = True"
  "recoveryAttempts (fst (monitor_step (fst (monitor_step default_monitor (Update None (clock_at 3000))))
      (Update None (clock_at 3500)))) = 1"
  "lastRecoveryTime (fst (monitor_step (fst (monitor_step default_monitor (Update None (clock_at 3000))))
      (Update None (clock_at 3500)))) = 3500"
proof -
  define m1 where "m1 = fst (monitor_step default_monitor (Update None (clock_at 3000)))"
  note f = lost_at_3000 [folded m1_def]
  have p: "positive_thresholds (mon_config m1)" and e: "recoveryEnabled (mon_config m1)"
    by (simp_all add: f default_monitor_gates default_monitor_fields)
  have l: "(if mon_state m1 = LOST then lossStartTime m1 else Some (t_lost (clock_at 3500)))
           = Some 3000"
    by (simp add: f)
  have go: "True = (recoveryDelay (mon_config m1) \<le> t_recover (clock_at 3500) - 3000
               \<and> \<not> recoveryInProgress m1
               \<and> recoveryAttempts m1 < maxRecoveryAttempts (mon_config m1)
               \<and> recoveryCooldown (mon_config m1) \<le> t_recover (clock_at 3500) - lastRecoveryTime m1)"
    by (simp add: f default_monitor_fields clock_at_def)
  note a = absent_frame [OF p e l _ go]
  show "attempt_times (snd (monitor_step (fst (monitor_step default_monitor (Update None (clock_at 3000))))
      (Update None (clock_at 3500)))) = [3500]"
    unfolding m1_def [symmetric] using a(1) by (simp add: clock_at_def)
  show "mon_state (fst (monitor_step (fst (monitor_step default_monitor (Update None (clock_at 3000))))
      (Update None (clock_at 3500)))) = LOST"
    unfolding m1_def [symmetric] using a(2) by simp
  show "mon_config (fst (monitor_step (fst (monitor_step default_monitor (Update None (clock_at 3000))))
      (Update None (clock_at 3500)))) = mon_config default_monitor"
    unfolding m1_def [symmetric] using a(3) by (simp add: f)
  show "lossStartTime (fst (monitor_step (fst (monitor_step default_monitor (Update None (clock_at 3000))))
      (Update None (clock_at 3500)))) = Some 3000"
    unfolding m1_def [symmetric] using a(4) by simp
  show "recoveryInProgress (fst (monitor_step (fst (monitor_step default_monitor (Update None (clock_at 3000))))
      (Update None (clock_at 3500)))) = True"
    unfolding m1_def [symmetric] using a(5) by simp
  show "recoveryAttempts (fst (monitor_step (fst (monitor_step default_monitor (Update None (clock_at 3000))))
      (Update None (clock_at 3500)))) = 1"
    unfolding m1_def [symmetric] using a(6) by (simp add: f)
  show "lastRecoveryTime (fst (monitor_step (fst (monitor_step default_monitor (Update None (clock_at 3000))))
      (Update None (clock_at 3500)))) = 3500"
    unfolding m1_def [symmetric] using a(7) by (simp add: clock_at_def)
qed


text \<open>
  The caller reports that the attempt failed; the next attempt is at 5500 ms, when the
  cooldown of 2000 ms has passed.
\<close>

lemma retry_run_attempts:
  "attempt_times (snd (monitor_run default_monitor retry_calls)) = [3500, 5500]"
proof -
  define m2 where "m2 = fst (monitor_step (fst (monitor_step default_monitor
      (Update None (clock_at 3000)))) (Update None (clock_at 3500)))"
  note f = attempt_at_3500 [folded m2_def]
  define m3 where "m3 = fst (monitor_step m2 (RecoveryComplete False))"
  have f3: "mon_state m3 = LOST" "mon_config m3 = mon_config default_monitor"
    "lossStartTime m3 = Some 3000" "recoveryInProgress m3 = False" "recoveryAttempts m3 = 1"
    "lastRecoveryTime m3 = 3500"
    by (simp_all add: m3_def recoveryComplete_def f)
  have t3: "attempt_times (snd (monitor_step m2 (RecoveryComplete False))) = []"
    by simp
  have p: "positive_thresholds (mon_config m3)" and e: "recoveryEnabled (mon_config m3)"
    by (simp_all add: f3 default_monitor_gates default_monitor_fields)
  have l: "(if mon_state m3 = LOST then lossStartTime m3 else Some (t_lost (clock_at 5500)))
           = Some 3000"
    by (simp add: f3)
  have go: "True = (recoveryDelay (mon_config m3) \<le> t_recover (clock_at 5500) - 3000
               \<and> \<not> recoveryInProgress m3
               \<and> recoveryAttempts m3 < maxRecoveryAttempts (mon_config m3)
               \<and> recoveryCooldown (mon_config m3) \<le> t_recover (clock_at 5500) - lastRecoveryTime m3)"
    by (simp add: f3 default_monitor_fields clock_at_def)
  from absent_frame(1) [OF p e l _ go]
  have t4: "attempt_times (snd (monitor_step m3 (Update None (clock_at 5500)))) = [5500]"
    by (simp add: clock_at_def)
  show ?thesis
    unfolding retry_calls_def monitor_run_Cons attempt_times_append lost_at_3000(1)
      m2_def [symmetric] f(1) m3_def [symmetric] t3 t4
    by simp
qed

text \<open>
  The caller resets the monitor instead; the face is lost again at 3616 ms, and the
  next attempt is at 4116 ms, 616 ms after the first.
\<close>

lemma reset_run_attempts:
  "attempt_times (snd (monitor_run default_monitor reset_calls)) = [3500, 4116]"
proof -
  define m2 where "m2 = fst (monitor_step (fst (monitor_step default_monitor
      (Update None (clock_at 3000)))) (Update None (clock_at 3500)))"
  note f = attempt_at_3500 [folded m2_def]
  define m3 where "m3 = fst (monitor_step m2 Reset)"
  have f3: "mon_state m3 = INITIALIZING" "mon_config m3 = mon_config default_monitor"
    "recoveryInProgress m3 = False" "recoveryAttempts m3 = 0" "lastRecoveryTime m3 = 0"
    by (simp_all add: m3_def monitor_reset_def f)
  have t3: "attempt_times (snd (monitor_step m2 Reset)) = []"
    by simp
  have p3: "positive_thresholds (mon_config m3)" and e3: "recoveryEnabled (mon_config m3)"
    by (simp_all add: f3 default_monitor_gates default_monitor_fields)
  have l3: "(if mon_state m3 = LOST then lossStartTime m3 else Some (t_lost (clock_at 3616)))
           = Some 3616"
    by (simp add: f3 clock_at_def)
  have go3: "False = (recoveryDelay (mon_config m3) \<le> t_recover (clock_at 3616) - 3616
               \<and> \<not> recoveryInProgress m3
               \<and> recoveryAttempts m3 < maxRecoveryAttempts (mon_config m3)
               \<and> recoveryCooldown (mon_config m3) \<le> t_recover (clock_at 3616) - lastRecoveryTime m3)"
    by (simp add: f3 default_monitor_fields clock_at_def)
  define m4 where "m4 = fst (monitor_step m3 (Update None (clock_at 3616)))"
  note a = absent_frame [OF p3 e3 l3 _ go3, folded m4_def]
  have t4: "attempt_times (snd (monitor_step m3 (Update None (clock_at 3616)))) = []"
    using a(1) by simp
  have f4: "mon_state m4 = LOST" "mon_config m4 = mon_config default_monitor"
    "lossStartTime m4 = Some 3616" "recoveryInProgress m4 = False" "recoveryAttempts m4 = 0"
    "lastRecoveryTime m4 = 0"
    using a(2-7) by (simp_all add: f3)
  have p4: "positive_thresholds (mon_config m4)" and e4: "recoveryEnabled (mon_config m4)"
    by (simp_all add: f4 default_monitor_gates default_monitor_fields)
  have l4: "(if mon_state m4 = LOST then lossStartTime m4 else Some (t_lost (clock_at 4116)))
           = Some 3616"
    by (simp add: f4)
  have go4: "True = (recoveryDelay (mon_config m4) \<le> t_recover (clock_at 4116) - 3616
               \<and> \<not> recoveryInProgress m4
               \<and> recoveryAttempts m4 < maxRecoveryAttempts (mon_config m4)
               \<and> recoveryCooldown (mon_config m4) \<le> t_recover (clock_at 4116) - lastRecoveryTime m4)"
    by (simp add: f4 default_monitor_fields clock_at_def)
  from absent_frame(1) [OF p4 e4 l4 _ go4]
  have t5: "attempt_times (snd (monitor_step m4 (Update None (clock_at 4116)))) = [4116]"
    by (simp add: clock_at_def)
  show ?thesis
    unfolding reset_calls_def monitor_run_Cons attempt_times_append lost_at_3000(1)
      m2_def [symmetric] f(1) m3_def [symmetric] t3 m4_def [symmetric] t4 t5
    by simp
qed

text \<open>The cooldown check reads only the times of the attempts.\<close>

lemma cooldown_attempt_times:
  "check (cooldown_step False cd) prev tr
   = check (cooldown_step False cd) prev
       (map (\<lambda>t. Triggered (OnRecoveryAttempt t 0 NONE)) (attempt_times tr))"
  by (induction tr arbitrary: prev rule: attempt_times.induct) (simp_all split: option.splits)

text \<open>
  C8, as stated, fails: after a \<^verbatim>\<open>reset\<close> of the monitor (the face tracker's own
  \<^verbatim>\<open>reset\<close> calls it) the last recovery time is 0 again. With the default configuration
  (delay 500 ms, cooldown 2000 ms) the attempts of the execution \<open>reset_calls\<close> are at
  3500 ms and at 4116 ms, 616 ms apart.
\<close>

theorem C8_reset_restarts_cooldown:
  "recoveryCooldown (mon_config (new_TrackingQualityMonitor no_monitor_options)) = 2000
   \<and> attempt_times (snd (monitor_run (new_TrackingQualityMonitor no_monitor_options) reset_calls))
      = [3500, 4116]
   \<and> \<not> cooldown_respected False
         (recoveryCooldown (mon_config (new_TrackingQualityMonitor no_monitor_options)))
         (snd (monitor_run (new_TrackingQualityMonitor no_monitor_options) reset_calls))"
proof -
  have c: "recoveryCooldown (mon_config default_monitor) = 2000"
    by (rule default_monitor_fields)
  have "check (cooldown_step False 2000) None (snd (monitor_run default_monitor reset_calls)) = None"
    by (subst cooldown_attempt_times) (simp add: reset_run_attempts)
  then have "\<not> cooldown_respected False (recoveryCooldown (mon_config default_monitor))
         (snd (monitor_run default_monitor reset_calls))"
    by (simp add: cooldown_respected_def c)
  with c reset_run_attempts show ?thesis
    unfolding default_monitor_def by blast
qed

text \<open>
  The amended statement on the execution \<open>retry_calls\<close> of a monitor with the default
  configuration: attempts at 3500 ms and at 5500 ms.
\<close>

theorem C8_recovery_gates_witness:
  "0 < recoveryDelay (mon_config (new_TrackingQualityMonitor no_monitor_options))
   \<and> Reset \<notin> set retry_calls
   \<and> attempt_times (snd (monitor_run (new_TrackingQualityMonitor no_monitor_options) retry_calls))
      = [3500, 5500]
   \<and> dwell_respected 500 (snd (monitor_run (new_TrackingQualityMonitor no_monitor_options) retry_calls))
   \<and> count_respected False 3
        (snd (monitor_run (new_TrackingQualityMonitor no_monitor_options) retry_calls))
   \<and> cooldown_respected False 2000
        (snd (monitor_run (new_TrackingQualityMonitor no_monitor_options) retry_calls))"
proof -
  have d: "0 < recoveryDelay (mon_config (new_TrackingQualityMonitor no_monitor_options))"
    using default_monitor_fields(5) by (simp add: default_monitor_def)
  have r: "Reset \<notin> set retry_calls"
    by (simp add: retry_calls_def)
  note c = default_monitor_fields(5-7) [unfolded default_monitor_def]
  from C8_recovery_gates [of no_monitor_options retry_calls] d r
  have "dwell_respected 500 (snd (monitor_run (new_TrackingQualityMonitor no_monitor_options) retry_calls))"
    and "count_respected False 3
        (snd (monitor_run (new_TrackingQualityMonitor no_monitor_options) retry_calls))"
    and "cooldown_respected False 2000
        (snd (monitor_run (new_TrackingQualityMonitor no_monitor_options) retry_calls))"
    unfolding c by blast+
  with d r retry_run_attempts [unfolded default_monitor_def] show ?thesis
    by blast
qed


end
